theory Spec2Isabelle
  imports Complex_Main "HOL-Library.Sublist"
begin

section \<open>Strings and URLs\<close>

text \<open>
  A JavaScript string is a sequence of UTF-16 code units; a code unit is modelled as a
  natural number.  ASCII literals of the source are written with \<open>str\<close>; literals in
  Tamil script are written out as their code units.
\<close>

type_synonym ustring = "nat list"

definition str :: "string \<Rightarrow> ustring" where
  "str s = map of_char s"

text \<open>
  Every text-to-speech address of the repository is the template literal
  \<^verbatim>\<open>https://translate.google.com/translate_tts?ie=UTF-8&q=${encodeURIComponent(q)}&tl=${tl}&client=tw-ob\<close>.
  \<open>TranslateTts q tl\<close> stands for that address; \<open>Resource u\<close> is any other address,
  given as its string.
\<close>

datatype url = TranslateTts (tts_q: ustring) (tts_tl: ustring) | Resource ustring

section \<open>The text-to-speech proxy (src/tts.js)\<close>

text \<open>
  A value of \<open>req.query\<close>: a string, or an array of strings when the key is given
  more than once.  An absent key is \<open>None\<close>.
\<close>

datatype qval = QStr ustring | QArr "ustring list"

record tts_request =
  query_text :: "qval option"
  query_lang :: "qval option"

text \<open>JavaScript truthiness of a query value: only \<open>undefined\<close> and the empty string are falsy.\<close>

fun truthy :: "qval option \<Rightarrow> bool" where
  "truthy None = False"
| "truthy (Some (QStr s)) = (s \<noteq> [])"
| "truthy (Some (QArr xs)) = True"

text \<open>Conversion to a string, as a template literal and \<open>encodeURIComponent\<close> do it:
  an array is joined with commas.\<close>

fun join_comma :: "ustring list \<Rightarrow> ustring" where
  "join_comma [] = []"
| "join_comma [x] = x"
| "join_comma (x # y # ys) = x @ str '','' @ join_comma (y # ys)"

fun to_string :: "qval \<Rightarrow> ustring" where
  "to_string (QStr s) = s"
| "to_string (QArr xs) = join_comma xs"

text \<open>The destructuring default \<open>lang = 'ta'\<close> applies only when the key is absent.\<close>

definition lang_or_default :: "qval option \<Rightarrow> qval" where
  "lang_or_default l = (case l of None \<Rightarrow> QStr (str ''ta'') | Some v \<Rightarrow> v)"

text \<open>
  What the upstream service does with one request: \<open>fetch\<close> rejects, or it resolves to
  a response with a status whose body can be read or not.  \<open>Response.ok\<close> is true for
  the statuses 200 to 299.
\<close>

datatype body_read = BodyRejected | BodyBytes "nat list"
datatype upstream = FetchRejected | FetchResponse nat body_read

definition response_ok :: "nat \<Rightarrow> bool" where
  "response_ok st = (200 \<le> st \<and> st \<le> 299)"

datatype header_value = HStr string | HNum nat
datatype payload = Message string | Bytes "nat list"

record tts_response =
  statusCode :: nat
  headers :: "(string \<times> header_value) list"
  sent :: payload

definition bad_request :: tts_response where
  "bad_request = \<lparr>statusCode = 400, headers = [], sent = Message ''Text query parameter is required''\<rparr>"

definition internal_error :: tts_response where
  "internal_error = \<lparr>statusCode = 500, headers = [], sent = Message ''Internal Server Error''\<rparr>"

definition upstream_failed :: "nat \<Rightarrow> tts_response" where
  "upstream_failed st = \<lparr>statusCode = st, headers = [], sent = Message ''Failed to fetch TTS from Google''\<rparr>"

definition audio_response :: "nat list \<Rightarrow> tts_response" where
  "audio_response bs =
     \<lparr>statusCode = 200,
      headers = [(''Content-Type'', HStr ''audio/mpeg''), (''Content-Length'', HNum (length bs))],
      sent = Bytes bs\<rparr>"

text \<open>The address asked of the upstream; an absent \<open>text\<close> would be written
  \<open>undefined\<close> by \<open>encodeURIComponent\<close>, but the handler returns before building it.\<close>

definition ttsUrl :: "tts_request \<Rightarrow> url" where
  "ttsUrl req =
     TranslateTts (case query_text req of None \<Rightarrow> str ''undefined'' | Some t \<Rightarrow> to_string t)
                  (to_string (lang_or_default (query_lang req)))"

text \<open>\<open>module.exports\<close>: the handler, given the upstream's answer to each address.\<close>

definition tts_handler :: "(url \<Rightarrow> upstream) \<Rightarrow> tts_request \<Rightarrow> tts_response" where
  "tts_handler fetch req =
     (if \<not> truthy (query_text req) then bad_request
      else case fetch (ttsUrl req) of
             FetchRejected \<Rightarrow> internal_error
           | FetchResponse st body \<Rightarrow>
               if \<not> response_ok st then upstream_failed st
               else (case body of
                       BodyRejected \<Rightarrow> internal_error
                     | BodyBytes bs \<Rightarrow> audio_response bs))"

text \<open>A server answers a sequence of requests one by one; the module holds no variable
  that one request could leave for the next.\<close>

definition serve :: "(url \<Rightarrow> upstream) \<Rightarrow> tts_request list \<Rightarrow> tts_response list" where
  "serve fetch reqs = map (tts_handler fetch) reqs"

definition upstream_down :: "url \<Rightarrow> upstream" where
  "upstream_down u = FetchRejected"

definition upstream_hello :: "url \<Rightarrow> upstream" where
  "upstream_hello u = (if u = TranslateTts (str ''hello'') (str ''ta'')
                       then FetchResponse 200 (BodyBytes [73, 68, 51])
                       else FetchResponse 404 (BodyBytes []))"

definition empty_text_request :: tts_request where
  "empty_text_request = \<lparr>query_text = Some (QStr []), query_lang = None\<rparr>"

definition hello_request :: tts_request where
  "hello_request = \<lparr>query_text = Some (QStr (str ''hello'')), query_lang = None\<rparr>"

section \<open>String operations of the platform\<close>

text \<open>\<open>String.prototype.includes\<close>: the argument occurs as a contiguous run of code units.\<close>

definition jsIncludes :: "ustring \<Rightarrow> ustring \<Rightarrow> bool" where
  "jsIncludes s k = sublist k s"

text \<open>\<open>replace(/[.,?]/g, '')\<close>: full stop 46, comma 44 and question mark 63 are removed.\<close>

definition stripPunctuation :: "ustring \<Rightarrow> ustring" where
  "stripPunctuation s = filter (\<lambda>c. c \<noteq> 46 \<and> c \<noteq> 44 \<and> c \<noteq> 63) s"

text \<open>\<open>replace(/-/g, ' ')\<close>: every hyphen 45 becomes a space 32.\<close>

definition hyphensToSpaces :: "ustring \<Rightarrow> ustring" where
  "hyphensToSpaces s = map (\<lambda>c. if c = 45 then 32 else c) s"

text \<open>\<open>String.prototype.trim\<close> removes leading and trailing white space and line
  terminators, as ECMAScript lists them.\<close>

definition isWhiteSpace :: "nat \<Rightarrow> bool" where
  "isWhiteSpace c =
     (c = 9 \<or> c = 10 \<or> c = 11 \<or> c = 12 \<or> c = 13 \<or> c = 32 \<or> c = 160 \<or> c = 5760
      \<or> (8192 \<le> c \<and> c \<le> 8202) \<or> c = 8232 \<or> c = 8233 \<or> c = 8239 \<or> c = 8287
      \<or> c = 12288 \<or> c = 65279)"

definition trim :: "ustring \<Rightarrow> ustring" where
  "trim s = rev (dropWhile isWhiteSpace (rev (dropWhile isWhiteSpace s)))"

text \<open>
  \<open>String.prototype.toLowerCase\<close> is a function of the platform over all of Unicode.
  The functions below take it as their first argument \<open>toLowerCase\<close>, so what is proved
  of them holds for every such function.  \<open>asciiLower\<close>, which lowers the letters A to Z
  and leaves every other code unit alone, agrees with it on Basic Latin and on Tamil
  script (which has no case); concrete evaluations use it.
\<close>

definition asciiLower :: "ustring \<Rightarrow> ustring" where
  "asciiLower s = map (\<lambda>c. if 65 \<le> c \<and> c \<le> 90 then c + 32 else c) s"

section \<open>The application shell (src/App.tsx)\<close>

subsection \<open>Data\<close>

text \<open>The values \<open>currentScreen\<close> takes: the string literals
  initial, welcome, landing, surah, quizRules, quiz, duaList and duaPlayer.\<close>

datatype screen = Initial | Welcome | Landing | Surah | QuizRules | Quiz | DuaList | DuaPlayer

text \<open>src/types.ts\<close>

record surah_entry =
  surah_name :: ustring
  surah_number :: nat
  surah_audio :: ustring

record dua =
  dua_name :: ustring
  dua_arabic :: ustring
  dua_translationTamil :: ustring
  dua_keywords :: "ustring list"

text \<open>
  The Tamil string literals that App.tsx shows in \<open>message\<close> and \<open>duaMessage\<close> or
  hands to the speech service, each named after what it says; the line of App.tsx that
  holds the literal is given.
  \<^item> \<open>NoMessage\<close>: the empty string.
  \<^item> \<open>ListeningMsg\<close>: lines 109 and 111.
  \<^item> \<open>RecitationStopped\<close>: line 146 (recitation stopped; press the microphone to listen again).
  \<^item> \<open>RecitationFinished\<close>: line 157 (recitation finished; say the name of the next surah).
  \<^item> \<open>Reciting n\<close>: line 185, with the surah's name.
  \<^item> \<open>NowReciting n k\<close>: line 202, with the surah's name and number.
  \<^item> \<open>AudioFileMissing\<close>: line 190.
  \<^item> \<open>SurahNotFound\<close>: lines 205 and 229 (the same literal).
  \<^item> \<open>DuaNotFound\<close>: line 264.
  \<^item> \<open>NotUnderstood\<close>: lines 296 and 590 (sorry, I did not understand; try again).
  \<^item> \<open>UseButtons\<close>: line 299 (sorry, I cannot detect your voice; use the buttons on the screen).
  \<^item> \<open>NetworkError\<close>, \<open>NoSpeechHeard\<close>, \<open>MicrophoneDenied\<close>: lines 594, 597 and 601.
  \<^item> \<open>ArabicGreeting\<close>, \<open>TamilIntro\<close>: lines 323 and 324, spoken on the welcome screen.
  \<^item> \<open>LandingGreeting\<close>, \<open>LandingChoice\<close>: lines 423 and 424.
  \<^item> \<open>RulesLine i\<close>: entry \<open>i\<close> of \<open>audioQueue\<close>, lines 452 to 460 (the title, then four rules).
  \<^item> \<open>SurahInstruction\<close>, \<open>DuaInstruction\<close>: lines 510 and 511.
\<close>

datatype msg =
    NoMessage | ListeningMsg | RecitationStopped | RecitationFinished
  | Reciting ustring | NowReciting ustring nat | AudioFileMissing | SurahNotFound
  | DuaNotFound | NotUnderstood | UseButtons | NetworkError | NoSpeechHeard | MicrophoneDenied
  | ArabicGreeting | TamilIntro | LandingGreeting | LandingChoice | RulesLine nat
  | SurahInstruction | DuaInstruction

text \<open>What \<open>audio.src\<close> holds: nothing yet, the speech service's address for a literal
  and a language (\<open>tl\<close>), or the address of a recitation file.\<close>

datatype audio_src = NoSrc | Tts msg ustring | AudioFile ustring

text \<open>
  The values of React state that the callbacks of one render close over.  A callback
  reads these, never the state as it is when the callback runs.
\<close>

record render =
  r_currentScreen :: screen
  r_currentSurah :: ustring
  r_currentDua :: "dua option"
  r_failedRecognitionAttempts :: nat

text \<open>
  The screens' effects attach pairs of closures \<open>onEnded\<close> and \<open>onError\<close> to the audio
  element with \<open>addEventListener\<close>.  Every run of such an effect has a variable
  \<open>cancelled\<close> of its own, which the pair reads and the run's cleanup sets; the runs are
  numbered, and a pair is named by the site that creates it and the number of its run:
  \<^item> \<open>WelcomeClip isLast k\<close>: \<open>playAudio\<close> of the welcome effect, lines 337 to 353;
  \<^item> \<open>LandingClip i k\<close>: \<open>playAudio\<close> of the landing effect, lines 403 to 412, for the
    greeting (\<open>i = 0\<close>) and for the choice that follows it;
  \<^item> \<open>RulesClip i k\<close>: the quiz rules effect, lines 472 to 482, for entry \<open>i\<close> of the queue;
  \<^item> \<open>Instruction scr k\<close>: the effect of the surah screen and the dua list, lines 517 to
    527, with the screen that its \<open>startListening\<close> closed over.
\<close>

datatype listener =
    WelcomeClip bool nat | LandingClip nat nat | RulesClip nat nat | Instruction screen nat

datatype audio_event = EndedEvent | ErrorEvent

text \<open>
  The closures that App.tsx assigns to a property of the audio element or hands to the
  \<open>catch\<close> of a \<open>play()\<close> promise:
  \<^item> \<open>RetryListening scr again\<close>: lines 307 to 313, \<open>if (shouldListenAgain) startListening()\<close>,
    with the screen that \<open>startListening\<close> closed over;
  \<^item> \<open>PostRecitationFailed scr\<close>: lines 163 to 167;
  \<^item> \<open>SurahPlayFailed\<close>: lines 188 to 191;
  \<^item> \<open>SetIsPlaying\<close>: lines 192 and 247, \<open>onplaying\<close>;
  \<^item> \<open>ListenerFailed l\<close>: the \<open>onError\<close> of the pair \<open>l\<close>, in \<open>audio.play().catch(onError)\<close>.
\<close>

datatype audio_handler =
    RetryListening screen bool | PostRecitationFailed screen | SurahPlayFailed | SetIsPlaying
  | ListenerFailed listener

text \<open>The audio element.  \<open>listeners\<close> holds what \<open>addEventListener\<close> added, in the order
  of the calls; the \<open>onended\<close> and \<open>onerror\<close> properties are kept apart.\<close>

record audio =
  src :: audio_src
  paused :: bool
  currentTime :: nat
  onended :: "audio_handler option"
  onerror :: "audio_handler option"
  onplaying :: "audio_handler option"
  play_catch :: "audio_handler option"
  listeners :: "(audio_event \<times> listener) list"

record recognizer =
  rec_lang :: ustring
  rec_started :: bool

text \<open>Callbacks of pending \<open>setTimeout\<close> calls: the playback limit of \<open>playSurah\<close>
  (lines 194 to 198, with the render whose \<open>handlePlaybackEnd\<close> it calls), its delayed
  message (lines 201 to 203), and the delay before the landing greeting (line 425, with
  the number of the effect's run).\<close>

datatype timer_callback = PlaybackLimit render | ShowNowReciting ustring nat | LandingDelay nat

record app =
  currentScreen :: screen
  isListening :: bool
  transcription :: ustring
  isPlaying :: bool
  currentSurah :: ustring
  message :: msg
  currentDua :: "dua option"
  duaMessage :: msg
  failedRecognitionAttempts :: nat
  audioRef :: "audio option"
  recognitionRef :: "recognizer option"
  isWelcomeSequencePlaying :: bool
  postRecitationActionInProgress :: bool
  playbackTimerRef :: "nat option"
  timers :: "(nat \<times> timer_callback) list"
  nextTimer :: nat
  speechSynthesis :: "ustring list option"
  cancelled :: "bool list"

definition render_of :: "app \<Rightarrow> render" where
  "render_of s =
     \<lparr>r_currentScreen = currentScreen s, r_currentSurah = currentSurah s,
      r_currentDua = currentDua s, r_failedRecognitionAttempts = failedRecognitionAttempts s\<rparr>"

subsection \<open>Platform calls\<close>

text \<open>\<open>clearTimeout\<close> and \<open>setTimeout\<close> on the window's pending timers.\<close>

definition clearTimeout :: "nat \<Rightarrow> app \<Rightarrow> app" where
  "clearTimeout t s = s\<lparr>timers := filter (\<lambda>p. fst p \<noteq> t) (timers s)\<rparr>"

definition setTimeout :: "timer_callback \<Rightarrow> app \<Rightarrow> nat \<times> app" where
  "setTimeout cb s = (nextTimer s, s\<lparr>timers := timers s @ [(nextTimer s, cb)], nextTimer := Suc (nextTimer s)\<rparr>)"

text \<open>\<open>audio.src = u; audio.play().catch(h)\<close>: loading rewinds the element, \<open>play\<close>
  clears \<open>paused\<close>, and \<open>h\<close> waits for the promise to reject.\<close>

definition load_and_play :: "audio_src \<Rightarrow> audio_handler \<Rightarrow> audio \<Rightarrow> audio" where
  "load_and_play u h a = a\<lparr>src := u, paused := False, currentTime := 0, play_catch := Some h\<rparr>"

text \<open>\<open>audio.addEventListener('ended', onEnded); audio.addEventListener('error', onError)\<close>
  and the two calls of \<open>removeEventListener\<close> with which every pair starts.\<close>

definition add_listeners :: "listener \<Rightarrow> audio \<Rightarrow> audio" where
  "add_listeners l a = a\<lparr>listeners := listeners a @ [(EndedEvent, l), (ErrorEvent, l)]\<rparr>"

definition remove_listeners :: "listener \<Rightarrow> app \<Rightarrow> app" where
  "remove_listeners l s =
     (case audioRef s of
        None \<Rightarrow> s
      | Some a \<Rightarrow> s\<lparr>audioRef := Some (a\<lparr>listeners := filter (\<lambda>p. snd p \<noteq> l) (listeners a)\<rparr>)\<rparr>)"

text \<open>The variable \<open>cancelled\<close> of an effect's run: \<open>let cancelled = false\<close> starts a run,
  the cleanup of the run assigns \<open>true\<close>.\<close>

definition new_run :: "app \<Rightarrow> nat \<times> app" where
  "new_run s = (length (cancelled s), s\<lparr>cancelled := cancelled s @ [False]\<rparr>)"

definition cancel_run :: "nat \<Rightarrow> app \<Rightarrow> app" where
  "cancel_run k s = s\<lparr>cancelled := (cancelled s)[k := True]\<rparr>"

definition is_cancelled :: "app \<Rightarrow> nat \<Rightarrow> bool" where
  "is_cancelled s k = (k < length (cancelled s) \<and> cancelled s ! k)"

subsection \<open>Callbacks\<close>

text \<open>\<open>stopListening\<close>, lines 62 to 66.\<close>

definition stopListening :: "app \<Rightarrow> app" where
  "stopListening s =
     (case recognitionRef s of
        None \<Rightarrow> s
      | Some r \<Rightarrow> s\<lparr>recognitionRef := Some (r\<lparr>rec_started := False\<rparr>)\<rparr>)"

text \<open>\<open>stopPlayback\<close>, lines 68 to 93; \<open>scr\<close> is the \<open>currentScreen\<close> it closed over.\<close>

definition stopPlayback :: "screen \<Rightarrow> bool \<Rightarrow> app \<Rightarrow> app" where
  "stopPlayback scr clearState s =
     (let s1 = (case playbackTimerRef s of
                  None \<Rightarrow> s
                | Some t \<Rightarrow> (clearTimeout t s)\<lparr>playbackTimerRef := None\<rparr>);
          s2 = (case audioRef s1 of
                  None \<Rightarrow> s1
                | Some a \<Rightarrow> s1\<lparr>audioRef :=
                      Some (a\<lparr>paused := True, currentTime := 0, onended := None, onerror := None\<rparr>)\<rparr>);
          s3 = (case speechSynthesis s2 of
                  None \<Rightarrow> s2
                | Some q \<Rightarrow> s2\<lparr>speechSynthesis := Some []\<rparr>);
          s4 = s3\<lparr>isPlaying := False\<rparr>
      in if clearState
         then (let s5 = (if scr \<noteq> DuaPlayer then s4\<lparr>currentDua := None\<rparr> else s4)
               in if scr \<noteq> Surah then s5\<lparr>currentSurah := []\<rparr> else s5)
         else s4)"

text \<open>\<open>startListening\<close>, lines 95 to 120.  \<open>recognition.start()\<close> on a recognizer that
  is already started throws, and the catch only logs.\<close>

definition startListening :: "screen \<Rightarrow> bool \<Rightarrow> app \<Rightarrow> app" where
  "startListening scr force s =
     (if \<not> force \<and> (case audioRef s of None \<Rightarrow> False | Some a \<Rightarrow> \<not> paused a)
           \<and> \<not> isWelcomeSequencePlaying s
      then s
      else case recognitionRef s of
             None \<Rightarrow> s
           | Some r \<Rightarrow>
               (let lang = (if scr = Landing \<or> scr = DuaList then str ''ta-IN'' else str ''en-US'');
                    s1 = s\<lparr>recognitionRef := Some (r\<lparr>rec_lang := lang\<rparr>), transcription := []\<rparr>;
                    s2 = (if scr = DuaList then s1\<lparr>duaMessage := ListeningMsg\<rparr>
                          else if scr \<noteq> Welcome \<and> scr \<noteq> Landing then s1\<lparr>message := ListeningMsg\<rparr>
                          else s1)
                in s2\<lparr>isListening := True,
                       recognitionRef := Some (r\<lparr>rec_lang := lang, rec_started := True\<rparr>)\<rparr>))"

text \<open>\<open>goBackToDuaList\<close>, lines 122 to 129.\<close>

definition goBackToDuaList :: "screen \<Rightarrow> app \<Rightarrow> app" where
  "goBackToDuaList scr s =
     (stopListening (stopPlayback scr True s))
       \<lparr>currentDua := None, currentScreen := DuaList, transcription := [], duaMessage := NoMessage\<rparr>"

text \<open>\<open>goBack\<close>, lines 618 to 627.\<close>

definition goBack :: "screen \<Rightarrow> app \<Rightarrow> app" where
  "goBack scr s =
     (stopListening (stopPlayback scr True s))
       \<lparr>currentScreen := Landing, transcription := [], message := NoMessage, duaMessage := NoMessage,
        currentDua := None, isListening := False\<rparr>"

text \<open>\<open>handlePlaybackEnd\<close>, lines 131 to 177, as created in render \<open>r\<close>.\<close>

definition handlePlaybackEnd :: "render \<Rightarrow> bool \<Rightarrow> app \<Rightarrow> app" where
  "handlePlaybackEnd r isManualStop s =
     (let scr = r_currentScreen r in
      if postRecitationActionInProgress s
      then startListening scr True (s\<lparr>postRecitationActionInProgress := False\<rparr>)
      else if isWelcomeSequencePlaying s then s
      else let wasPlayingSurah = (r_currentSurah r \<noteq> []);
               wasPlayingDua = (r_currentDua r \<noteq> None)
           in if isManualStop
              then (let s1 = stopPlayback scr True s;
                        s2 = (if scr = Surah then s1\<lparr>message := RecitationStopped\<rparr>
                              else if scr = DuaPlayer then goBackToDuaList scr s1
                              else s1)
                    in s2\<lparr>transcription := []\<rparr>)
              else if scr = Surah \<and> wasPlayingSurah
              then (let s1 = (stopPlayback scr True s)
                               \<lparr>postRecitationActionInProgress := True, message := RecitationFinished\<rparr>
                    in case audioRef s1 of
                         Some a \<Rightarrow>
                           s1\<lparr>audioRef := Some (load_and_play (Tts RecitationFinished (str ''ta''))
                                                   (PostRecitationFailed scr) a)\<rparr>
                       | None \<Rightarrow>
                           startListening scr True (s1\<lparr>postRecitationActionInProgress := False\<rparr>))
              else if scr = DuaPlayer \<and> wasPlayingDua
              then goBackToDuaList scr (stopPlayback scr True s)
              else s)"

text \<open>\<open>playSurah\<close>, lines 179 to 207.  \<open>surahDatabase\<close> (src/surah-data, not among the
  sources) is a parameter: the object's entries in the order of \<open>Object.keys\<close>.\<close>

definition playSurah :: "(ustring \<times> surah_entry) list \<Rightarrow> render \<Rightarrow> ustring \<Rightarrow> app \<Rightarrow> app" where
  "playSurah surahDatabase r surahKey s =
     (case map_of surahDatabase surahKey of
        None \<Rightarrow> s\<lparr>message := SurahNotFound\<rparr>
      | Some surah \<Rightarrow>
          (let s1 = (stopPlayback (r_currentScreen r) True s)
                      \<lparr>currentSurah := surah_name surah, message := Reciting (surah_name surah)\<rparr>;
               s2 = (case audioRef s1 of
                       None \<Rightarrow> s1
                     | Some a \<Rightarrow>
                         (let s1a = s1\<lparr>audioRef := Some ((load_and_play (AudioFile (surah_audio surah))
                                                              SurahPlayFailed a)
                                                            \<lparr>onplaying := Some SetIsPlaying\<rparr>)\<rparr>;
                              (t, s1b) = setTimeout (PlaybackLimit r) s1a
                          in s1b\<lparr>playbackTimerRef := Some t\<rparr>))
           in snd (setTimeout (ShowNowReciting (surah_name surah) (surah_number surah)) s2)))"

text \<open>\<open>Object.keys(surahDatabase).sort((a, b) => b.length - a.length)\<close>: a stable sort
  by descending length.\<close>

definition sortByLengthDesc :: "ustring list \<Rightarrow> ustring list" where
  "sortByLengthDesc ks = sort_key (\<lambda>k. - int (length k)) ks"

text \<open>\<open>handleVoiceCommand\<close>, lines 215 to 231.\<close>

definition findSurahKey :: "(ustring \<Rightarrow> ustring) \<Rightarrow> ustring list \<Rightarrow> ustring \<Rightarrow> ustring option" where
  "findSurahKey toLowerCase surahKeys command =
     find (\<lambda>key. jsIncludes (toLowerCase command) key
                \<or> jsIncludes (toLowerCase command) (hyphensToSpaces key)) surahKeys"

definition handleVoiceCommand ::
  "(ustring \<Rightarrow> ustring) \<Rightarrow> (ustring \<times> surah_entry) list \<Rightarrow> render \<Rightarrow> ustring \<Rightarrow> app \<Rightarrow> app" where
  "handleVoiceCommand toLowerCase surahDatabase r command s =
     (if command = [] then s
      else case findSurahKey toLowerCase (sortByLengthDesc (map fst surahDatabase)) command of
             Some foundSurahKey \<Rightarrow> playSurah surahDatabase r foundSurahKey s
           | None \<Rightarrow> s\<lparr>message := SurahNotFound\<rparr>)"




text \<open>\<open>handleLandingCommand\<close>, lines 268 to 318.  The keyword literals in Tamil script are
  written as their code units.\<close>

definition surahKeywords :: "ustring list" where
  "surahKeywords = [[0xB9A, 0xBC2, 0xBB0, 0xBBE], [0xB9A, 0xBC1, 0xBB0, 0xBBE], str ''surah'']"

definition quizKeywords :: "ustring list" where
  "quizKeywords =
     [[0xBB5, 0xBBF, 0xBA9, 0xBBE, 0xB9F, 0xBBF, 0x20, 0xBB5, 0xBBF, 0xBA9, 0xBBE],
      str ''quiz'', str ''vinadi vina'']"

definition duaKeywords :: "ustring list" where
  "duaKeywords = [[0xBA4, 0xBC1, 0xB86], [0xBA4, 0xBC1, 0xBB5, 0xBBE], str ''dua'']"

definition navigate :: "screen \<Rightarrow> app \<Rightarrow> app" where
  "navigate scr s = s\<lparr>failedRecognitionAttempts := 0, currentScreen := scr\<rparr>"

definition handleLandingCommand :: "(ustring \<Rightarrow> ustring) \<Rightarrow> render \<Rightarrow> ustring \<Rightarrow> app \<Rightarrow> app" where
  "handleLandingCommand toLowerCase r command s =
     (let lowerCommand = trim (stripPunctuation (toLowerCase command)) in
      if list_ex (jsIncludes lowerCommand) surahKeywords then navigate Surah s
      else if list_ex (jsIncludes lowerCommand) quizKeywords then navigate QuizRules s
      else if list_ex (jsIncludes lowerCommand) duaKeywords then navigate DuaList s
      else (let newAttemptCount = r_failedRecognitionAttempts r + 1;
                s1 = stopListening (s\<lparr>failedRecognitionAttempts := newAttemptCount\<rparr>);
                errorMsg = (if newAttemptCount < 3 then NotUnderstood else UseButtons);
                shouldListenAgain = (newAttemptCount < 3);
                retry = RetryListening (r_currentScreen r) shouldListenAgain
            in case audioRef s1 of
                 Some a \<Rightarrow>
                   s1\<lparr>audioRef := Some ((load_and_play (Tts errorMsg (str ''ta'')) retry a)
                                          \<lparr>onended := Some retry\<rparr>)\<rparr>
               | None \<Rightarrow> if shouldListenAgain then startListening (r_currentScreen r) False s1 else s1))"

subsection \<open>The effects that speak when a screen is entered\<close>

text \<open>
  \<open>playAudio\<close> of the welcome and landing effects, lines 329 to 360 and 395 to 419, for
  the run \<open>k\<close> and the pair \<open>l\<close> it creates: \<open>None\<close> when the promise is rejected at once.
\<close>

definition playAudio :: "msg \<Rightarrow> ustring \<Rightarrow> listener \<Rightarrow> nat \<Rightarrow> app \<Rightarrow> app option" where
  "playAudio text lang l k s =
     (if is_cancelled s k then None
      else case audioRef s of
             None \<Rightarrow> None
           | Some a \<Rightarrow>
               Some (s\<lparr>audioRef := Some (load_and_play (Tts text lang) (ListenerFailed l)
                                            (add_listeners l a))\<rparr>))"

text \<open>The welcome effect, lines 320 to 387, when the screen is \<open>welcome\<close>: the body up to
  the first \<open>await\<close>, what \<open>finally\<close> does, and the cleanup of run \<open>k\<close>.\<close>

definition welcome_finally :: "nat \<Rightarrow> app \<Rightarrow> app" where
  "welcome_finally k s = (if is_cancelled s k then s else s\<lparr>isWelcomeSequencePlaying := False\<rparr>)"

definition welcome_effect :: "app \<Rightarrow> app" where
  "welcome_effect s =
     (let (k, s1) = new_run (stopPlayback Welcome True s);
          s2 = s1\<lparr>isWelcomeSequencePlaying := True\<rparr>
      in case playAudio ArabicGreeting (str ''ar'') (WelcomeClip False k) k s2 of
           Some s3 \<Rightarrow> s3
         | None \<Rightarrow> welcome_finally k s2)"

definition welcome_cleanup :: "nat \<Rightarrow> app \<Rightarrow> app" where
  "welcome_cleanup k s =
     stopListening (stopPlayback Welcome True ((cancel_run k s)\<lparr>isWelcomeSequencePlaying := False\<rparr>))"

text \<open>The landing effect, lines 389 to 446, when the screen is \<open>landing\<close>: the sequence
  first waits for a timer.\<close>

definition landing_effect :: "app \<Rightarrow> app" where
  "landing_effect s =
     (let (k, s1) = new_run s;
          s2 = (stopPlayback Landing True s1)\<lparr>failedRecognitionAttempts := 0\<rparr>
      in snd (setTimeout (LandingDelay k) s2))"

definition landing_cleanup :: "nat \<Rightarrow> app \<Rightarrow> app" where
  "landing_cleanup k s = stopPlayback Landing True (cancel_run k s)"

text \<open>The quiz rules effect, lines 448 to 503: one turn of the loop of \<open>playQueue\<close> over
  the five entries of \<open>audioQueue\<close>, and the cleanup.\<close>

definition rules_next :: "nat \<Rightarrow> nat \<Rightarrow> app \<Rightarrow> app" where
  "rules_next i k s =
     (case audioRef s of
        None \<Rightarrow> s
      | Some a \<Rightarrow>
          if i < 5 \<and> \<not> is_cancelled s k
          then s\<lparr>audioRef := Some (load_and_play (Tts (RulesLine i) (str ''ta''))
                                      (ListenerFailed (RulesClip i k)) (add_listeners (RulesClip i k) a))\<rparr>
          else s)"

definition rules_effect :: "app \<Rightarrow> app" where
  "rules_effect s = (let (k, s1) = new_run (stopPlayback QuizRules True s) in rules_next 0 k s1)"

definition rules_cleanup :: "nat \<Rightarrow> app \<Rightarrow> app" where
  "rules_cleanup k s = stopPlayback QuizRules False (cancel_run k s)"

text \<open>The effect of lines 505 to 542, in a render whose screen is \<open>scr\<close>, and the cleanup
  it returns on the surah screen and on the dua list.\<close>

definition instructionText :: "screen \<Rightarrow> msg" where
  "instructionText scr = (if scr = Surah then SurahInstruction else DuaInstruction)"

definition instruction_effect :: "screen \<Rightarrow> app \<Rightarrow> app" where
  "instruction_effect scr s =
     (let (k, s1) = new_run s in
      if scr = Surah \<or> scr = DuaList
      then (let s2 = stopPlayback scr True s1 in
            case audioRef s2 of
              None \<Rightarrow> s2
            | Some a \<Rightarrow>
                s2\<lparr>audioRef := Some (load_and_play (Tts (instructionText scr) (str ''ta''))
                                        (ListenerFailed (Instruction scr k))
                                        (add_listeners (Instruction scr k) a))\<rparr>)
      else s1)"

definition instruction_cleanup :: "screen \<Rightarrow> nat \<Rightarrow> app \<Rightarrow> app" where
  "instruction_cleanup scr k s =
     (let s1 = cancel_run k s in
      case audioRef s1 of
        None \<Rightarrow> s1
      | Some a \<Rightarrow>
          if src a = Tts (instructionText scr) (str ''ta'') then stopPlayback scr False s1 else s1)"

text \<open>The cleanup of the effect that prepares the recognizer, lines 612 to 615.\<close>

definition recognition_cleanup :: "app \<Rightarrow> app" where
  "recognition_cleanup s =
     (let s1 = stopListening s in
      case speechSynthesis s1 of None \<Rightarrow> s1 | Some q \<Rightarrow> s1\<lparr>speechSynthesis := Some []\<rparr>)"

subsection \<open>Events\<close>

text \<open>
  What the pair \<open>l\<close> does when the element fires \<open>ended\<close> or \<open>error\<close>: it removes both of
  its closures and then, as its site says, starts to listen, or resolves or rejects the
  promise on which its sequence waits; what the sequence does next follows at once,
  before any other listener is called.
\<close>

definition run_listener :: "audio_event \<Rightarrow> listener \<Rightarrow> app \<Rightarrow> app" where
  "run_listener ev l s =
     (let s1 = remove_listeners l s in
      case l of
        Instruction scr k \<Rightarrow> if is_cancelled s1 k then s1 else startListening scr True s1
      | LandingClip i k \<Rightarrow>
          if is_cancelled s1 k \<or> ev = ErrorEvent then s1
          else if i = 0
          then (case playAudio LandingChoice (str ''ta'') (LandingClip 1 k) k s1 of
                  Some s2 \<Rightarrow> s2
                | None \<Rightarrow> s1)
          else startListening Landing False s1
      | RulesClip i k \<Rightarrow>
          if is_cancelled s1 k \<or> ev = ErrorEvent then s1 else rules_next (i + 1) k s1
      | WelcomeClip isLast k \<Rightarrow>
          (let s2 = (if isLast then startListening Welcome True s1 else s1) in
           if is_cancelled s2 k then s2
           else if ev = ErrorEvent \<or> isLast then welcome_finally k s2
           else case playAudio TamilIntro (str ''ta'') (WelcomeClip True k) k s2 of
                  Some s3 \<Rightarrow> s3
                | None \<Rightarrow> welcome_finally k s2))"

text \<open>What a closure assigned to a property of the audio element, or handed to the \<open>catch\<close>
  of \<open>play()\<close>, does when it is called.\<close>

definition run_audio_handler :: "audio_handler \<Rightarrow> app \<Rightarrow> app" where
  "run_audio_handler h s =
     (case h of
        RetryListening scr again \<Rightarrow> if again then startListening scr False s else s
      | PostRecitationFailed scr \<Rightarrow>
          startListening scr True (s\<lparr>postRecitationActionInProgress := False\<rparr>)
      | SurahPlayFailed \<Rightarrow> s\<lparr>message := AudioFileMissing\<rparr>
      | SetIsPlaying \<Rightarrow> s\<lparr>isPlaying := True\<rparr>
      | ListenerFailed l \<Rightarrow> run_listener ErrorEvent l s)"

text \<open>
  The listeners of an event, called one after the other: the list is the one the element
  held when the event was fired, and a listener that has been removed since is skipped.
\<close>

definition attached :: "audio_event \<Rightarrow> listener \<Rightarrow> app \<Rightarrow> bool" where
  "attached ev l s = (case audioRef s of None \<Rightarrow> False | Some a \<Rightarrow> (ev, l) \<in> set (listeners a))"

fun fire :: "audio_event \<Rightarrow> listener list \<Rightarrow> app \<Rightarrow> app" where
  "fire ev [] s = s"
| "fire ev (l # ls) s = fire ev ls (if attached ev l s then run_listener ev l s else s)"

text \<open>
  The audio element's \<open>ended\<close> event (there is an element, and it was playing): the
  browser sets \<open>paused\<close>; React, which listens on the element since it was created, calls
  the \<open>onEnded\<close> property of the latest render, line 946; then come the listeners that
  \<open>addEventListener\<close> added, and the element's \<open>onended\<close> property if it is set.  The
  browser calls the property at the place where it was last set from \<open>null\<close>; line 311 is
  its only assignment and every \<open>stopPlayback\<close> clears it, so that this place is after
  the listeners unless one of them was added while the property was set.
\<close>

definition audio_ended :: "app \<Rightarrow> app" where
  "audio_ended s =
     (case audioRef s of
        None \<Rightarrow> s
      | Some a \<Rightarrow>
          (let s1 = handlePlaybackEnd (render_of s) False (s\<lparr>audioRef := Some (a\<lparr>paused := True\<rparr>)\<rparr>);
               s2 = fire EndedEvent (map snd (filter (\<lambda>p. fst p = EndedEvent) (listeners a))) s1
           in case audioRef s2 of
                None \<Rightarrow> s2
              | Some a2 \<Rightarrow> (case onended a2 of None \<Rightarrow> s2 | Some h \<Rightarrow> run_audio_handler h s2)))"

text \<open>A timer fires: its callback runs and the timer is gone.\<close>

definition run_timer :: "timer_callback \<Rightarrow> app \<Rightarrow> app" where
  "run_timer cb s =
     (case cb of
        PlaybackLimit r \<Rightarrow>
          (case audioRef s of
             None \<Rightarrow> s
           | Some a \<Rightarrow> if \<not> paused a then handlePlaybackEnd r False s else s)
      | ShowNowReciting n k \<Rightarrow> s\<lparr>message := NowReciting n k\<rparr>
      | LandingDelay k \<Rightarrow>
          (case playAudio LandingGreeting (str ''ta'') (LandingClip 0 k) k s of
             Some s1 \<Rightarrow> s1
           | None \<Rightarrow> s))"

definition timer_fired :: "nat \<Rightarrow> app \<Rightarrow> app" where
  "timer_fired t s =
     (case map_of (timers s) t of
        None \<Rightarrow> s
      | Some cb \<Rightarrow> run_timer cb (clearTimeout t s))"

text \<open>
  A pair is spent when calling it only removes it: its run has been cancelled, and it is
  not the pair of the last welcome clip, which starts to listen whatever \<open>cancelled\<close> is.
\<close>

definition spent :: "app \<Rightarrow> listener \<Rightarrow> bool" where
  "spent s l =
     (case l of
        WelcomeClip isLast k \<Rightarrow> \<not> isLast \<and> is_cancelled s k
      | LandingClip i k \<Rightarrow> is_cancelled s k
      | RulesClip i k \<Rightarrow> is_cancelled s k
      | Instruction scr k \<Rightarrow> is_cancelled s k)"

definition set_listeners :: "(audio_event \<times> listener) list \<Rightarrow> app \<Rightarrow> app" where
  "set_listeners ls s =
     (case audioRef s of None \<Rightarrow> s | Some a \<Rightarrow> s\<lparr>audioRef := Some (a\<lparr>listeners := ls\<rparr>)\<rparr>)"

text \<open>The recognizer's \<open>onresult\<close> on the landing screen, lines 571 to 579, as registered
  in render \<open>r\<close>: the transcript is lowered and trimmed before it is handled.\<close>

definition landing_onresult :: "(ustring \<Rightarrow> ustring) \<Rightarrow> render \<Rightarrow> ustring \<Rightarrow> app \<Rightarrow> app" where
  "landing_onresult toLowerCase r spoken s =
     (let transcript = trim (toLowerCase spoken)
      in handleLandingCommand toLowerCase r transcript (s\<lparr>transcription := transcript\<rparr>))"

text \<open>The recognizer's \<open>onerror\<close>, lines 581 to 607, as registered in render \<open>r\<close>.\<close>

datatype recognition_error =
    NoSpeech | AudioCapture | Aborted | Network | NotAllowed | ServiceNotAllowed | OtherError

definition recognition_onerror ::
  "(ustring \<Rightarrow> ustring) \<Rightarrow> render \<Rightarrow> recognition_error \<Rightarrow> app \<Rightarrow> app" where
  "recognition_onerror toLowerCase r err s =
     (let s1 = s\<lparr>isListening := False\<rparr> in
      if r_currentScreen r = Landing \<and> (err = NoSpeech \<or> err = AudioCapture)
      then handleLandingCommand toLowerCase r [] s1
      else (let errorMessage = (case err of
                                  Network \<Rightarrow> NetworkError
                                | NoSpeech \<Rightarrow> NoSpeechHeard
                                | NotAllowed \<Rightarrow> MicrophoneDenied
                                | ServiceNotAllowed \<Rightarrow> MicrophoneDenied
                                | _ \<Rightarrow> NotUnderstood)
            in if r_currentScreen r = DuaList then s1\<lparr>duaMessage := errorMessage\<rparr>
               else if r_currentScreen r = Surah then s1\<lparr>message := errorMessage\<rparr>
               else s1))"

subsection \<open>Sample states\<close>

text \<open>Concrete values on which the properties below are evaluated.  The two databases
  stand for src/surah-data and src/constants.\<close>

definition sample_audio :: audio where
  "sample_audio = \<lparr>src = NoSrc, paused = True, currentTime = 0, onended = None, onerror = None,
                    onplaying = None, play_catch = None, listeners = []\<rparr>"

definition landing_state :: app where
  "landing_state =
     \<lparr>currentScreen = Landing, isListening = True, transcription = [], isPlaying = False,
      currentSurah = [], message = NoMessage, currentDua = None, duaMessage = NoMessage,
      failedRecognitionAttempts = 0, audioRef = Some sample_audio,
      recognitionRef = Some \<lparr>rec_lang = str ''ta-IN'', rec_started = True\<rparr>,
      isWelcomeSequencePlaying = False, postRecitationActionInProgress = False,
      playbackTimerRef = None, timers = [], nextTimer = 1, speechSynthesis = Some [],
      cancelled = []\<rparr>"

text \<open>One failed attempt on the landing screen: the recognizer delivers a transcript that
  names no activity, and the spoken answer plays to its end.\<close>

definition landing_failure :: "ustring \<Rightarrow> app \<Rightarrow> app" where
  "landing_failure spoken s = audio_ended (landing_onresult asciiLower (render_of s) spoken s)"

definition first_failure :: app where
  "first_failure = landing_failure (str ''hello'') landing_state"

definition second_failure :: app where
  "second_failure = landing_failure (str ''hello'') first_failure"

definition third_failure :: app where
  "third_failure = landing_failure (str ''hello'') second_failure"

text \<open>The landing screen after two failures, with the pair of a cancelled instruction
  still attached to the audio element.\<close>

definition stale_landing :: app where
  "stale_landing =
     second_failure\<lparr>cancelled := [True],
                     audioRef := map_option (add_listeners (Instruction Surah 0)) (audioRef second_failure)\<rparr>"

definition sample_surahs :: "(ustring \<times> surah_entry) list" where
  "sample_surahs =
     [(str ''fatiha'', \<lparr>surah_name = str ''Al-Fatiha'', surah_number = 1, surah_audio = str ''/audio/001.mp3''\<rparr>),
      (str ''al-fatiha'', \<lparr>surah_name = str ''Al-Fatiha'', surah_number = 1, surah_audio = str ''/audio/001.mp3''\<rparr>),
      (str ''yasin'', \<lparr>surah_name = str ''Ya-Sin'', surah_number = 36, surah_audio = str ''/audio/036.mp3''\<rparr>)]"


definition surah_screen :: app where
  "surah_screen = landing_state\<lparr>currentScreen := Surah,
                    recognitionRef := Some \<lparr>rec_lang = str ''en-US'', rec_started = False\<rparr>,
                    isListening := False\<rparr>"


text \<open>The user asks for a surah by voice, and the element reports that it plays.\<close>

definition surah_playing :: app where
  "surah_playing =
     run_audio_handler SetIsPlaying
       (handleVoiceCommand asciiLower sample_surahs (render_of surah_screen)
          (str ''play al fatiha'') surah_screen)"

text \<open>The recitation ends; while the closing prompt is spoken the user taps another
  surah in the list, which plays to its end.\<close>

definition prompt_playing :: app where
  "prompt_playing = audio_ended surah_playing"

definition tapped_during_prompt :: app where
  "tapped_during_prompt =
     run_audio_handler SetIsPlaying
       (playSurah sample_surahs (render_of prompt_playing) (str ''yasin'') prompt_playing)"

definition second_surah_ended :: app where
  "second_surah_ended = audio_ended tapped_during_prompt"

text \<open>The surah screen is entered and its instruction starts to play; the user taps a
  surah in the list before the instruction has ended, and the surah plays to its end.\<close>

definition surah_entered :: app where
  "surah_entered = instruction_effect Surah surah_screen"

definition tapped_during_instruction :: app where
  "tapped_during_instruction =
     run_audio_handler SetIsPlaying
       (playSurah sample_surahs (render_of surah_entered) (str ''yasin'') surah_entered)"

definition early_surah_ended :: app where
  "early_surah_ended = audio_ended tapped_during_instruction"

text \<open>
  The user leaves the surah screen while its instruction is spoken: \<open>goBack\<close>, the cleanups
  of the effects whose dependencies changed, and the landing effect.  Then the delay
  passes, the greeting plays to its end, and the choice plays to its end.
\<close>

definition back_on_landing :: app where
  "back_on_landing =
     landing_effect (recognition_cleanup (instruction_cleanup Surah 0 (goBack Surah surah_entered)))"

definition landing_greeting :: app where
  "landing_greeting = timer_fired 1 back_on_landing"

definition landing_choice :: app where
  "landing_choice = audio_ended landing_greeting"

definition landing_listens :: app where
  "landing_listens = audio_ended landing_choice"

text \<open>The welcome screen speaks its two clips; the quiz rules screen speaks its first two
  lines.\<close>

definition welcome_entered :: app where
  "welcome_entered = welcome_effect (surah_screen\<lparr>currentScreen := Welcome\<rparr>)"

definition welcome_listens :: app where
  "welcome_listens = audio_ended (audio_ended welcome_entered)"

definition rules_entered :: app where
  "rules_entered = rules_effect (surah_screen\<lparr>currentScreen := QuizRules\<rparr>)"

definition rules_second_line :: app where
  "rules_second_line = audio_ended rules_entered"

section \<open>The quiz screen (src/unnamed/part_000, the component QuizScreen)\<close>

subsection \<open>Data\<close>

datatype game_state = Playing | Finished

datatype quiz_status = Idle | Listening | Speaking

datatype feedback = Correct | Incorrect | FinalIncorrect

text \<open>\<open>QuizQuestion\<close> of src/types.ts.\<close>

record quiz_question =
  question :: ustring
  options :: "ustring list"
  correctAnswer :: int

text \<open>Reading a JavaScript array at an index gives \<open>undefined\<close> (here \<open>None\<close>) outside
  the array.\<close>

definition at_index :: "'a list \<Rightarrow> nat \<Rightarrow> 'a option" where
  "at_index xs i = (if i < length xs then Some (xs ! i) else None)"

definition at_number :: "'a list \<Rightarrow> int \<Rightarrow> 'a option" where
  "at_number xs k = (if 0 \<le> k \<and> nat k < length xs then Some (xs ! nat k) else None)"

text \<open>
  The texts the quiz hands to the speech service, with the line that holds the literal:
  \<^item> \<open>QuestionText q\<close>: the question itself, line 186;
  \<^item> \<open>CorrectLast\<close>, \<open>CorrectNext\<close>: lines 108 and 110;
  \<^item> \<open>IncorrectTryAgain\<close>: line 113;
  \<^item> \<open>IncorrectAnswerIs t\<close>: line 115, with the text of the correct option
    (\<open>None\<close> when \<open>correctAnswer\<close> is no index of \<open>options\<close>);
  \<^item> \<open>NotHeard\<close>: line 224;
  \<^item> \<open>SayOptionNumber\<close>: line 332, the prompt after an invalid answer;
  \<^item> \<open>ScoreAnnouncement p\<close>: line 294, with the score in percent.
\<close>

datatype speech =
    QuestionText ustring | CorrectLast | CorrectNext | IncorrectTryAgain
  | IncorrectAnswerIs "ustring option" | NotHeard | SayOptionNumber | ScoreAnnouncement int

text \<open>
  The values of React state that the callbacks of one render close over.
  \<open>c_sessionVersion\<close> stands for the identity of the \<open>sessionQuestions\<close> array, which
  React compares when it decides whether an effect runs again.
\<close>

record capture =
  c_status :: quiz_status
  c_selectedAnswer :: "nat option"
  c_sessionQuestions :: "quiz_question list"
  c_sessionVersion :: nat
  c_currentQuestionIndex :: nat
  c_attemptsLeft :: int
  c_isScored :: bool

text \<open>
  The closures attached to the audio element (\<open>onended\<close>, \<open>onerror\<close>, and the
  \<open>catch\<close> of \<open>play()\<close>; \<open>onAudioError\<close> logs and calls \<open>onAudioEnd\<close>):
  \<^item> \<open>FeedbackEnded type c\<close>: \<open>onAudioEnd\<close> of \<open>playFeedbackAudio\<close>, lines 121 to 140;
  \<^item> \<open>QuestionEnded\<close>: of \<open>playQuestionAudio\<close>, lines 190 to 200;
  \<^item> \<open>FailureNoticeEnded\<close>: of \<open>handleRecognitionFailure\<close>, lines 228 to 238;
  \<^item> \<open>InvalidNoticeEnded\<close>: of \<open>playInvalidAnswerFeedback\<close>, lines 337 to 347;
  \<^item> \<open>ScoreEnded\<close>: of the scorecard effect, lines 299 to 303.
  The callbacks of pending timers: \<open>proceedToNext\<close> of a render, the call of
  \<open>startListeningRef.current\<close>, and the delayed \<open>play()\<close> of the scorecard.
\<close>

datatype quiz_audio_handler =
    FeedbackEnded feedback capture | QuestionEnded | FailureNoticeEnded | InvalidNoticeEnded | ScoreEnded

datatype quiz_timer = ProceedToNext capture | StartListeningLater | PlayScorecard

text \<open>The audio element.  \<open>qa_sounding\<close> records whether sound is coming out of it.\<close>

record quiz_audio =
  qa_src :: "speech option"
  qa_paused :: bool
  qa_sounding :: bool
  qa_onended :: "quiz_audio_handler option"
  qa_onerror :: "quiz_audio_handler option"
  qa_play_catch :: "quiz_audio_handler option"

text \<open>
  A \<open>SpeechRecognition\<close> object: whether it is idle, started (listening), or aborted with
  its \<open>end\<close> event still to come, and the render whose values its three handlers closed
  over.  The objects live in a store; \<open>recognitionRef\<close> holds an address.
\<close>

datatype recognizer_state = RIdle | RStarted | RAborting

record quiz_recognizer =
  qr_state :: recognizer_state
  qr_closure :: capture

record quiz =
  gameState :: game_state
  sessionQuestions :: "quiz_question list"
  sessionVersion :: nat
  currentQuestionIndex :: nat
  selectedAnswer :: "nat option"
  isCorrect :: "bool option"
  score :: nat
  attemptsLeft :: int
  isScored :: bool
  status :: quiz_status
  transcript :: ustring
  questionTrigger :: nat
  recognitionRef_quiz :: "nat option"
  timeoutRef :: "nat option"
  audioRef_quiz :: "quiz_audio option"
  isMountedRef :: bool
  startListeningRef :: "capture option"
  resultProcessedRef :: bool
  recognizers :: "quiz_recognizer list"
  timers_quiz :: "(nat \<times> quiz_timer) list"
  nextTimer_quiz :: nat
  scorecardTimeout :: "nat option"
  speechRecognitionAvailable :: bool

definition capture_of :: "quiz \<Rightarrow> capture" where
  "capture_of s =
     \<lparr>c_status = status s, c_selectedAnswer = selectedAnswer s,
      c_sessionQuestions = sessionQuestions s, c_sessionVersion = sessionVersion s,
      c_currentQuestionIndex = currentQuestionIndex s, c_attemptsLeft = attemptsLeft s,
      c_isScored = isScored s\<rparr>"

subsection \<open>Platform calls\<close>

definition clearTimeout_quiz :: "nat \<Rightarrow> quiz \<Rightarrow> quiz" where
  "clearTimeout_quiz t s = s\<lparr>timers_quiz := filter (\<lambda>p. fst p \<noteq> t) (timers_quiz s)\<rparr>"

definition setTimeout_quiz :: "quiz_timer \<Rightarrow> quiz \<Rightarrow> nat \<times> quiz" where
  "setTimeout_quiz cb s =
     (nextTimer_quiz s,
      s\<lparr>timers_quiz := timers_quiz s @ [(nextTimer_quiz s, cb)], nextTimer_quiz := Suc (nextTimer_quiz s)\<rparr>)"

text \<open>\<open>abort()\<close> on the recognizer at an address: a started recognizer stops listening and
  will still fire \<open>end\<close>; on any other the call is ignored.\<close>

definition abort_recognizer :: "nat \<Rightarrow> quiz \<Rightarrow> quiz" where
  "abort_recognizer a s =
     (case at_index (recognizers s) a of
        None \<Rightarrow> s
      | Some r \<Rightarrow> if qr_state r = RStarted
                  then s\<lparr>recognizers := (recognizers s)[a := r\<lparr>qr_state := RAborting\<rparr>]\<rparr>
                  else s)"

text \<open>\<open>audio.src = ttsUrl; audio.onended = h; audio.onerror = h; audio.play().catch(h)\<close>.\<close>

definition speak :: "speech \<Rightarrow> quiz_audio_handler \<Rightarrow> quiz_audio \<Rightarrow> quiz_audio" where
  "speak t h a = a\<lparr>qa_src := Some t, qa_onended := Some h, qa_onerror := Some h,
                   qa_paused := False, qa_sounding := True, qa_play_catch := Some h\<rparr>"

subsection \<open>Callbacks\<close>

text \<open>\<open>stopAllActivity\<close>, lines 54 to 68.\<close>

definition stopAllActivity :: "quiz \<Rightarrow> quiz" where
  "stopAllActivity s =
     (let s1 = (case timeoutRef s of None \<Rightarrow> s | Some t \<Rightarrow> clearTimeout_quiz t s);
          s2 = (case recognitionRef_quiz s1 of None \<Rightarrow> s1 | Some a \<Rightarrow> abort_recognizer a s1);
          s3 = (case audioRef_quiz s2 of
                  None \<Rightarrow> s2
                | Some a \<Rightarrow>
                    if \<not> qa_paused a
                    then s2\<lparr>audioRef_quiz := Some (a\<lparr>qa_paused := True, qa_sounding := False,
                                                      qa_onended := None, qa_onerror := None,
                                                      qa_src := None\<rparr>)\<rparr>
                    else s2)
      in if isMountedRef s3 then s3\<lparr>status := Idle\<rparr> else s3)"

text \<open>\<open>proceedToNext\<close>, lines 70 to 78, as created in the render captured by \<open>c\<close>.\<close>

definition proceedToNext :: "capture \<Rightarrow> quiz \<Rightarrow> quiz" where
  "proceedToNext c s =
     (let s1 = stopAllActivity s in
      if int (c_currentQuestionIndex c) < int (length (c_sessionQuestions c)) - 1
      then s1\<lparr>currentQuestionIndex := currentQuestionIndex s1 + 1,
              questionTrigger := questionTrigger s1 + 1\<rparr>
      else if isMountedRef s1 then s1\<lparr>gameState := Finished\<rparr> else s1)"

text \<open>\<open>startListening\<close>, lines 80 to 90.  \<open>start()\<close> throws unless the recognizer is idle.\<close>

definition startListening_quiz :: "capture \<Rightarrow> quiz \<Rightarrow> quiz" where
  "startListening_quiz c s =
     (case recognitionRef_quiz s of
        None \<Rightarrow> s
      | Some a \<Rightarrow>
          if \<not> isMountedRef s \<or> c_status c \<noteq> Idle \<or> c_selectedAnswer c \<noteq> None then s
          else (let s1 = s\<lparr>resultProcessedRef := False, transcript := [], status := Listening\<rparr>
                in case at_index (recognizers s1) a of
                     Some r \<Rightarrow>
                       if qr_state r = RIdle
                       then s1\<lparr>recognizers := (recognizers s1)[a := r\<lparr>qr_state := RStarted\<rparr>]\<rparr>
                       else if isMountedRef s1 then s1\<lparr>status := Idle\<rparr> else s1
                   | None \<Rightarrow> if isMountedRef s1 then s1\<lparr>status := Idle\<rparr> else s1))"

text \<open>
  \<open>playFeedbackAudio\<close>, lines 96 to 152.  Reading \<open>currentQ.options\<close> of an undefined
  \<open>currentQ\<close> throws; every caller calls this function last, so the state at the throw is
  what the event handler leaves behind.
\<close>

definition playFeedbackAudio :: "capture \<Rightarrow> feedback \<Rightarrow> quiz \<Rightarrow> quiz" where
  "playFeedbackAudio c type s =
     (case audioRef_quiz s of
        None \<Rightarrow> s
      | Some a0 \<Rightarrow>
          (let s1 = (stopAllActivity s)\<lparr>status := Speaking\<rparr> in
           case at_index (c_sessionQuestions c) (c_currentQuestionIndex c) of
             None \<Rightarrow> s1
           | Some currentQ \<Rightarrow>
               (let correctOptionText = at_number (options currentQ) (correctAnswer currentQ);
                    spoken = (case type of
                                Correct \<Rightarrow>
                                  if int (c_currentQuestionIndex c) = int (length (c_sessionQuestions c)) - 1
                                  then CorrectLast else CorrectNext
                              | Incorrect \<Rightarrow> IncorrectTryAgain
                              | FinalIncorrect \<Rightarrow> IncorrectAnswerIs correctOptionText)
                in case audioRef_quiz s1 of
                     None \<Rightarrow> s1
                   | Some a \<Rightarrow> s1\<lparr>audioRef_quiz := Some (speak spoken (FeedbackEnded type c) a)\<rparr>)))"

text \<open>\<open>handleSelectAnswer\<close>, lines 154 to 178.  Reading \<open>question.correctAnswer\<close> of an
  undefined \<open>question\<close> throws and ends the handler.\<close>

definition handleSelectAnswer :: "capture \<Rightarrow> nat \<Rightarrow> quiz \<Rightarrow> quiz" where
  "handleSelectAnswer c index s =
     (if c_selectedAnswer c \<noteq> None then s
      else (let s1 = (stopAllActivity s)\<lparr>selectedAnswer := Some index\<rparr> in
            case at_index (c_sessionQuestions c) (c_currentQuestionIndex c) of
              None \<Rightarrow> s1
            | Some q \<Rightarrow>
                (let isAnswerCorrect = (int index = correctAnswer q);
                     s2 = s1\<lparr>isCorrect := Some isAnswerCorrect\<rparr>
                 in if isAnswerCorrect
                    then (let s3 = (if \<not> c_isScored c
                                    then s2\<lparr>score := score s2 + 1, isScored := True\<rparr>
                                    else s2)
                          in playFeedbackAudio c Correct s3)
                    else (let newAttemptsLeft = c_attemptsLeft c - 1;
                              s3 = s2\<lparr>attemptsLeft := newAttemptsLeft\<rparr>
                          in if newAttemptsLeft > 0
                             then playFeedbackAudio c Incorrect s3
                             else playFeedbackAudio c FinalIncorrect s3))))"

text \<open>\<open>playQuestionAudio\<close>, lines 180 to 211.\<close>

definition playQuestionAudio :: "quiz_question \<Rightarrow> quiz \<Rightarrow> quiz" where
  "playQuestionAudio q s =
     (case audioRef_quiz s of
        None \<Rightarrow> s
      | Some a0 \<Rightarrow>
          (let s1 = (stopAllActivity s)\<lparr>status := Speaking\<rparr> in
           case audioRef_quiz s1 of
             None \<Rightarrow> s1
           | Some a \<Rightarrow> s1\<lparr>audioRef_quiz := Some (speak (QuestionText (question q)) QuestionEnded a)\<rparr>))"

text \<open>\<open>handleRecognitionFailure\<close>, lines 213 to 252.\<close>

definition handleRecognitionFailure :: "capture \<Rightarrow> quiz \<Rightarrow> quiz" where
  "handleRecognitionFailure c s =
     (if c_selectedAnswer c \<noteq> None \<or> \<not> isMountedRef s then s
      else (let newAttemptsLeft = c_attemptsLeft c - 1;
                s1 = (stopAllActivity s)\<lparr>attemptsLeft := newAttemptsLeft\<rparr>
            in if newAttemptsLeft > 0
               then (case audioRef_quiz s1 of
                       None \<Rightarrow> s1
                     | Some a \<Rightarrow> s1\<lparr>status := Speaking,
                                     audioRef_quiz := Some (speak NotHeard FailureNoticeEnded a)\<rparr>)
               else playFeedbackAudio c FinalIncorrect s1))"

text \<open>\<open>startNewQuiz\<close>, lines 254 to 262.  The outcome of
  \<open>[...quizQuestions].sort(() => 0.5 - Math.random())\<close> is the argument \<open>shuffled\<close>.\<close>

definition startNewQuiz :: "quiz_question list \<Rightarrow> quiz \<Rightarrow> quiz" where
  "startNewQuiz shuffled s =
     (stopAllActivity s)
       \<lparr>sessionQuestions := take 5 shuffled, sessionVersion := sessionVersion s + 1,
        currentQuestionIndex := 0, questionTrigger := 0, score := 0, gameState := Playing\<rparr>"

text \<open>\<open>playInvalidAnswerFeedback\<close>, lines 326 to 359.\<close>

definition playInvalidAnswerFeedback :: "quiz \<Rightarrow> quiz" where
  "playInvalidAnswerFeedback s =
     (case audioRef_quiz s of
        None \<Rightarrow> s
      | Some a0 \<Rightarrow>
          (let s1 = (stopAllActivity s)\<lparr>status := Speaking\<rparr> in
           case audioRef_quiz s1 of
             None \<Rightarrow> s1
           | Some a \<Rightarrow> s1\<lparr>audioRef_quiz := Some (speak SayOptionNumber InvalidNoticeEnded a)\<rparr>))"

subsection \<open>The recognizer's handlers, lines 370 to 433\<close>

text \<open>The literal before the recognized text in line 374, the Tamil word for option of
  line 379 and the Tamil numerals one to four of lines 389 to 392, as code units.\<close>

definition youSaid :: ustring where
  "youSaid = [0xBA8, 0xBC0, 0xB99, 0xBCD, 0xB95, 0xBB3, 0xBCD, 0x20,
              0xB95, 0xBC2, 0xBB1, 0xBBF, 0xBAF, 0xBA4, 0xBC1, 0x3A, 0x20]"

definition tamilOption :: ustring where
  "tamilOption = [0xB86, 0xBAA, 0xBCD, 0xBB7, 0xBA9, 0xBCD]"

definition tamilOne :: ustring where
  "tamilOne = [0xB92, 0xBA9, 0xBCD, 0xBB1, 0xBC1]"

definition tamilTwo :: ustring where
  "tamilTwo = [0xB87, 0xBB0, 0xBA3, 0xBCD, 0xB9F, 0xBC1]"

definition tamilThree :: ustring where
  "tamilThree = [0xBAE, 0xBC2, 0xBA9, 0xBCD, 0xBB1, 0xBC1]"

definition tamilFour :: ustring where
  "tamilFour = [0xBA8, 0xBBE, 0xBA9, 0xBCD, 0xB95, 0xBC1]"

text \<open>The index the transcript names, lines 387 to 402; \<open>None\<close> is the source's \<open>-1\<close>.\<close>

definition answerIndex :: "ustring \<Rightarrow> ustring \<Rightarrow> nat option" where
  "answerIndex lowerCleanTranscript cleanTranscript =
     (let hasOne = (jsIncludes lowerCleanTranscript (str ''one'') \<or> jsIncludes cleanTranscript tamilOne
                    \<or> jsIncludes cleanTranscript (str ''1''));
          hasTwo = (jsIncludes lowerCleanTranscript (str ''two'') \<or> jsIncludes cleanTranscript tamilTwo
                    \<or> jsIncludes cleanTranscript (str ''2''));
          hasThree = (jsIncludes lowerCleanTranscript (str ''three'') \<or> jsIncludes cleanTranscript tamilThree
                    \<or> jsIncludes cleanTranscript (str ''3''));
          hasFour = (jsIncludes lowerCleanTranscript (str ''four'') \<or> jsIncludes cleanTranscript tamilFour
                    \<or> jsIncludes cleanTranscript (str ''4''))
      in if hasOne then Some 0
         else if hasTwo then Some 1
         else if hasThree then Some 2
         else if hasFour then Some 3
         else None)"

definition onresult :: "(ustring \<Rightarrow> ustring) \<Rightarrow> capture \<Rightarrow> ustring \<Rightarrow> quiz \<Rightarrow> quiz" where
  "onresult toLowerCase c recognizedText s =
     (if \<not> isMountedRef s \<or> c_selectedAnswer c \<noteq> None then s
      else (let s1 = s\<lparr>resultProcessedRef := True, transcript := youSaid @ recognizedText\<rparr>;
                cleanTranscript = stripPunctuation (trim recognizedText);
                lowerCleanTranscript = toLowerCase cleanTranscript
            in if lowerCleanTranscript = str ''option'' \<or> cleanTranscript = tamilOption
               then handleRecognitionFailure c s1
               else case at_index (c_sessionQuestions c) (c_currentQuestionIndex c) of
                      None \<Rightarrow> s1
                    | Some currentQ \<Rightarrow>
                        (case answerIndex lowerCleanTranscript cleanTranscript of
                           Some i \<Rightarrow> handleSelectAnswer c i s1
                         | None \<Rightarrow> playInvalidAnswerFeedback s1)))"

definition onend :: "capture \<Rightarrow> quiz \<Rightarrow> quiz" where
  "onend c s =
     (if isMountedRef s \<and> c_status c = Listening
      then (if \<not> resultProcessedRef s then handleRecognitionFailure c s else s\<lparr>status := Idle\<rparr>)
      else s)"

text \<open>\<open>onerror\<close> only writes to the console.\<close>

definition onerror_quiz :: "capture \<Rightarrow> quiz \<Rightarrow> quiz" where
  "onerror_quiz c s = s"

subsection \<open>The closures of the audio element and of the timers\<close>

definition detach_audio_handlers :: "quiz \<Rightarrow> quiz" where
  "detach_audio_handlers s =
     (case audioRef_quiz s of
        None \<Rightarrow> s
      | Some a \<Rightarrow> s\<lparr>audioRef_quiz := Some (a\<lparr>qa_onended := None, qa_onerror := None\<rparr>)\<rparr>)"

definition set_timeoutRef :: "quiz_timer \<Rightarrow> quiz \<Rightarrow> quiz" where
  "set_timeoutRef cb s = (let (t, s1) = setTimeout_quiz cb s in s1\<lparr>timeoutRef := Some t\<rparr>)"

definition run_quiz_audio_handler :: "quiz_audio_handler \<Rightarrow> quiz \<Rightarrow> quiz" where
  "run_quiz_audio_handler h s =
     (case h of
        FeedbackEnded type c \<Rightarrow>
          (let s1 = detach_audio_handlers s in
           if \<not> isMountedRef s1 then s1
           else case type of
                  Correct \<Rightarrow> set_timeoutRef (ProceedToNext c) s1
                | Incorrect \<Rightarrow>
                    set_timeoutRef StartListeningLater
                      (s1\<lparr>selectedAnswer := None, isCorrect := None, status := Idle\<rparr>)
                | FinalIncorrect \<Rightarrow> set_timeoutRef (ProceedToNext c) s1)
      | QuestionEnded \<Rightarrow>
          (let s1 = detach_audio_handlers s in
           if \<not> isMountedRef s1 then s1
           else snd (setTimeout_quiz StartListeningLater (s1\<lparr>status := Idle\<rparr>)))
      | FailureNoticeEnded \<Rightarrow>
          (let s1 = detach_audio_handlers s in
           if \<not> isMountedRef s1 then s1
           else set_timeoutRef StartListeningLater (s1\<lparr>status := Idle\<rparr>))
      | InvalidNoticeEnded \<Rightarrow>
          (let s1 = detach_audio_handlers s in
           if \<not> isMountedRef s1 then s1
           else set_timeoutRef StartListeningLater (s1\<lparr>status := Idle\<rparr>))
      | ScoreEnded \<Rightarrow>
          detach_audio_handlers (if isMountedRef s then s\<lparr>status := Idle\<rparr> else s))"

definition run_quiz_timer :: "quiz_timer \<Rightarrow> quiz \<Rightarrow> quiz" where
  "run_quiz_timer cb s =
     (case cb of
        ProceedToNext c \<Rightarrow> proceedToNext c s
      | StartListeningLater \<Rightarrow>
          (case startListeningRef s of
             None \<Rightarrow> s
           | Some c \<Rightarrow> if isMountedRef s then startListening_quiz c s else s)
      | PlayScorecard \<Rightarrow>
          (case audioRef_quiz s of
             None \<Rightarrow> s
           | Some a \<Rightarrow>
               if isMountedRef s
               then s\<lparr>audioRef_quiz := Some (a\<lparr>qa_paused := False, qa_sounding := True,
                                                 qa_play_catch := qa_onerror a\<rparr>)\<rparr>
               else s))"

subsection \<open>Rendering and effects\<close>

text \<open>
  The score in percent, lines 293 and 439: \<open>Math.round((score / sessionQuestions.length) * 100)\<close>,
  with \<open>Math.round x\<close> the floor of \<open>x + 1/2\<close>.  The quotient is taken exactly; for
  sessions of at most five questions no product comes near a half, so the double
  arithmetic of the platform rounds to the same integer.
\<close>

definition scorePercent :: "nat \<Rightarrow> nat \<Rightarrow> int" where
  "scorePercent sc n = \<lfloor>(rat_of_nat sc / rat_of_nat n) * 100 + 1 / 2\<rfloor>"

text \<open>The component returns the \<open>audio\<close> element only in the view of a question:
  while the game is being played and the current question exists (lines 440 to 468).\<close>

definition view_has_audio :: "quiz \<Rightarrow> bool" where
  "view_has_audio s = (gameState s = Playing \<and> currentQuestionIndex s < length (sessionQuestions s))"

definition fresh_audio :: quiz_audio where
  "fresh_audio = \<lparr>qa_src = None, qa_paused = True, qa_sounding = False, qa_onended = None,
                   qa_onerror = None, qa_play_catch = None\<rparr>"

text \<open>React attaches \<open>audioRef\<close> when the element enters the page and clears it when the
  element leaves.\<close>

definition attach_audio :: "quiz \<Rightarrow> quiz" where
  "attach_audio s =
     (if view_has_audio s
      then (case audioRef_quiz s of None \<Rightarrow> s\<lparr>audioRef_quiz := Some fresh_audio\<rparr> | Some a \<Rightarrow> s)
      else s\<lparr>audioRef_quiz := None\<rparr>)"

text \<open>The effect of lines 274 to 286; \<open>snap\<close> is the render it belongs to.\<close>

definition question_effect :: "quiz \<Rightarrow> quiz \<Rightarrow> quiz" where
  "question_effect snap s =
     (if gameState snap = Playing \<and> sessionQuestions snap \<noteq> []
      then (case at_index (sessionQuestions snap) (currentQuestionIndex snap) of
              None \<Rightarrow> s
            | Some q \<Rightarrow>
                playQuestionAudio q
                  (s\<lparr>selectedAnswer := None, isCorrect := None, transcript := [],
                     attemptsLeft := 3, isScored := False\<rparr>))
      else s)"

text \<open>The effect of lines 288 to 324.  Its cleanup clears the timeout of its last run.\<close>

definition scorecard_cleanup :: "quiz \<Rightarrow> quiz" where
  "scorecard_cleanup s =
     (case scorecardTimeout s of
        None \<Rightarrow> s
      | Some t \<Rightarrow> (clearTimeout_quiz t s)\<lparr>scorecardTimeout := None\<rparr>)"

definition scorecard_effect :: "quiz \<Rightarrow> quiz \<Rightarrow> quiz" where
  "scorecard_effect snap s =
     (if gameState snap = Finished \<and> sessionQuestions snap \<noteq> [] \<and> audioRef_quiz s \<noteq> None
      then (let s1 = (stopAllActivity s)\<lparr>status := Speaking\<rparr>;
                p = scorePercent (score snap) (length (sessionQuestions snap));
                s2 = (case audioRef_quiz s1 of
                        None \<Rightarrow> s1
                      | Some a \<Rightarrow> s1\<lparr>audioRef_quiz :=
                            Some (a\<lparr>qa_src := Some (ScoreAnnouncement p),
                                    qa_onended := Some ScoreEnded, qa_onerror := Some ScoreEnded\<rparr>)\<rparr>);
                (t, s3) = setTimeout_quiz PlayScorecard s2
            in s3\<lparr>scorecardTimeout := Some t\<rparr>)
      else s)"

text \<open>The effect of lines 361 to 435: a new recognizer is created, its handlers close over
  the render \<open>snap\<close>, and \<open>recognitionRef\<close> is pointed at it.\<close>

definition recognition_effect :: "quiz \<Rightarrow> quiz \<Rightarrow> quiz" where
  "recognition_effect snap s =
     (if \<not> speechRecognitionAvailable s then s
      else s\<lparr>recognizers := recognizers s @ [\<lparr>qr_state = RIdle, qr_closure = capture_of snap\<rparr>],
             recognitionRef_quiz := Some (length (recognizers s))\<rparr>)"

text \<open>
  One render and its effects.  \<open>prev\<close> is the previous render and \<open>s\<close> the state being
  rendered; an effect runs when one of its dependencies differs between the two.  The
  effects run in the order in which the component declares them; they read React state
  as rendered and share the refs.
\<close>

definition question_deps :: "quiz \<Rightarrow> game_state \<times> nat \<times> nat \<times> nat" where
  "question_deps s = (gameState s, currentQuestionIndex s, questionTrigger s, sessionVersion s)"

definition scorecard_deps :: "quiz \<Rightarrow> game_state \<times> nat \<times> nat" where
  "scorecard_deps s = (gameState s, score s, sessionVersion s)"

definition render_effects :: "quiz \<Rightarrow> quiz \<Rightarrow> quiz" where
  "render_effects prev s =
     (let s1 = (attach_audio s)\<lparr>startListeningRef := Some (capture_of s)\<rparr>;
          s2 = (if question_deps prev \<noteq> question_deps s then question_effect s s1 else s1);
          s3 = (if scorecard_deps prev \<noteq> scorecard_deps s
                then scorecard_effect s (scorecard_cleanup s2) else s2)
      in if capture_of prev \<noteq> capture_of s then recognition_effect s s3 else s3)"

text \<open>An effect that sets state causes one more render; after it nothing is left to run
  (lemma \<open>commit_settled\<close> below).  Nothing is rendered once the component is unmounted.\<close>

definition commit :: "quiz \<Rightarrow> quiz \<Rightarrow> quiz" where
  "commit prev s =
     (if \<not> isMountedRef s then s
      else (let s1 = render_effects prev s in render_effects s s1))"

text \<open>
  Mounting the component: the first render shows the loading view, and every effect runs:
  \<open>startListeningRef\<close> is set, the effect of lines 264 to 271 starts a quiz, the question
  and scorecard effects find nothing to do, and the first recognizer is created.
\<close>

definition initial_quiz :: "bool \<Rightarrow> quiz" where
  "initial_quiz available =
     \<lparr>gameState = Playing, sessionQuestions = [], sessionVersion = 0, currentQuestionIndex = 0,
      selectedAnswer = None, isCorrect = None, score = 0, attemptsLeft = 3, isScored = False,
      status = Idle, transcript = [], questionTrigger = 0, recognitionRef_quiz = None,
      timeoutRef = None, audioRef_quiz = None, isMountedRef = True, startListeningRef = None,
      resultProcessedRef = False, recognizers = [], timers_quiz = [], nextTimer_quiz = 1,
      scorecardTimeout = None, speechRecognitionAvailable = available\<rparr>"

definition mount :: "bool \<Rightarrow> quiz_question list \<Rightarrow> quiz" where
  "mount available shuffled =
     (let s0 = initial_quiz available;
          s1 = (attach_audio s0)\<lparr>startListeningRef := Some (capture_of s0)\<rparr>;
          s2 = startNewQuiz shuffled (s1\<lparr>isMountedRef := True\<rparr>);
          s3 = scorecard_effect s0 (question_effect s0 s2);
          s4 = recognition_effect s0 s3
      in commit s0 s4)"

subsection \<open>Events\<close>

text \<open>
  What can happen to a mounted quiz: the audio element ends or reports an error, the
  promise of \<open>play()\<close> is rejected, a timer fires, a
  recognizer delivers a result, an error or its end, or the user presses an option, the
  microphone, play again (with the outcome of the shuffle) or home.  An event that cannot
  happen in a state (the recognizer is not started, the button is not shown or disabled)
  leaves the state as it is.  After the handler React renders and runs the effects.
\<close>

datatype quiz_event =
    AudioEnded | AudioError | PlayRejected | TimerFired nat
  | RecResult nat ustring | RecError nat | RecEnd nat
  | ClickAnswer nat | ClickMic | ClickPlayAgain "quiz_question list" | ClickHome

definition handle_event :: "(ustring \<Rightarrow> ustring) \<Rightarrow> quiz_event \<Rightarrow> quiz \<Rightarrow> quiz" where
  "handle_event toLowerCase ev s =
     (case ev of
        AudioEnded \<Rightarrow>
          (case audioRef_quiz s of
             None \<Rightarrow> s
           | Some a \<Rightarrow>
               if qa_sounding a
               then (let s1 = s\<lparr>audioRef_quiz := Some (a\<lparr>qa_paused := True, qa_sounding := False\<rparr>)\<rparr>
                     in case qa_onended a of None \<Rightarrow> s1 | Some h \<Rightarrow> run_quiz_audio_handler h s1)
               else s)
      | AudioError \<Rightarrow>
          (case audioRef_quiz s of
             None \<Rightarrow> s
           | Some a \<Rightarrow>
               (case qa_onerror a of
                  None \<Rightarrow> s
                | Some h \<Rightarrow>
                    run_quiz_audio_handler h (s\<lparr>audioRef_quiz := Some (a\<lparr>qa_sounding := False\<rparr>)\<rparr>)))
      | PlayRejected \<Rightarrow>
          (case audioRef_quiz s of
             None \<Rightarrow> s
           | Some a \<Rightarrow>
               (case qa_play_catch a of
                  None \<Rightarrow> s
                | Some h \<Rightarrow>
                    run_quiz_audio_handler h
                      (s\<lparr>audioRef_quiz := Some (a\<lparr>qa_sounding := False, qa_play_catch := None\<rparr>)\<rparr>)))
      | TimerFired t \<Rightarrow>
          (case map_of (timers_quiz s) t of
             None \<Rightarrow> s
           | Some cb \<Rightarrow> run_quiz_timer cb (clearTimeout_quiz t s))
      | RecResult a spoken \<Rightarrow>
          (case at_index (recognizers s) a of
             None \<Rightarrow> s
           | Some r \<Rightarrow> if qr_state r = RStarted then onresult toLowerCase (qr_closure r) spoken s else s)
      | RecError a \<Rightarrow>
          (case at_index (recognizers s) a of
             None \<Rightarrow> s
           | Some r \<Rightarrow> if qr_state r \<noteq> RIdle then onerror_quiz (qr_closure r) s else s)
      | RecEnd a \<Rightarrow>
          (case at_index (recognizers s) a of
             None \<Rightarrow> s
           | Some r \<Rightarrow>
               if qr_state r \<noteq> RIdle
               then onend (qr_closure r) (s\<lparr>recognizers := (recognizers s)[a := r\<lparr>qr_state := RIdle\<rparr>]\<rparr>)
               else s)
      | ClickAnswer i \<Rightarrow>
          (if view_has_audio s \<and> selectedAnswer s = None
              \<and> (case at_index (sessionQuestions s) (currentQuestionIndex s) of
                    None \<Rightarrow> False | Some q \<Rightarrow> i < length (options q))
           then handleSelectAnswer (capture_of s) i s else s)
      | ClickMic \<Rightarrow>
          (if view_has_audio s \<and> status s = Idle \<and> selectedAnswer s = None
           then startListening_quiz (capture_of s) s else s)
      | ClickPlayAgain shuffled \<Rightarrow>
          (if gameState s = Finished then startNewQuiz shuffled s else s)
      | ClickHome \<Rightarrow>
          (let s1 = scorecard_cleanup (stopAllActivity s);
               s2 = stopAllActivity (s1\<lparr>isMountedRef := False\<rparr>)
           in s2\<lparr>audioRef_quiz := None\<rparr>))"

definition step :: "(ustring \<Rightarrow> ustring) \<Rightarrow> quiz_event \<Rightarrow> quiz \<Rightarrow> quiz" where
  "step toLowerCase ev s = commit s (handle_event toLowerCase ev s)"

definition run :: "(ustring \<Rightarrow> ustring) \<Rightarrow> quiz_event list \<Rightarrow> quiz \<Rightarrow> quiz" where
  "run toLowerCase evs s = foldl (\<lambda>st ev. step toLowerCase ev st) s evs"

subsection \<open>Sample runs\<close>

text \<open>
  The states of a quiz as functions of the shuffled bank, so that what is proved of them
  holds for every bank: the component is mounted and reads the first question; the
  question ends; the timer starts the recognizer; then the user presses an option, or
  the recognizer hears something, or it hears nothing and ends.
\<close>

definition cap :: "quiz_question list \<Rightarrow> quiz_status \<Rightarrow> nat option \<Rightarrow> int \<Rightarrow> bool \<Rightarrow> capture" where
  "cap shuffled st sel att sc =
     \<lparr>c_status = st, c_selectedAnswer = sel, c_sessionQuestions = take 5 shuffled,
      c_sessionVersion = 1, c_currentQuestionIndex = 0, c_attemptsLeft = att, c_isScored = sc\<rparr>"

definition idle_recognizer :: "capture \<Rightarrow> quiz_recognizer" where
  "idle_recognizer c = \<lparr>qr_state = RIdle, qr_closure = c\<rparr>"

definition first_recognizers :: "quiz_question list \<Rightarrow> quiz_recognizer list" where
  "first_recognizers shuffled =
     [idle_recognizer (capture_of (initial_quiz True)),
      idle_recognizer (cap shuffled Idle None 3 False),
      idle_recognizer (cap shuffled Speaking None 3 False)]"

definition mounted :: "quiz_question list \<Rightarrow> quiz" where
  "mounted shuffled = mount True shuffled"

definition asked :: "(ustring \<Rightarrow> ustring) \<Rightarrow> quiz_question list \<Rightarrow> quiz" where
  "asked lc shuffled = step lc AudioEnded (mounted shuffled)"

definition listening :: "(ustring \<Rightarrow> ustring) \<Rightarrow> quiz_question list \<Rightarrow> quiz" where
  "listening lc shuffled = step lc (TimerFired 1) (asked lc shuffled)"

definition feedback_line :: "quiz_question list \<Rightarrow> speech" where
  "feedback_line shuffled = (if length (take 5 shuffled) = 1 then CorrectLast else CorrectNext)"

definition clicked :: "(ustring \<Rightarrow> ustring) \<Rightarrow> quiz_question list \<Rightarrow> nat \<Rightarrow> quiz" where
  "clicked lc shuffled k = step lc (ClickAnswer k) (listening lc shuffled)"

definition answered_twice :: "(ustring \<Rightarrow> ustring) \<Rightarrow> quiz_question list \<Rightarrow> nat \<Rightarrow> ustring \<Rightarrow> quiz" where
  "answered_twice lc shuffled k spoken = step lc (RecResult 3 spoken) (clicked lc shuffled k)"

definition silence :: "(ustring \<Rightarrow> ustring) \<Rightarrow> quiz_question list \<Rightarrow> quiz" where
  "silence lc shuffled = step lc (RecEnd 3) (step lc (RecError 3) (listening lc shuffled))"

definition heard :: "(ustring \<Rightarrow> ustring) \<Rightarrow> quiz_question list \<Rightarrow> ustring \<Rightarrow> quiz" where
  "heard lc shuffled spoken = step lc (RecResult 3 spoken) (listening lc shuffled)"

definition finished_twice :: "(ustring \<Rightarrow> ustring) \<Rightarrow> quiz_question \<Rightarrow> nat \<Rightarrow> ustring \<Rightarrow> quiz" where
  "finished_twice lc q k spoken =
     step lc (TimerFired 2) (step lc AudioEnded (answered_twice lc [q] k spoken))"

definition sample_question :: "nat \<Rightarrow> int \<Rightarrow> quiz_question" where
  "sample_question n k =
     \<lparr>question = str ''Question '' @ [48 + n],
      options = [str ''A'', str ''B'', str ''C'', str ''D''], correctAnswer = k\<rparr>"

definition sample_shuffled :: "quiz_question list" where
  "sample_shuffled =
     [sample_question 4 2, sample_question 1 0, sample_question 6 1, sample_question 2 1,
      sample_question 5 3, sample_question 3 0]"

text \<open>The React state that no effect writes.\<close>

definition kept_state :: "quiz \<Rightarrow> game_state \<times> nat \<times> nat \<times> nat \<times> quiz_question list \<times> nat" where
  "kept_state s = (gameState s, currentQuestionIndex s, questionTrigger s, sessionVersion s,
             sessionQuestions s, score s)"

section \<open>Properties of the proxy\<close>

lemma ttsUrl_hello: "ttsUrl hello_request = TranslateTts (str ''hello'') (str ''ta'')"
  by (simp add: ttsUrl_def hello_request_def lang_or_default_def)

text \<open>
  C8 (as stated, refuted): the claim says the proxy answers 400 if and only if the
  \<open>text\<close> parameter is absent.  A request whose \<open>text\<close> parameter is present but
  empty is answered 400 as well.
\<close>

theorem C8_empty_text_counterexample:
  "query_text empty_text_request \<noteq> None
   \<and> statusCode (tts_handler upstream_down empty_text_request) = 400"
  by (simp add: empty_text_request_def tts_handler_def bad_request_def)

text \<open>
  C8 (amended): the proxy answers with the 400 "required" response exactly when the
  \<open>text\<close> parameter is absent or the empty string.  Otherwise it asks the upstream
  for the address built from \<open>text\<close> and \<open>lang\<close> (\<open>ta\<close> when \<open>lang\<close> is absent):
  a rejected fetch or body read gives 500, a status outside 200..299 is forwarded, and a
  readable body is returned with status 200, Content-Type audio/mpeg and Content-Length
  the number of bytes.  The answer to a request is the same wherever it stands in a
  sequence of requests.
\<close>

theorem C8_proxy_passthrough:
  "(tts_handler fetch req = bad_request \<longleftrightarrow> query_text req = None \<or> query_text req = Some (QStr []))
   \<and> (truthy (query_text req) \<longrightarrow>
        (fetch (ttsUrl req) = FetchRejected \<longrightarrow> tts_handler fetch req = internal_error)
      \<and> (\<forall>st b. fetch (ttsUrl req) = FetchResponse st b \<and> \<not> response_ok st \<longrightarrow>
             tts_handler fetch req = upstream_failed st \<and> statusCode (tts_handler fetch req) = st)
      \<and> (\<forall>st. fetch (ttsUrl req) = FetchResponse st BodyRejected \<and> response_ok st \<longrightarrow>
             tts_handler fetch req = internal_error)
      \<and> (\<forall>st bs. fetch (ttsUrl req) = FetchResponse st (BodyBytes bs) \<and> response_ok st \<longrightarrow>
             tts_handler fetch req =
               \<lparr>statusCode = 200,
                headers = [(''Content-Type'', HStr ''audio/mpeg''), (''Content-Length'', HNum (length bs))],
                sent = Bytes bs\<rparr>))
   \<and> (query_lang req = None \<longrightarrow> tts_tl (ttsUrl req) = str ''ta'')
   \<and> (\<forall>before after. serve fetch (before @ req # after) ! length before = tts_handler fetch req)"
proof -
  have falsy: "\<not> truthy (query_text req) \<longleftrightarrow> query_text req = None \<or> query_text req = Some (QStr [])"
    by (cases "query_text req" rule: truthy.cases) simp_all
  have a: "tts_handler fetch req = bad_request \<longleftrightarrow> \<not> truthy (query_text req)"
    by (auto simp: tts_handler_def bad_request_def internal_error_def upstream_failed_def
        audio_response_def split: upstream.splits body_read.splits)
  have b: "truthy (query_text req) \<Longrightarrow> fetch (ttsUrl req) = FetchRejected \<Longrightarrow>
      tts_handler fetch req = internal_error"
    by (simp add: tts_handler_def)
  have c: "truthy (query_text req) \<Longrightarrow> fetch (ttsUrl req) = FetchResponse st b \<Longrightarrow>
      \<not> response_ok st \<Longrightarrow>
      tts_handler fetch req = upstream_failed st \<and> statusCode (tts_handler fetch req) = st" for st b
    by (simp add: tts_handler_def upstream_failed_def)
  have d: "truthy (query_text req) \<Longrightarrow> fetch (ttsUrl req) = FetchResponse st BodyRejected \<Longrightarrow>
      response_ok st \<Longrightarrow> tts_handler fetch req = internal_error" for st
    by (simp add: tts_handler_def)
  have e: "truthy (query_text req) \<Longrightarrow> fetch (ttsUrl req) = FetchResponse st (BodyBytes bs) \<Longrightarrow>
      response_ok st \<Longrightarrow> tts_handler fetch req = audio_response bs" for st bs
    by (simp add: tts_handler_def)
  have f: "query_lang req = None \<Longrightarrow> tts_tl (ttsUrl req) = str ''ta''"
    by (simp add: ttsUrl_def lang_or_default_def)
  have g: "serve fetch (before @ req # after) ! length before = tts_handler fetch req" for before after
    by (simp add: serve_def nth_append)
  show ?thesis
    using a falsy b c d e f g unfolding audio_response_def by blast
qed

theorem C8_proxy_passthrough_witness:
  "tts_handler upstream_hello hello_request =
     \<lparr>statusCode = 200,
      headers = [(''Content-Type'', HStr ''audio/mpeg''), (''Content-Length'', HNum 3)],
      sent = Bytes [73, 68, 51]\<rparr>
   \<and> truthy (query_text hello_request) \<and> query_lang hello_request = None
   \<and> tts_tl (ttsUrl hello_request) = str ''ta''
   \<and> tts_handler upstream_hello hello_request \<noteq> bad_request"
proof -
  have t: "truthy (query_text hello_request)"
    by (simp add: hello_request_def str_def)
  have l: "query_lang hello_request = None"
    by (simp add: hello_request_def)
  have u: "upstream_hello (ttsUrl hello_request) = FetchResponse 200 (BodyBytes [73, 68, 51])"
    by (simp add: ttsUrl_hello upstream_hello_def)
  have ok: "response_ok 200"
    by (simp add: response_ok_def)
  have n: "query_text hello_request \<noteq> None \<and> query_text hello_request \<noteq> Some (QStr [])"
    by (simp add: hello_request_def str_def)
  show ?thesis
    using C8_proxy_passthrough [of upstream_hello hello_request] t l u ok n
    by (simp add: bad_request_def)
qed

section \<open>Properties of the string operations\<close>

lemma jsIncludes_Nil: "jsIncludes [] k = (k = [])"
  by (simp add: jsIncludes_def)

lemma jsIncludes_Cons: "jsIncludes (x # xs) k = (prefix k (x # xs) \<or> jsIncludes xs k)"
  by (simp add: jsIncludes_def sublist_Cons_right)

lemma sublist_dropWhile:
  assumes "k \<noteq> []" "\<not> P (hd k)"
  shows "sublist k (dropWhile P s) = sublist k s"
proof (induction s)
  case Nil
  then show ?case by simp
next
  case (Cons x xs)
  show ?case
  proof (cases "P x")
    case True
    have "\<not> prefix k (x # xs)"
      using assms True by (cases k) auto
    with True Cons show ?thesis by (simp add: sublist_Cons_right)
  next
    case False
    then show ?thesis by simp
  qed
qed

lemma jsIncludes_trim:
  assumes "k \<noteq> []" "\<not> isWhiteSpace (hd k)" "\<not> isWhiteSpace (last k)"
  shows "jsIncludes (trim s) k = jsIncludes s k"
proof -
  have r: "rev k \<noteq> []" "\<not> isWhiteSpace (hd (rev k))"
    using assms by (simp_all add: hd_rev)
  have "sublist k (trim s) = sublist (rev k) (dropWhile isWhiteSpace (rev (dropWhile isWhiteSpace s)))"
    by (simp add: trim_def sublist_rev_left)
  also have "\<dots> = sublist (rev k) (rev (dropWhile isWhiteSpace s))"
    using r by (rule sublist_dropWhile)
  also have "\<dots> = sublist k (dropWhile isWhiteSpace s)"
    by simp
  also have "\<dots> = sublist k s"
    using assms(1,2) by (rule sublist_dropWhile)
  finally show ?thesis by (simp add: jsIncludes_def)
qed

lemma keyword_shape:
  "\<forall>k \<in> set (surahKeywords @ quizKeywords @ duaKeywords).
     k \<noteq> [] \<and> \<not> isWhiteSpace (hd k) \<and> \<not> isWhiteSpace (last k)"
  by (simp add: surahKeywords_def quizKeywords_def duaKeywords_def str_def isWhiteSpace_def)

lemma list_ex_trim:
  assumes "\<forall>k \<in> set ks. k \<noteq> [] \<and> \<not> isWhiteSpace (hd k) \<and> \<not> isWhiteSpace (last k)"
  shows "list_ex (jsIncludes (trim c)) ks = list_ex (jsIncludes c) ks"
  using assms by (induction ks) (simp_all add: jsIncludes_trim)

lemma surah_trim: "list_ex (jsIncludes (trim c)) surahKeywords = list_ex (jsIncludes c) surahKeywords"
  using keyword_shape by (intro list_ex_trim) simp

lemma quiz_trim: "list_ex (jsIncludes (trim c)) quizKeywords = list_ex (jsIncludes c) quizKeywords"
  using keyword_shape by (intro list_ex_trim) simp

lemma dua_trim: "list_ex (jsIncludes (trim c)) duaKeywords = list_ex (jsIncludes c) duaKeywords"
  using keyword_shape by (intro list_ex_trim) simp

lemmas eval_strings = str_def asciiLower_def trim_def stripPunctuation_def isWhiteSpace_def
  jsIncludes_Nil jsIncludes_Cons surahKeywords_def quizKeywords_def duaKeywords_def hyphensToSpaces_def

lemmas eval_app = landing_onresult_def handleLandingCommand_def navigate_def stopListening_def
  startListening_def stopPlayback_def handlePlaybackEnd_def goBackToDuaList_def audio_ended_def
  run_audio_handler_def load_and_play_def render_of_def clearTimeout_def setTimeout_def Let_def

section \<open>Properties of the application shell\<close>

subsection \<open>Listeners that are spent\<close>

lemma spent_cong: "cancelled s' = cancelled s \<Longrightarrow> spent s' l = spent s l"
  by (simp add: spent_def is_cancelled_def split: listener.splits)

lemma set_listeners_twice: "set_listeners ls (set_listeners ls' s) = set_listeners ls s"
  by (simp add: set_listeners_def split: option.splits)

lemma set_listeners_same:
  "set_listeners (case audioRef s of None \<Rightarrow> [] | Some a \<Rightarrow> listeners a) s = s"
  by (simp add: set_listeners_def split: option.splits)

lemma remove_listeners_set:
  "remove_listeners l s =
     set_listeners (case audioRef s of None \<Rightarrow> [] | Some a \<Rightarrow> filter (\<lambda>p. snd p \<noteq> l) (listeners a)) s"
  by (simp add: remove_listeners_def set_listeners_def split: option.splits)

lemma is_cancelled_remove: "is_cancelled (remove_listeners l s) k = is_cancelled s k"
  by (simp add: is_cancelled_def remove_listeners_def split: option.splits)

lemma run_listener_spent:
  assumes "spent s l"
  shows "run_listener ev l s = remove_listeners l s"
proof (cases l)
  case (WelcomeClip isLast k)
  with assms show ?thesis
    by (simp add: run_listener_def spent_def Let_def is_cancelled_remove)
next
  case (LandingClip i k)
  with assms show ?thesis
    by (simp add: run_listener_def spent_def Let_def is_cancelled_remove)
next
  case (RulesClip i k)
  with assms show ?thesis
    by (simp add: run_listener_def spent_def Let_def is_cancelled_remove)
next
  case (Instruction scr k)
  with assms show ?thesis
    by (simp add: run_listener_def spent_def Let_def is_cancelled_remove)
qed


lemma fire_spent:
  assumes "\<forall>l\<in>set ls. spent s l"
  shows "\<exists>ls'. fire ev ls s = set_listeners ls' s"
  using assms
proof (induction ls arbitrary: s)
  case Nil
  have "fire ev [] s = set_listeners (case audioRef s of None \<Rightarrow> [] | Some a \<Rightarrow> listeners a) s"
    by (simp add: set_listeners_same)
  then show ?case ..
next
  case (Cons l ls)
  define ls1 where "ls1 =
    (if attached ev l s
     then (case audioRef s of None \<Rightarrow> [] | Some a \<Rightarrow> filter (\<lambda>p. snd p \<noteq> l) (listeners a))
     else (case audioRef s of None \<Rightarrow> [] | Some a \<Rightarrow> listeners a))"
  have "spent s l" using Cons.prems by simp
  then have one: "(if attached ev l s then run_listener ev l s else s) = set_listeners ls1 s"
    by (simp add: run_listener_spent remove_listeners_set ls1_def set_listeners_same)
  have "cancelled (set_listeners ls1 s) = cancelled s"
    by (simp add: set_listeners_def split: option.splits)
  from spent_cong [OF this] have "\<forall>l\<in>set ls. spent (set_listeners ls1 s) l"
    using Cons.prems by simp
  from Cons.IH [OF this] obtain ls' where
    "fire ev ls (set_listeners ls1 s) = set_listeners ls' (set_listeners ls1 s)"
    by blast
  then have "fire ev (l # ls) s = set_listeners ls' s"
    unfolding fire.simps one by (simp add: set_listeners_twice)
  then show ?case ..
qed

text \<open>With spent listeners only, the \<open>ended\<close> event is the call of React's handler and of the
  \<open>onended\<close> property, on an element whose listeners have changed.\<close>

lemma audio_ended_spent:
  assumes "audioRef s = Some a" "\<forall>l\<in>snd ` set (listeners a). spent s l"
    and "handlePlaybackEnd (render_of s) False (s\<lparr>audioRef := Some (a\<lparr>paused := True\<rparr>)\<rparr>) = s1"
    and "cancelled s1 = cancelled s"
  shows "\<exists>ls'. audio_ended s =
           (case audioRef (set_listeners ls' s1) of
              None \<Rightarrow> set_listeners ls' s1
            | Some a2 \<Rightarrow> (case onended a2 of
                            None \<Rightarrow> set_listeners ls' s1
                          | Some h \<Rightarrow> run_audio_handler h (set_listeners ls' s1)))"
proof -
  have "\<forall>l\<in>set (map snd (filter (\<lambda>p. fst p = EndedEvent) (listeners a))). spent s1 l"
    using assms(2) by (simp add: spent_cong [OF assms(4)] image_iff)
  from fire_spent [OF this, of EndedEvent] obtain ls' where
    f: "fire EndedEvent (map snd (filter (\<lambda>p. fst p = EndedEvent) (listeners a))) s1 = set_listeners ls' s1"
    by blast
  have "audio_ended s =
           (case audioRef (fire EndedEvent (map snd (filter (\<lambda>p. fst p = EndedEvent) (listeners a))) s1) of
              None \<Rightarrow> fire EndedEvent (map snd (filter (\<lambda>p. fst p = EndedEvent) (listeners a))) s1
            | Some a2 \<Rightarrow> (case onended a2 of
                            None \<Rightarrow> fire EndedEvent (map snd (filter (\<lambda>p. fst p = EndedEvent) (listeners a))) s1
                          | Some h \<Rightarrow> run_audio_handler h (fire EndedEvent (map snd (filter (\<lambda>p. fst p = EndedEvent) (listeners a))) s1)))"
    unfolding audio_ended_def using assms(1)
    by (simp add: Let_def assms(3))
  then have "audio_ended s =
           (case audioRef (set_listeners ls' s1) of
              None \<Rightarrow> set_listeners ls' s1
            | Some a2 \<Rightarrow> (case onended a2 of
                            None \<Rightarrow> set_listeners ls' s1
                          | Some h \<Rightarrow> run_audio_handler h (set_listeners ls' s1)))"
    unfolding f .
  then show ?thesis ..
qed

subsection \<open>What the screens say when they are entered\<close>

lemmas eval_effects = welcome_effect_def welcome_finally_def landing_effect_def landing_cleanup_def
  rules_effect_def rules_next_def instruction_effect_def instruction_cleanup_def instructionText_def
  recognition_cleanup_def goBack_def playAudio_def new_run_def cancel_run_def is_cancelled_def
  add_listeners_def remove_listeners_def run_listener_def attached_def run_timer_def timer_fired_def

text \<open>The pair of the instruction that was cut short is still attached when the landing
  greeting ends, and is removed there; when the landing screen starts to listen no pair
  is attached.\<close>

lemma landing_sequence:
  "map_option listeners (audioRef back_on_landing)
     = Some [(EndedEvent, Instruction Surah 0), (ErrorEvent, Instruction Surah 0)]
   \<and> cancelled back_on_landing = [True, False]
   \<and> timers back_on_landing = [(1, LandingDelay 1)]
   \<and> map_option src (audioRef landing_greeting) = Some (Tts LandingGreeting (str ''ta''))
   \<and> map_option listeners (audioRef landing_greeting)
     = Some [(EndedEvent, Instruction Surah 0), (ErrorEvent, Instruction Surah 0),
             (EndedEvent, LandingClip 0 1), (ErrorEvent, LandingClip 0 1)]
   \<and> map_option src (audioRef landing_choice) = Some (Tts LandingChoice (str ''ta''))
   \<and> map_option listeners (audioRef landing_choice)
     = Some [(EndedEvent, LandingClip 1 1), (ErrorEvent, LandingClip 1 1)]
   \<and> \<not> isListening landing_choice
   \<and> map_option listeners (audioRef landing_listens) = Some []
   \<and> isListening landing_listens
   \<and> recognitionRef landing_listens = Some \<lparr>rec_lang = str ''ta-IN'', rec_started = True\<rparr>
   \<and> failedRecognitionAttempts landing_listens = 0"
  by (simp add: landing_listens_def landing_choice_def landing_greeting_def back_on_landing_def
      surah_entered_def surah_screen_def landing_state_def sample_audio_def eval_effects eval_app
      str_def)

lemma welcome_sequence:
  "map_option src (audioRef welcome_entered) = Some (Tts ArabicGreeting (str ''ar''))
   \<and> isWelcomeSequencePlaying welcome_entered
   \<and> map_option src (audioRef (audio_ended welcome_entered)) = Some (Tts TamilIntro (str ''ta''))
   \<and> map_option listeners (audioRef (audio_ended welcome_entered))
     = Some [(EndedEvent, WelcomeClip True 0), (ErrorEvent, WelcomeClip True 0)]
   \<and> \<not> isListening (audio_ended welcome_entered)
   \<and> map_option listeners (audioRef welcome_listens) = Some []
   \<and> isListening welcome_listens
   \<and> \<not> isWelcomeSequencePlaying welcome_listens
   \<and> recognitionRef welcome_listens = Some \<lparr>rec_lang = str ''en-US'', rec_started = True\<rparr>"
  by (simp add: welcome_listens_def welcome_entered_def surah_screen_def landing_state_def
      sample_audio_def eval_effects eval_app str_def)

lemma rules_sequence:
  "map_option src (audioRef rules_entered) = Some (Tts (RulesLine 0) (str ''ta''))
   \<and> map_option src (audioRef rules_second_line) = Some (Tts (RulesLine 1) (str ''ta''))
   \<and> map_option listeners (audioRef rules_second_line)
     = Some [(EndedEvent, RulesClip 1 0), (ErrorEvent, RulesClip 1 0)]
   \<and> \<not> isListening rules_second_line"
  by (simp add: rules_second_line_def rules_entered_def surah_screen_def landing_state_def
      sample_audio_def eval_effects eval_app str_def)

subsection \<open>Landing-screen commands\<close>

lemma first_failure_eq:
  "first_failure = landing_state
     \<lparr>transcription := [], failedRecognitionAttempts := 1,
      audioRef := Some (sample_audio\<lparr>src := Tts NotUnderstood (str ''ta''), paused := True,
                          play_catch := Some (RetryListening Landing True),
                          onended := Some (RetryListening Landing True)\<rparr>)\<rparr>"
  by (simp add: first_failure_def landing_failure_def landing_state_def sample_audio_def eval_app eval_strings)

lemma second_failure_eq:
  "second_failure = first_failure\<lparr>failedRecognitionAttempts := 2\<rparr>"
  by (simp add: second_failure_def landing_failure_def first_failure_eq landing_state_def sample_audio_def eval_app eval_strings)


text \<open>
  C5: for every landing-screen voice command, after lowercasing and stripping full stops,
  commas and question marks: if it contains a surah keyword the app navigates to the
  surah screen; otherwise if it contains a quiz keyword, to the quiz rules; otherwise if
  it contains a dua keyword, to the dua list; and every such navigation sets the counter
  of failed recognition attempts to zero and changes nothing else.  (The handler also
  trims the command; no keyword starts or ends with white space, so trimming does not
  change which keywords occur.)
\<close>

theorem C5_landing_navigation:
  fixes toLowerCase :: "ustring \<Rightarrow> ustring" and command :: ustring and r :: render and s :: app
  defines "c \<equiv> stripPunctuation (toLowerCase command)"
  defines "s' \<equiv> handleLandingCommand toLowerCase r command s"
  shows "(list_ex (jsIncludes c) surahKeywords \<longrightarrow>
            s' = s\<lparr>failedRecognitionAttempts := 0, currentScreen := Surah\<rparr>)
       \<and> (\<not> list_ex (jsIncludes c) surahKeywords \<and> list_ex (jsIncludes c) quizKeywords \<longrightarrow>
            s' = s\<lparr>failedRecognitionAttempts := 0, currentScreen := QuizRules\<rparr>)
       \<and> (\<not> list_ex (jsIncludes c) surahKeywords \<and> \<not> list_ex (jsIncludes c) quizKeywords
            \<and> list_ex (jsIncludes c) duaKeywords \<longrightarrow>
            s' = s\<lparr>failedRecognitionAttempts := 0, currentScreen := DuaList\<rparr>)
       \<and> (list_ex (jsIncludes c) (surahKeywords @ quizKeywords @ duaKeywords) \<longrightarrow>
            failedRecognitionAttempts s' = 0)"
  unfolding c_def s'_def handleLandingCommand_def Let_def surah_trim quiz_trim dua_trim navigate_def
  by auto


theorem C5_landing_navigation_witness:
  "\<not> list_ex (jsIncludes (stripPunctuation (asciiLower (str ''Start the QUIZ, or a dua?'')))) surahKeywords
   \<and> list_ex (jsIncludes (stripPunctuation (asciiLower (str ''Start the QUIZ, or a dua?'')))) quizKeywords
   \<and> list_ex (jsIncludes (stripPunctuation (asciiLower (str ''Start the QUIZ, or a dua?'')))) duaKeywords
   \<and> failedRecognitionAttempts first_failure = 1
   \<and> handleLandingCommand asciiLower (render_of first_failure) (str ''Start the QUIZ, or a dua?'') first_failure
       = first_failure\<lparr>failedRecognitionAttempts := 0, currentScreen := QuizRules\<rparr>"
proof -
  have a: "\<not> list_ex (jsIncludes (stripPunctuation (asciiLower (str ''Start the QUIZ, or a dua?'')))) surahKeywords"
    by (simp add: eval_strings)
  have b: "list_ex (jsIncludes (stripPunctuation (asciiLower (str ''Start the QUIZ, or a dua?'')))) quizKeywords"
    by (simp add: eval_strings)
  have c: "list_ex (jsIncludes (stripPunctuation (asciiLower (str ''Start the QUIZ, or a dua?'')))) duaKeywords"
    by (simp add: eval_strings)
  have d: "failedRecognitionAttempts first_failure = 1"
    by (simp add: first_failure_eq)
  from a b c d
    C5_landing_navigation [of asciiLower "str ''Start the QUIZ, or a dua?''" "render_of first_failure" first_failure]
  show ?thesis by blast
qed

text \<open>
  C2 (as stated, refuted): the claim says that after a second consecutive failure the app
  stops retrying.  After the second unrecognized command the app speaks the same apology
  and the recognizer is started again; the counter stands at 2.
\<close>

theorem C2_second_failure_counterexample:
  "failedRecognitionAttempts first_failure = 1
   \<and> failedRecognitionAttempts second_failure = 2
   \<and> recognitionRef second_failure = Some \<lparr>rec_lang = str ''ta-IN'', rec_started = True\<rparr>
   \<and> isListening second_failure
   \<and> map_option src (audioRef second_failure) = Some (Tts NotUnderstood (str ''ta''))"
  by (simp add: second_failure_eq first_failure_eq landing_state_def sample_audio_def)


text \<open>
  C2 (amended): an unrecognized command on the landing screen raises the counter of
  failed attempts to \<open>n\<close>, stops the recognizer and speaks a message.  While \<open>n < 3\<close>,
  that is after the first and after the second consecutive failure, the message is the
  apology and the recognizer is started again, once, when the message has been spoken.
  At the third consecutive failure the message directs the user to the buttons on the
  screen and the recognizer is not started again.  A recognizer error \<open>no-speech\<close> or
  \<open>audio-capture\<close> on the landing screen is handled as the empty command.  (By the time
  the landing screen listens, the pairs its greeting attached have removed themselves;
  a pair that another screen left on the element is spent once that screen's effect
  has been cleaned up, and is only removed when the message ends.)
\<close>

theorem C2_landing_retry:
  fixes toLowerCase :: "ustring \<Rightarrow> ustring" and command :: ustring and s :: app
  defines "lowerCommand \<equiv> trim (stripPunctuation (toLowerCase command))"
  defines "n \<equiv> failedRecognitionAttempts s + 1"
  defines "s1 \<equiv> handleLandingCommand toLowerCase (render_of s) command s"
  assumes unrecognised: "\<not> list_ex (jsIncludes lowerCommand) (surahKeywords @ quizKeywords @ duaKeywords)"
    and landing: "currentScreen s = Landing"
    and audio: "audioRef s = Some a"
    and recognizer: "recognitionRef s = Some rc"
    and quiet: "\<not> postRecitationActionInProgress s" "\<not> isWelcomeSequencePlaying s"
    and stale: "\<forall>l\<in>snd ` set (listeners a). spent s l"
  shows "failedRecognitionAttempts s1 = n
       \<and> currentScreen s1 = Landing
       \<and> recognitionRef s1 = Some (rc\<lparr>rec_started := False\<rparr>)
       \<and> audioRef s1 = Some (a\<lparr>src := Tts (if n < 3 then NotUnderstood else UseButtons) (str ''ta''),
                                paused := False, currentTime := 0,
                                play_catch := Some (RetryListening Landing (n < 3)),
                                onended := Some (RetryListening Landing (n < 3))\<rparr>)
       \<and> failedRecognitionAttempts (audio_ended s1) = n
       \<and> (n < 3 \<longrightarrow> recognitionRef (audio_ended s1) = Some (rc\<lparr>rec_lang := str ''ta-IN'', rec_started := True\<rparr>)
                    \<and> isListening (audio_ended s1))
       \<and> (\<not> n < 3 \<longrightarrow> recognitionRef (audio_ended s1) = Some (rc\<lparr>rec_started := False\<rparr>)
                    \<and> isListening (audio_ended s1) = isListening s)
       \<and> recognition_onerror toLowerCase (render_of s) NoSpeech s
           = handleLandingCommand toLowerCase (render_of s) [] (s\<lparr>isListening := False\<rparr>)
       \<and> recognition_onerror toLowerCase (render_of s) AudioCapture s
           = handleLandingCommand toLowerCase (render_of s) [] (s\<lparr>isListening := False\<rparr>)"
proof -
  have nokey: "\<not> list_ex (jsIncludes lowerCommand) surahKeywords"
    "\<not> list_ex (jsIncludes lowerCommand) quizKeywords"
    "\<not> list_ex (jsIncludes lowerCommand) duaKeywords"
    using unrecognised by (simp_all add: list_ex_iff)
  have s1: "s1 = s\<lparr>failedRecognitionAttempts := n,
                    recognitionRef := Some (rc\<lparr>rec_started := False\<rparr>),
                    audioRef := Some (a\<lparr>src := Tts (if n < 3 then NotUnderstood else UseButtons) (str ''ta''),
                                paused := False, currentTime := 0,
                                play_catch := Some (RetryListening Landing (n < 3)),
                                onended := Some (RetryListening Landing (n < 3))\<rparr>)\<rparr>"
    using nokey landing audio recognizer
    unfolding s1_def handleLandingCommand_def lowerCommand_def [symmetric]
    by (simp add: Let_def n_def stopListening_def render_of_def load_and_play_def)
  have onerror: "recognition_onerror toLowerCase (render_of s) e s
           = handleLandingCommand toLowerCase (render_of s) [] (s\<lparr>isListening := False\<rparr>)"
    if "e = NoSpeech \<or> e = AudioCapture" for e
    using that landing by (auto simp add: recognition_onerror_def render_of_def)
  define a1 where "a1 = a\<lparr>src := Tts (if n < 3 then NotUnderstood else UseButtons) (str ''ta''),
                                paused := True, currentTime := 0,
                                play_catch := Some (RetryListening Landing (n < 3)),
                                onended := Some (RetryListening Landing (n < 3))\<rparr>"
  define s2 where "s2 = s1\<lparr>audioRef := Some a1\<rparr>"
  have a1: "audioRef s1 = Some (a1\<lparr>paused := False\<rparr>)"
    by (simp add: s1 a1_def)
  have st: "\<forall>l\<in>snd ` set (listeners (a1\<lparr>paused := False\<rparr>)). spent s1 l"
    using stale spent_cong [of s1 s] by (simp add: s1 a1_def)
  have hp: "handlePlaybackEnd (render_of s1) False (s1\<lparr>audioRef := Some (a1\<lparr>paused := False, paused := True\<rparr>)\<rparr>) = s2"
    using landing quiet by (simp add: s1 s2_def a1_def handlePlaybackEnd_def render_of_def Let_def)
  have "cancelled s2 = cancelled s1"
    by (simp add: s2_def)
  from audio_ended_spent [OF a1 st hp this] obtain ls' where
    ended: "audio_ended s1 = run_audio_handler (RetryListening Landing (n < 3)) (set_listeners ls' s2)"
    by (auto simp add: set_listeners_def s2_def a1_def)
  have after: "failedRecognitionAttempts (audio_ended s1) = n
       \<and> (n < 3 \<longrightarrow> recognitionRef (audio_ended s1) = Some (rc\<lparr>rec_lang := str ''ta-IN'', rec_started := True\<rparr>)
                    \<and> isListening (audio_ended s1))
       \<and> (\<not> n < 3 \<longrightarrow> recognitionRef (audio_ended s1) = Some (rc\<lparr>rec_started := False\<rparr>)
                    \<and> isListening (audio_ended s1) = isListening s)"
    unfolding ended
    by (simp add: run_audio_handler_def startListening_def set_listeners_def s2_def a1_def s1 Let_def)
  have before: "failedRecognitionAttempts s1 = n
       \<and> currentScreen s1 = Landing
       \<and> recognitionRef s1 = Some (rc\<lparr>rec_started := False\<rparr>)
       \<and> audioRef s1 = Some (a\<lparr>src := Tts (if n < 3 then NotUnderstood else UseButtons) (str ''ta''),
                                paused := False, currentTime := 0,
                                play_catch := Some (RetryListening Landing (n < 3)),
                                onended := Some (RetryListening Landing (n < 3))\<rparr>)"
    using landing by (simp add: s1)
  from before after onerror [of NoSpeech] onerror [of AudioCapture] show ?thesis
    by blast
qed


lemma third_failure_eq:
  "third_failure = second_failure
     \<lparr>transcription := str ''hello'', failedRecognitionAttempts := 3,
      recognitionRef := Some \<lparr>rec_lang = str ''ta-IN'', rec_started = False\<rparr>,
      audioRef := Some (sample_audio\<lparr>src := Tts UseButtons (str ''ta''), paused := True,
                          play_catch := Some (RetryListening Landing False),
                          onended := Some (RetryListening Landing False)\<rparr>)\<rparr>"
  by (simp add: third_failure_def landing_failure_def second_failure_eq first_failure_eq
      landing_state_def sample_audio_def eval_app eval_strings)

theorem C2_landing_retry_witness:
  "\<not> list_ex (jsIncludes (trim (stripPunctuation (asciiLower (str ''hello'')))))
        (surahKeywords @ quizKeywords @ duaKeywords)
   \<and> failedRecognitionAttempts second_failure = 2
   \<and> failedRecognitionAttempts
        (handleLandingCommand asciiLower (render_of second_failure) (str ''hello'') second_failure) = 3
   \<and> map_option src (audioRef
        (handleLandingCommand asciiLower (render_of second_failure) (str ''hello'') second_failure))
       = Some (Tts UseButtons (str ''ta''))
   \<and> recognitionRef (audio_ended
        (handleLandingCommand asciiLower (render_of second_failure) (str ''hello'') second_failure))
       = Some \<lparr>rec_lang = str ''ta-IN'', rec_started = False\<rparr>
   \<and> map_option listeners (audioRef stale_landing)
       = Some [(EndedEvent, Instruction Surah 0), (ErrorEvent, Instruction Surah 0)]
   \<and> spent stale_landing (Instruction Surah 0)
   \<and> recognitionRef (audio_ended
        (handleLandingCommand asciiLower (render_of stale_landing) (str ''hello'') stale_landing))
       = Some \<lparr>rec_lang = str ''ta-IN'', rec_started = False\<rparr>"
proof -
  have u: "\<not> list_ex (jsIncludes (trim (stripPunctuation (asciiLower (str ''hello'')))))
        (surahKeywords @ quizKeywords @ duaKeywords)"
    by (simp add: eval_strings)
  have st: "currentScreen second_failure = Landing"
    "audioRef second_failure = Some (sample_audio\<lparr>src := Tts NotUnderstood (str ''ta''), paused := True,
                          play_catch := Some (RetryListening Landing True),
                          onended := Some (RetryListening Landing True)\<rparr>)"
    "recognitionRef second_failure = Some \<lparr>rec_lang = str ''ta-IN'', rec_started = True\<rparr>"
    "\<not> postRecitationActionInProgress second_failure" "\<not> isWelcomeSequencePlaying second_failure"
    "failedRecognitionAttempts second_failure = 2"
    by (simp_all add: second_failure_eq first_failure_eq landing_state_def)
  have no: "\<forall>l\<in>snd ` set (listeners (sample_audio\<lparr>src := Tts NotUnderstood (str ''ta''), paused := True,
                          play_catch := Some (RetryListening Landing True),
                          onended := Some (RetryListening Landing True)\<rparr>)). spent second_failure l"
    by (simp add: sample_audio_def)
  have first: "failedRecognitionAttempts
        (handleLandingCommand asciiLower (render_of second_failure) (str ''hello'') second_failure) = 3
   \<and> map_option src (audioRef
        (handleLandingCommand asciiLower (render_of second_failure) (str ''hello'') second_failure))
       = Some (Tts UseButtons (str ''ta''))
   \<and> recognitionRef (audio_ended
        (handleLandingCommand asciiLower (render_of second_failure) (str ''hello'') second_failure))
       = Some \<lparr>rec_lang = str ''ta-IN'', rec_started = False\<rparr>"
    using C2_landing_retry [of asciiLower "str ''hello''" second_failure, OF u st(1-5) no] st(6)
    by simp
  have sl: "currentScreen stale_landing = Landing"
    "audioRef stale_landing = Some (sample_audio\<lparr>src := Tts NotUnderstood (str ''ta''), paused := True,
                          play_catch := Some (RetryListening Landing True),
                          onended := Some (RetryListening Landing True),
                          listeners := [(EndedEvent, Instruction Surah 0), (ErrorEvent, Instruction Surah 0)]\<rparr>)"
    "recognitionRef stale_landing = Some \<lparr>rec_lang = str ''ta-IN'', rec_started = True\<rparr>"
    "\<not> postRecitationActionInProgress stale_landing" "\<not> isWelcomeSequencePlaying stale_landing"
    "failedRecognitionAttempts stale_landing = 2"
    "spent stale_landing (Instruction Surah 0)"
    by (simp_all add: stale_landing_def second_failure_eq first_failure_eq landing_state_def
        add_listeners_def sample_audio_def spent_def is_cancelled_def)
  have attached: "\<forall>l\<in>snd ` set (listeners (sample_audio\<lparr>src := Tts NotUnderstood (str ''ta''), paused := True,
                          play_catch := Some (RetryListening Landing True),
                          onended := Some (RetryListening Landing True),
                          listeners := [(EndedEvent, Instruction Surah 0), (ErrorEvent, Instruction Surah 0)]\<rparr>)).
                    spent stale_landing l"
    using sl(7) by simp
  have second: "recognitionRef (audio_ended
        (handleLandingCommand asciiLower (render_of stale_landing) (str ''hello'') stale_landing))
       = Some \<lparr>rec_lang = str ''ta-IN'', rec_started = False\<rparr>"
    using C2_landing_retry [of asciiLower "str ''hello''" stale_landing, OF u sl(1-5) attached] sl(6)
    by simp
  have "map_option listeners (audioRef stale_landing)
       = Some [(EndedEvent, Instruction Surah 0), (ErrorEvent, Instruction Surah 0)]"
    by (simp add: sl(2))
  with u st(6) first second sl(7) show ?thesis
    by blast
qed

subsection \<open>Stopping playback\<close>

lemma stopPlayback_effect:
  "playbackTimerRef (stopPlayback scr c s) = None
   \<and> audioRef (stopPlayback scr c s) =
        map_option (\<lambda>a. a\<lparr>paused := True, currentTime := 0, onended := None, onerror := None\<rparr>) (audioRef s)
   \<and> speechSynthesis (stopPlayback scr c s) = map_option (\<lambda>q. []) (speechSynthesis s)
   \<and> isPlaying (stopPlayback scr c s) = False
   \<and> currentDua (stopPlayback scr c s) = (if c \<and> scr \<noteq> DuaPlayer then None else currentDua s)
   \<and> currentSurah (stopPlayback scr c s) = (if c \<and> scr \<noteq> Surah then [] else currentSurah s)
   \<and> currentScreen (stopPlayback scr c s) = currentScreen s
   \<and> message (stopPlayback scr c s) = message s
   \<and> duaMessage (stopPlayback scr c s) = duaMessage s
   \<and> transcription (stopPlayback scr c s) = transcription s
   \<and> isListening (stopPlayback scr c s) = isListening s
   \<and> recognitionRef (stopPlayback scr c s) = recognitionRef s
   \<and> failedRecognitionAttempts (stopPlayback scr c s) = failedRecognitionAttempts s
   \<and> postRecitationActionInProgress (stopPlayback scr c s) = postRecitationActionInProgress s
   \<and> isWelcomeSequencePlaying (stopPlayback scr c s) = isWelcomeSequencePlaying s"
  unfolding stopPlayback_def Let_def clearTimeout_def
  by (auto split: option.splits)

lemma stopPlayback_timer_cleared:
  "playbackTimerRef s = Some t \<Longrightarrow> t \<notin> fst ` set (timers (stopPlayback scr c s))"
  unfolding stopPlayback_def Let_def clearTimeout_def
  by (auto split: option.splits)

text \<open>
  C7: \<open>stopPlayback\<close> always cleans up: the pending playback timer is cleared and
  forgotten, the audio element (when there is one) is paused and rewound to time 0 and its
  \<open>onended\<close> and \<open>onerror\<close> properties are detached, speech synthesis (where the
  browser has it) is cancelled, and \<open>isPlaying\<close> is false.  Called with \<open>clearState\<close>
  true it clears \<open>currentDua\<close> unless the screen is the dua player and clears
  \<open>currentSurah\<close> unless the screen is the surah screen; with \<open>clearState\<close> false both
  are left as they are.  Nothing else of the state changes.  The screen is the
  \<open>currentScreen\<close> of the render that created the callback.
\<close>

theorem C7_stopPlayback_cleanup:
  fixes scr :: screen and clearState :: bool and s :: app
  defines "s' \<equiv> stopPlayback scr clearState s"
  shows "playbackTimerRef s' = None
       \<and> (\<forall>t. playbackTimerRef s = Some t \<longrightarrow> t \<notin> fst ` set (timers s'))
       \<and> audioRef s' = map_option (\<lambda>a. a\<lparr>paused := True, currentTime := 0, onended := None, onerror := None\<rparr>)
                                    (audioRef s)
       \<and> speechSynthesis s' = map_option (\<lambda>q. []) (speechSynthesis s)
       \<and> isPlaying s' = False
       \<and> currentDua s' = (if clearState \<and> scr \<noteq> DuaPlayer then None else currentDua s)
       \<and> currentSurah s' = (if clearState \<and> scr \<noteq> Surah then [] else currentSurah s)
       \<and> currentScreen s' = currentScreen s \<and> message s' = message s
       \<and> duaMessage s' = duaMessage s \<and> transcription s' = transcription s
       \<and> isListening s' = isListening s \<and> recognitionRef s' = recognitionRef s
       \<and> failedRecognitionAttempts s' = failedRecognitionAttempts s
       \<and> postRecitationActionInProgress s' = postRecitationActionInProgress s
       \<and> isWelcomeSequencePlaying s' = isWelcomeSequencePlaying s"
  unfolding s'_def
  using stopPlayback_effect [of scr clearState s] stopPlayback_timer_cleared [of s _ scr clearState]
  by blast

lemma surah_playing_eq:
  "surah_playing = surah_screen
     \<lparr>isPlaying := True, currentSurah := str ''Al-Fatiha'', message := Reciting (str ''Al-Fatiha''),
      audioRef := Some (sample_audio\<lparr>src := AudioFile (str ''/audio/001.mp3''), paused := False,
                          play_catch := Some SurahPlayFailed, onplaying := Some SetIsPlaying\<rparr>),
      playbackTimerRef := Some 1,
      timers := [(1, PlaybackLimit (render_of surah_screen)),
                 (2, ShowNowReciting (str ''Al-Fatiha'') 1)],
      nextTimer := 3\<rparr>"
  by (simp add: surah_playing_def handleVoiceCommand_def findSurahKey_def sortByLengthDesc_def
      sample_surahs_def playSurah_def surah_screen_def landing_state_def sample_audio_def
      eval_app eval_strings)

theorem C7_stopPlayback_cleanup_witness:
  "playbackTimerRef surah_playing = Some 1
   \<and> 1 \<notin> fst ` set (timers (stopPlayback Surah True surah_playing))
   \<and> playbackTimerRef (stopPlayback Surah True surah_playing) = None
   \<and> map_option paused (audioRef (stopPlayback Surah True surah_playing)) = Some True
   \<and> isPlaying surah_playing \<and> \<not> isPlaying (stopPlayback Surah True surah_playing)
   \<and> currentSurah (stopPlayback Surah True surah_playing) = str ''Al-Fatiha''
   \<and> currentSurah (stopPlayback Landing True surah_playing) = []"
proof -
  have t: "playbackTimerRef surah_playing = Some 1" "isPlaying surah_playing"
    "currentSurah surah_playing = str ''Al-Fatiha''"
    "map_option paused (audioRef surah_playing) = Some False"
    by (simp_all add: surah_playing_eq surah_screen_def landing_state_def)
  from t C7_stopPlayback_cleanup [of Surah True surah_playing]
    C7_stopPlayback_cleanup [of Landing True surah_playing]
  show ?thesis by (auto simp add: option.map_comp comp_def)
qed

subsection \<open>The end of an utterance\<close>

lemma handlePlaybackEnd_pending:
  "postRecitationActionInProgress s \<Longrightarrow>
   handlePlaybackEnd r m s = startListening (r_currentScreen r) True (s\<lparr>postRecitationActionInProgress := False\<rparr>)"
  by (simp add: handlePlaybackEnd_def)

lemma startListening_forced:
  "recognitionRef s = Some rc \<Longrightarrow>
   startListening scr True s =
     s\<lparr>transcription := [],
       duaMessage := (if scr = DuaList then ListeningMsg else duaMessage s),
       message := (if scr \<noteq> DuaList \<and> scr \<noteq> Welcome \<and> scr \<noteq> Landing then ListeningMsg else message s),
       isListening := True,
       recognitionRef := Some (rc\<lparr>rec_lang := (if scr = Landing \<or> scr = DuaList then str ''ta-IN'' else str ''en-US''),
                                   rec_started := True\<rparr>)\<rparr>"
  by (simp add: startListening_def Let_def)

lemma goBackToDuaList_effect:
  "isPlaying (goBackToDuaList scr s) = False
   \<and> audioRef (goBackToDuaList scr s) =
        map_option (\<lambda>a. a\<lparr>paused := True, currentTime := 0, onended := None, onerror := None\<rparr>) (audioRef s)
   \<and> currentScreen (goBackToDuaList scr s) = DuaList
   \<and> currentDua (goBackToDuaList scr s) = None"
  using stopPlayback_effect [of scr True s]
  by (simp add: goBackToDuaList_def stopListening_def split: option.splits)

lemma prompt_playing_eq:
  "prompt_playing = surah_playing
     \<lparr>isPlaying := False, message := RecitationFinished, postRecitationActionInProgress := True,
      audioRef := Some (sample_audio\<lparr>src := Tts RecitationFinished (str ''ta''), paused := False,
                          play_catch := Some (PostRecitationFailed Surah), onplaying := Some SetIsPlaying\<rparr>),
      playbackTimerRef := None,
      timers := [(2, ShowNowReciting (str ''Al-Fatiha'') 1)]\<rparr>"
  by (simp add: prompt_playing_def surah_playing_eq surah_screen_def landing_state_def sample_audio_def
      eval_app str_def)

lemma tapped_during_prompt_eq:
  "tapped_during_prompt = prompt_playing
     \<lparr>isPlaying := True, currentSurah := str ''Ya-Sin'', message := Reciting (str ''Ya-Sin''),
      audioRef := Some (sample_audio\<lparr>src := AudioFile (str ''/audio/036.mp3''), paused := False,
                          play_catch := Some SurahPlayFailed, onplaying := Some SetIsPlaying\<rparr>),
      playbackTimerRef := Some 3,
      timers := [(2, ShowNowReciting (str ''Al-Fatiha'') 1),
                 (3, PlaybackLimit (render_of prompt_playing)),
                 (4, ShowNowReciting (str ''Ya-Sin'') 36)],
      nextTimer := 5\<rparr>"
  by (simp add: tapped_during_prompt_def prompt_playing_eq surah_playing_eq surah_screen_def
      landing_state_def sample_audio_def sample_surahs_def playSurah_def eval_app str_def)

lemma second_surah_ended_eq:
  "second_surah_ended = tapped_during_prompt
     \<lparr>postRecitationActionInProgress := False, transcription := [], message := ListeningMsg,
      isListening := True,
      recognitionRef := Some \<lparr>rec_lang = str ''en-US'', rec_started = True\<rparr>,
      audioRef := Some (sample_audio\<lparr>src := AudioFile (str ''/audio/036.mp3''), paused := True,
                          play_catch := Some SurahPlayFailed, onplaying := Some SetIsPlaying\<rparr>)\<rparr>"
  by (simp add: second_surah_ended_def tapped_during_prompt_eq prompt_playing_eq surah_playing_eq
      surah_screen_def landing_state_def sample_audio_def eval_app)

lemma stopPlayback_cancelled: "cancelled (stopPlayback scr c s) = cancelled s"
  by (simp add: stopPlayback_def Let_def clearTimeout_def split: option.splits)

text \<open>
  What \<open>handlePlaybackEnd\<close> does when no post-recitation action is pending and the welcome
  sequence is not playing: at the end of a recitation it stops playback, shows and plays
  the closing prompt and marks a post-recitation action as pending; on the dua player it
  stops playback and returns to the dua list; on a manual stop the surah screen shows
  the stopped message and stays, and the dua player returns to the dua list.
\<close>

lemma handlePlaybackEnd_quiet:
  fixes s :: app
  defines "r \<equiv> render_of s"
  assumes quiet: "\<not> postRecitationActionInProgress s" "\<not> isWelcomeSequencePlaying s"
  shows "(currentScreen s = Surah \<and> currentSurah s \<noteq> [] \<and> audioRef s = Some a \<longrightarrow>
            handlePlaybackEnd r False s =
              (stopPlayback Surah True s)
                \<lparr>postRecitationActionInProgress := True, message := RecitationFinished,
                 audioRef := Some (a\<lparr>src := Tts RecitationFinished (str ''ta''), paused := False,
                              currentTime := 0, onended := None, onerror := None,
                              play_catch := Some (PostRecitationFailed Surah)\<rparr>)\<rparr>)
       \<and> (currentScreen s = DuaPlayer \<and> currentDua s \<noteq> None \<longrightarrow>
            handlePlaybackEnd r False s = goBackToDuaList DuaPlayer (stopPlayback DuaPlayer True s))
       \<and> (currentScreen s = Surah \<longrightarrow>
            handlePlaybackEnd r True s =
              (stopPlayback Surah True s)\<lparr>message := RecitationStopped, transcription := []\<rparr>)
       \<and> (currentScreen s = DuaPlayer \<longrightarrow>
            handlePlaybackEnd r True s =
              (goBackToDuaList DuaPlayer (stopPlayback DuaPlayer True s))\<lparr>transcription := []\<rparr>)"
proof -
  note sp = stopPlayback_effect [of Surah True s]
  have surah_end: "handlePlaybackEnd r False s =
        (stopPlayback Surah True s)
          \<lparr>postRecitationActionInProgress := True, message := RecitationFinished,
           audioRef := Some (a\<lparr>src := Tts RecitationFinished (str ''ta''), paused := False, currentTime := 0,
                        onended := None, onerror := None, play_catch := Some (PostRecitationFailed Surah)\<rparr>)\<rparr>"
    if "currentScreen s = Surah" "currentSurah s \<noteq> []" "audioRef s = Some a"
    using quiet that sp
    by (simp add: handlePlaybackEnd_def r_def render_of_def Let_def load_and_play_def)
  have dua_end: "handlePlaybackEnd r False s = goBackToDuaList DuaPlayer (stopPlayback DuaPlayer True s)"
    if "currentScreen s = DuaPlayer" "currentDua s \<noteq> None"
    using quiet that by (simp add: handlePlaybackEnd_def r_def render_of_def Let_def)
  have surah_stop: "handlePlaybackEnd r True s =
      (stopPlayback Surah True s)\<lparr>message := RecitationStopped, transcription := []\<rparr>"
    if "currentScreen s = Surah"
    using quiet that by (simp add: handlePlaybackEnd_def r_def render_of_def Let_def)
  have dua_stop: "handlePlaybackEnd r True s =
        (goBackToDuaList DuaPlayer (stopPlayback DuaPlayer True s))\<lparr>transcription := []\<rparr>"
    if "currentScreen s = DuaPlayer"
    using quiet that by (simp add: handlePlaybackEnd_def r_def render_of_def Let_def)
  from surah_end dua_end surah_stop dua_stop show ?thesis by blast
qed

text \<open>
  C3 (the code breaks it): the claim says that when an utterance ends by itself on the
  surah screen with a surah playing, \<open>handlePlaybackEnd\<close> stops playback, plays the closing
  prompt and then starts to listen.  \<open>handlePlaybackEnd\<close> sets the flag
  \<open>postRecitationActionInProgress\<close> when it starts the prompt (line 156) and clears it
  when the prompt ends (line 133); \<open>playSurah\<close> and \<open>stopPlayback\<close> leave it as it is.  A
  surah that the user taps while the prompt is spoken therefore plays with the flag
  set, and when it ends the handler takes the prompt's path: playback is not stopped
  (\<open>isPlaying\<close> stays as it is and the playback timer stays pending, doing nothing when
  it fires), no prompt is played, and the recognizer is started at once.  Without the
  flag the same state is handled as the claim says.
\<close>

theorem C3_recitation_end_skipped:
  fixes s :: app
  assumes surah: "currentScreen s = Surah" "currentSurah s \<noteq> []"
    and pending: "postRecitationActionInProgress s"
    and audio: "audioRef s = Some a" "onended a = None"
    and recognizer: "recognitionRef s = Some rc"
    and stale: "\<forall>l\<in>snd ` set (listeners a). spent s l"
    and quiet: "\<not> isWelcomeSequencePlaying s"
  shows "isPlaying (audio_ended s) = isPlaying s
       \<and> playbackTimerRef (audio_ended s) = playbackTimerRef s
       \<and> timers (audio_ended s) = timers s
       \<and> map_option src (audioRef (audio_ended s)) = Some (src a)
       \<and> message (audio_ended s) = ListeningMsg
       \<and> \<not> postRecitationActionInProgress (audio_ended s)
       \<and> isListening (audio_ended s)
       \<and> recognitionRef (audio_ended s) = Some (rc\<lparr>rec_lang := str ''en-US'', rec_started := True\<rparr>)
       \<and> run_timer (PlaybackLimit r) (audio_ended s) = audio_ended s
       \<and> isPlaying (audio_ended (s\<lparr>postRecitationActionInProgress := False\<rparr>)) = False
       \<and> playbackTimerRef (audio_ended (s\<lparr>postRecitationActionInProgress := False\<rparr>)) = None
       \<and> map_option src (audioRef (audio_ended (s\<lparr>postRecitationActionInProgress := False\<rparr>)))
            = Some (Tts RecitationFinished (str ''ta''))
       \<and> message (audio_ended (s\<lparr>postRecitationActionInProgress := False\<rparr>)) = RecitationFinished
       \<and> isListening (audio_ended (s\<lparr>postRecitationActionInProgress := False\<rparr>)) = isListening s"
proof -
  define s1 where "s1 = startListening Surah True
      (s\<lparr>audioRef := Some (a\<lparr>paused := True\<rparr>), postRecitationActionInProgress := False\<rparr>)"
  have s1: "s1 = s\<lparr>audioRef := Some (a\<lparr>paused := True\<rparr>), postRecitationActionInProgress := False,
                   transcription := [], message := ListeningMsg, isListening := True,
                   recognitionRef := Some (rc\<lparr>rec_lang := str ''en-US'', rec_started := True\<rparr>)\<rparr>"
    using recognizer by (simp add: s1_def startListening_forced)
  have hp: "handlePlaybackEnd (render_of s) False (s\<lparr>audioRef := Some (a\<lparr>paused := True\<rparr>)\<rparr>) = s1"
    using pending surah by (simp add: handlePlaybackEnd_pending render_of_def s1_def)
  have "cancelled s1 = cancelled s"
    by (simp add: s1)
  from audio_ended_spent [OF audio(1) stale hp this] obtain ls' where
    ended: "audio_ended s = set_listeners ls' s1"
    using audio(2) by (auto simp add: set_listeners_def s1)
  have flagged: "isPlaying (audio_ended s) = isPlaying s
       \<and> playbackTimerRef (audio_ended s) = playbackTimerRef s
       \<and> timers (audio_ended s) = timers s
       \<and> map_option src (audioRef (audio_ended s)) = Some (src a)
       \<and> message (audio_ended s) = ListeningMsg
       \<and> \<not> postRecitationActionInProgress (audio_ended s)
       \<and> isListening (audio_ended s)
       \<and> recognitionRef (audio_ended s) = Some (rc\<lparr>rec_lang := str ''en-US'', rec_started := True\<rparr>)
       \<and> run_timer (PlaybackLimit r) (audio_ended s) = audio_ended s"
    unfolding ended by (simp add: set_listeners_def s1 run_timer_def)
  define u where "u = s\<lparr>postRecitationActionInProgress := False\<rparr>"
  define u1 where "u1 = (stopPlayback Surah True (u\<lparr>audioRef := Some (a\<lparr>paused := True\<rparr>)\<rparr>))
                \<lparr>postRecitationActionInProgress := True, message := RecitationFinished,
                 audioRef := Some (a\<lparr>src := Tts RecitationFinished (str ''ta''), paused := False,
                              currentTime := 0, onended := None, onerror := None,
                              play_catch := Some (PostRecitationFailed Surah)\<rparr>)\<rparr>"
  have "handlePlaybackEnd (render_of (u\<lparr>audioRef := Some (a\<lparr>paused := True\<rparr>)\<rparr>)) False
          (u\<lparr>audioRef := Some (a\<lparr>paused := True\<rparr>)\<rparr>) = u1"
    using handlePlaybackEnd_quiet [of "u\<lparr>audioRef := Some (a\<lparr>paused := True\<rparr>)\<rparr>" "a\<lparr>paused := True\<rparr>"]
      surah quiet
    by (simp add: u_def u1_def)
  then have hq: "handlePlaybackEnd (render_of u) False (u\<lparr>audioRef := Some (a\<lparr>paused := True\<rparr>)\<rparr>) = u1"
    by (simp add: render_of_def)
  note sp = stopPlayback_effect [of Surah True "u\<lparr>audioRef := Some (a\<lparr>paused := True\<rparr>)\<rparr>"]
  have cu: "cancelled u1 = cancelled u"
    by (simp add: u1_def stopPlayback_cancelled)
  have au: "audioRef u = Some a" "\<forall>l\<in>snd ` set (listeners a). spent u l"
    using audio stale spent_cong [of u s] by (simp_all add: u_def)
  from audio_ended_spent [OF au hq cu] obtain ls2 where
    ended2: "audio_ended u = set_listeners ls2 u1"
    by (auto simp add: set_listeners_def u1_def)
  have unflagged: "isPlaying (audio_ended u) = False
       \<and> playbackTimerRef (audio_ended u) = None
       \<and> map_option src (audioRef (audio_ended u)) = Some (Tts RecitationFinished (str ''ta''))
       \<and> message (audio_ended u) = RecitationFinished
       \<and> isListening (audio_ended u) = isListening s"
    unfolding ended2 using sp by (simp add: set_listeners_def u1_def u_def)
  from flagged unflagged show ?thesis
    unfolding u_def by blast
qed

theorem C3_recitation_end_skipped_witness:
  "currentScreen tapped_during_prompt = Surah
   \<and> currentSurah tapped_during_prompt = str ''Ya-Sin''
   \<and> map_option src (audioRef tapped_during_prompt) = Some (AudioFile (str ''/audio/036.mp3''))
   \<and> map_option paused (audioRef tapped_during_prompt) = Some False
   \<and> postRecitationActionInProgress tapped_during_prompt
   \<and> isPlaying tapped_during_prompt
   \<and> second_surah_ended = audio_ended tapped_during_prompt
   \<and> isPlaying second_surah_ended
   \<and> playbackTimerRef second_surah_ended = Some 3
   \<and> message second_surah_ended = ListeningMsg
   \<and> map_option src (audioRef second_surah_ended) = Some (AudioFile (str ''/audio/036.mp3''))
   \<and> isListening second_surah_ended
   \<and> timer_fired 3 second_surah_ended
        = second_surah_ended\<lparr>timers := [(2, ShowNowReciting (str ''Al-Fatiha'') 1),
                                         (4, ShowNowReciting (str ''Ya-Sin'') 36)]\<rparr>
   \<and> isPlaying (audio_ended (tapped_during_prompt\<lparr>postRecitationActionInProgress := False\<rparr>)) = False
   \<and> message (audio_ended (tapped_during_prompt\<lparr>postRecitationActionInProgress := False\<rparr>))
        = RecitationFinished"
proof -
  have st: "currentScreen tapped_during_prompt = Surah"
    "currentSurah tapped_during_prompt = str ''Ya-Sin''"
    "postRecitationActionInProgress tapped_during_prompt"
    "audioRef tapped_during_prompt
       = Some (sample_audio\<lparr>src := AudioFile (str ''/audio/036.mp3''), paused := False,
                          play_catch := Some SurahPlayFailed, onplaying := Some SetIsPlaying\<rparr>)"
    "recognitionRef tapped_during_prompt = Some \<lparr>rec_lang = str ''en-US'', rec_started = False\<rparr>"
    "\<not> isWelcomeSequencePlaying tapped_during_prompt"
    "isPlaying tapped_during_prompt"
    "playbackTimerRef tapped_during_prompt = Some 3"
    "timers tapped_during_prompt = [(2, ShowNowReciting (str ''Al-Fatiha'') 1),
                 (3, PlaybackLimit (render_of prompt_playing)),
                 (4, ShowNowReciting (str ''Ya-Sin'') 36)]"
    by (simp_all add: tapped_during_prompt_eq prompt_playing_eq surah_playing_eq
        surah_screen_def landing_state_def)
  have ne: "currentSurah tapped_during_prompt \<noteq> []"
    by (simp add: st(2) str_def)
  have au: "onended (sample_audio\<lparr>src := AudioFile (str ''/audio/036.mp3''), paused := False,
                          play_catch := Some SurahPlayFailed, onplaying := Some SetIsPlaying\<rparr>) = None"
    "\<forall>l\<in>snd ` set (listeners (sample_audio\<lparr>src := AudioFile (str ''/audio/036.mp3''), paused := False,
                          play_catch := Some SurahPlayFailed, onplaying := Some SetIsPlaying\<rparr>)).
        spent tapped_during_prompt l"
    by (simp_all add: sample_audio_def)
  note skipped = C3_recitation_end_skipped [OF st(1) ne st(3) st(4) au(1) st(5) au(2) st(6),
      of "render_of prompt_playing"]
  have e: "second_surah_ended = audio_ended tapped_during_prompt"
    by (rule second_surah_ended_def)
  have t: "timer_fired 3 second_surah_ended
        = second_surah_ended\<lparr>timers := [(2, ShowNowReciting (str ''Al-Fatiha'') 1),
                                         (4, ShowNowReciting (str ''Ya-Sin'') 36)]\<rparr>"
    using skipped [THEN conjunct2, THEN conjunct2, THEN conjunct1]
      skipped [THEN conjunct2, THEN conjunct2, THEN conjunct2, THEN conjunct2, THEN conjunct2,
           THEN conjunct2, THEN conjunct2, THEN conjunct2, THEN conjunct1]
    unfolding e [symmetric] st(9)
    by (simp add: timer_fired_def clearTimeout_def run_timer_def second_surah_ended_eq
        tapped_during_prompt_eq)
  from skipped st e t show ?thesis
    by (simp add: sample_audio_def)
qed

text \<open>
  The listener of the screen's instruction is a second way to the same place.  The user
  taps a surah while the instruction is still spoken: \<open>stopPlayback\<close> clears the \<open>onended\<close>
  property but leaves the listener of lines 517 to 521 attached.  When the surah ends,
  React's handler starts the closing prompt and the listener then starts the recognizer,
  which listens while the prompt is spoken.
\<close>

lemma early_surah_ended_listens_during_prompt:
  "map_option listeners (audioRef surah_entered)
     = Some [(EndedEvent, Instruction Surah 0), (ErrorEvent, Instruction Surah 0)]
   \<and> map_option src (audioRef surah_entered) = Some (Tts SurahInstruction (str ''ta''))
   \<and> map_option paused (audioRef surah_entered) = Some False
   \<and> map_option listeners (audioRef tapped_during_instruction)
     = Some [(EndedEvent, Instruction Surah 0), (ErrorEvent, Instruction Surah 0)]
   \<and> map_option src (audioRef tapped_during_instruction) = Some (AudioFile (str ''/audio/036.mp3''))
   \<and> \<not> postRecitationActionInProgress tapped_during_instruction
   \<and> \<not> isListening tapped_during_instruction
   \<and> map_option src (audioRef early_surah_ended) = Some (Tts RecitationFinished (str ''ta''))
   \<and> map_option paused (audioRef early_surah_ended) = Some False
   \<and> map_option listeners (audioRef early_surah_ended) = Some []
   \<and> postRecitationActionInProgress early_surah_ended
   \<and> isListening early_surah_ended
   \<and> recognitionRef early_surah_ended = Some \<lparr>rec_lang = str ''en-US'', rec_started = True\<rparr>"
  by (simp add: early_surah_ended_def tapped_during_instruction_def surah_entered_def
      surah_screen_def landing_state_def sample_audio_def sample_surahs_def instruction_effect_def
      instructionText_def new_run_def add_listeners_def playSurah_def stopPlayback_def setTimeout_def
      clearTimeout_def load_and_play_def run_audio_handler_def audio_ended_def handlePlaybackEnd_def
      render_of_def startListening_def attached_def run_listener_def remove_listeners_def
      is_cancelled_def Let_def str_def)

subsection \<open>Looking up a surah or a dua by voice\<close>








section \<open>Properties of the quiz screen\<close>

subsection \<open>The callbacks\<close>

lemma stopAllActivity_keeps:
  "attemptsLeft (stopAllActivity s) = attemptsLeft s
   \<and> selectedAnswer (stopAllActivity s) = selectedAnswer s
   \<and> score (stopAllActivity s) = score s
   \<and> isScored (stopAllActivity s) = isScored s
   \<and> isMountedRef (stopAllActivity s) = isMountedRef s
   \<and> (audioRef_quiz (stopAllActivity s) = None) = (audioRef_quiz s = None)
   \<and> resultProcessedRef (stopAllActivity s) = resultProcessedRef s
   \<and> transcript (stopAllActivity s) = transcript s
   \<and> gameState (stopAllActivity s) = gameState s
   \<and> currentQuestionIndex (stopAllActivity s) = currentQuestionIndex s
   \<and> sessionQuestions (stopAllActivity s) = sessionQuestions s
   \<and> nextTimer_quiz (stopAllActivity s) = nextTimer_quiz s
   \<and> status (stopAllActivity s) = (if isMountedRef s then Idle else status s)"
  by (simp add: stopAllActivity_def Let_def clearTimeout_quiz_def abort_recognizer_def
      split: option.splits)

lemma playFeedbackAudio_keeps:
  "attemptsLeft (playFeedbackAudio c f s) = attemptsLeft s
   \<and> selectedAnswer (playFeedbackAudio c f s) = selectedAnswer s
   \<and> score (playFeedbackAudio c f s) = score s"
  using stopAllActivity_keeps [of s]
  by (simp add: playFeedbackAudio_def Let_def split: option.splits)

lemma handleRecognitionFailure_attempts:
  "isMountedRef s \<Longrightarrow> c_selectedAnswer c = None \<Longrightarrow>
   attemptsLeft (handleRecognitionFailure c s) = c_attemptsLeft c - 1"
  using stopAllActivity_keeps [of s]
    playFeedbackAudio_keeps [of c FinalIncorrect "(stopAllActivity s)\<lparr>attemptsLeft := c_attemptsLeft c - 1\<rparr>"]
  by (simp add: handleRecognitionFailure_def Let_def split: option.splits)

lemma handleSelectAnswer_selects:
  "c_selectedAnswer c = None \<Longrightarrow> selectedAnswer (handleSelectAnswer c i s) = Some i"
  by (simp add: handleSelectAnswer_def Let_def playFeedbackAudio_keeps split: option.splits)

lemma scorePercent_eq:
  assumes "0 < n"
  shows "scorePercent sc n = (200 * int sc + int n) div (2 * int n)"
proof -
  have "(rat_of_nat sc / rat_of_nat n) * 100 + 1 / 2 = rat_of_int (200 * int sc + int n) / rat_of_int (2 * int n)"
    using assms by (simp add: field_simps)
  then show ?thesis
    unfolding scorePercent_def by (simp only: floor_divide_of_int_eq)
qed

lemma scorePercent_bounds:
  assumes "0 < n" "sc \<le> n"
  shows "0 \<le> scorePercent sc n \<and> scorePercent sc n \<le> 100"
proof -
  have "(200 * int sc + int n) div (2 * int n) \<le> (201 * int n) div (2 * int n)"
    using assms by (intro zdiv_mono1) auto
  also have "(201 * int n) div (2 * int n) = 100"
    using assms by simp
  finally have "scorePercent sc n \<le> 100"
    by (simp add: scorePercent_eq [OF assms(1)])
  moreover have "0 \<le> (200 * int sc + int n) div (2 * int n)"
    using assms by (intro pos_imp_zdiv_nonneg_iff [THEN iffD2]) auto
  then have "0 \<le> scorePercent sc n"
    by (simp add: scorePercent_eq [OF assms(1)])
  ultimately show ?thesis by simp
qed

subsection \<open>Sample runs\<close>

lemma session_first:
  "shuffled \<noteq> [] \<Longrightarrow> take 5 shuffled \<noteq> [] \<and> at_index (take 5 shuffled) 0 = Some (hd shuffled)
     \<and> 0 < length (take 5 shuffled) \<and> shuffled ! 0 = hd shuffled \<and> take 5 shuffled ! 0 = hd shuffled"
  by (cases shuffled) (simp_all add: at_index_def)

lemmas quiz_defs = stopAllActivity_def proceedToNext_def startListening_quiz_def playFeedbackAudio_def
  handleSelectAnswer_def playQuestionAudio_def handleRecognitionFailure_def startNewQuiz_def
  playInvalidAnswerFeedback_def onresult_def onend_def onerror_quiz_def detach_audio_handlers_def
  set_timeoutRef_def run_quiz_audio_handler_def run_quiz_timer_def view_has_audio_def attach_audio_def
  question_effect_def scorecard_cleanup_def scorecard_effect_def recognition_effect_def
  question_deps_def scorecard_deps_def render_effects_def commit_def handle_event_def step_def
  capture_of_def clearTimeout_quiz_def setTimeout_quiz_def abort_recognizer_def speak_def
  fresh_audio_def Let_def

lemma mounted_eq:
  assumes "shuffled \<noteq> []"
  shows "mounted shuffled =
     \<lparr>gameState = Playing, sessionQuestions = take 5 shuffled, sessionVersion = 1,
      currentQuestionIndex = 0, selectedAnswer = None, isCorrect = None, score = 0,
      attemptsLeft = 3, isScored = False, status = Speaking, transcript = [], questionTrigger = 0,
      recognitionRef_quiz = Some 2, timeoutRef = None,
      audioRef_quiz = Some \<lparr>qa_src = Some (QuestionText (question (hd shuffled))), qa_paused = False,
                             qa_sounding = True, qa_onended = Some QuestionEnded,
                             qa_onerror = Some QuestionEnded, qa_play_catch = Some QuestionEnded\<rparr>,
      isMountedRef = True, startListeningRef = Some (cap shuffled Speaking None 3 False),
      resultProcessedRef = False, recognizers = first_recognizers shuffled,
      timers_quiz = [], nextTimer_quiz = 1, scorecardTimeout = None,
      speechRecognitionAvailable = True\<rparr>"
  using session_first [OF assms]
  by (simp add: mounted_def mount_def initial_quiz_def quiz_defs cap_def first_recognizers_def
      idle_recognizer_def at_index_def)

lemma asked_eq:
  assumes "shuffled \<noteq> []"
  shows "asked lc shuffled = (mounted shuffled)
     \<lparr>status := Idle, recognitionRef_quiz := Some 3,
      audioRef_quiz := Some \<lparr>qa_src = Some (QuestionText (question (hd shuffled))), qa_paused = True,
                             qa_sounding = False, qa_onended = None,
                             qa_onerror = None, qa_play_catch = Some QuestionEnded\<rparr>,
      startListeningRef := Some (cap shuffled Idle None 3 False),
      recognizers := first_recognizers shuffled @ [idle_recognizer (cap shuffled Idle None 3 False)],
      timers_quiz := [(1, StartListeningLater)], nextTimer_quiz := 2\<rparr>"
  using session_first [OF assms]
  by (simp add: asked_def mounted_eq [OF assms] quiz_defs cap_def first_recognizers_def
      idle_recognizer_def)

lemma listening_eq:
  assumes "shuffled \<noteq> []"
  shows "listening lc shuffled = (asked lc shuffled)
     \<lparr>status := Listening, recognitionRef_quiz := Some 4,
      startListeningRef := Some (cap shuffled Listening None 3 False),
      recognizers := first_recognizers shuffled @
         [\<lparr>qr_state = RStarted, qr_closure = cap shuffled Idle None 3 False\<rparr>,
          idle_recognizer (cap shuffled Listening None 3 False)],
      timers_quiz := []\<rparr>"
  using session_first [OF assms]
  by (simp add: listening_def asked_eq [OF assms] mounted_eq [OF assms] quiz_defs cap_def first_recognizers_def
      idle_recognizer_def at_index_def)

lemma clicked_eq:
  assumes "shuffled \<noteq> []" "correctAnswer (hd shuffled) = int k" "k < length (options (hd shuffled))"
  shows "clicked lc shuffled k = (listening lc shuffled)
     \<lparr>selectedAnswer := Some k, isCorrect := Some True, score := 1, isScored := True,
      status := Speaking, recognitionRef_quiz := Some 5,
      audioRef_quiz := Some \<lparr>qa_src = Some (feedback_line shuffled), qa_paused = False,
                             qa_sounding = True,
                             qa_onended = Some (FeedbackEnded Correct (cap shuffled Listening None 3 False)),
                             qa_onerror = Some (FeedbackEnded Correct (cap shuffled Listening None 3 False)),
                             qa_play_catch = Some (FeedbackEnded Correct (cap shuffled Listening None 3 False))\<rparr>,
      startListeningRef := Some (cap shuffled Speaking (Some k) 3 True),
      recognizers := first_recognizers shuffled @
         [\<lparr>qr_state = RStarted, qr_closure = cap shuffled Idle None 3 False\<rparr>,
          idle_recognizer (cap shuffled Listening None 3 False),
          idle_recognizer (cap shuffled Speaking (Some k) 3 True)]\<rparr>"
  using session_first [OF assms(1)] assms(2,3)
  by (simp add: clicked_def listening_eq [OF assms(1)] asked_eq [OF assms(1)] mounted_eq [OF assms(1)]
      quiz_defs cap_def first_recognizers_def idle_recognizer_def at_index_def feedback_line_def)

lemma silence_eq:
  assumes "shuffled \<noteq> []"
  shows "silence lc shuffled = (listening lc shuffled)
     \<lparr>recognizers := first_recognizers shuffled @
         [idle_recognizer (cap shuffled Idle None 3 False),
          idle_recognizer (cap shuffled Listening None 3 False)]\<rparr>"
  using session_first [OF assms(1)]
  by (simp add: silence_def listening_eq [OF assms(1)] asked_eq [OF assms(1)] mounted_eq [OF assms(1)]
      quiz_defs cap_def first_recognizers_def idle_recognizer_def at_index_def)

lemma answered_twice_eq:
  assumes "shuffled \<noteq> []" "correctAnswer (hd shuffled) = int k" "k < length (options (hd shuffled))"
    and "lc (stripPunctuation (trim spoken)) \<noteq> str ''option''"
    and "stripPunctuation (trim spoken) \<noteq> tamilOption"
    and "answerIndex (lc (stripPunctuation (trim spoken))) (stripPunctuation (trim spoken)) = Some k"
  shows "answered_twice lc shuffled k spoken = (clicked lc shuffled k)
     \<lparr>score := 2, transcript := youSaid @ spoken, resultProcessedRef := True,
      audioRef_quiz := Some \<lparr>qa_src = Some (feedback_line shuffled), qa_paused = False,
                             qa_sounding = True,
                             qa_onended = Some (FeedbackEnded Correct (cap shuffled Idle None 3 False)),
                             qa_onerror = Some (FeedbackEnded Correct (cap shuffled Idle None 3 False)),
                             qa_play_catch = Some (FeedbackEnded Correct (cap shuffled Idle None 3 False))\<rparr>\<rparr>"
  using session_first [OF assms(1)] assms(2-)
  by (simp add: answered_twice_def clicked_eq [OF assms(1-3)] listening_eq [OF assms(1)] asked_eq [OF assms(1)]
      mounted_eq [OF assms(1)]
      quiz_defs cap_def first_recognizers_def idle_recognizer_def at_index_def feedback_line_def)

lemma heard_option_eq:
  assumes "shuffled \<noteq> []"
    and "lc (stripPunctuation (trim spoken)) = str ''option''"
  shows "heard lc shuffled spoken = (listening lc shuffled)
     \<lparr>attemptsLeft := 2, status := Speaking, transcript := youSaid @ spoken,
      resultProcessedRef := True, recognitionRef_quiz := Some 5,
      audioRef_quiz := Some \<lparr>qa_src = Some NotHeard, qa_paused = False, qa_sounding = True,
                             qa_onended = Some FailureNoticeEnded, qa_onerror = Some FailureNoticeEnded,
                             qa_play_catch = Some FailureNoticeEnded\<rparr>,
      startListeningRef := Some (cap shuffled Speaking None 2 False),
      recognizers := first_recognizers shuffled @
         [\<lparr>qr_state = RStarted, qr_closure = cap shuffled Idle None 3 False\<rparr>,
          idle_recognizer (cap shuffled Listening None 3 False),
          idle_recognizer (cap shuffled Speaking None 2 False)]\<rparr>"
  using session_first [OF assms(1)] assms(2)
  by (simp add: heard_def listening_eq [OF assms(1)] asked_eq [OF assms(1)] mounted_eq [OF assms(1)]
      quiz_defs cap_def first_recognizers_def idle_recognizer_def at_index_def)

lemma heard_invalid_eq:
  assumes "shuffled \<noteq> []"
    and "lc (stripPunctuation (trim spoken)) \<noteq> str ''option''"
    and "stripPunctuation (trim spoken) \<noteq> tamilOption"
    and "answerIndex (lc (stripPunctuation (trim spoken))) (stripPunctuation (trim spoken)) = None"
  shows "heard lc shuffled spoken = (listening lc shuffled)
     \<lparr>status := Speaking, transcript := youSaid @ spoken,
      resultProcessedRef := True, recognitionRef_quiz := Some 5,
      audioRef_quiz := Some \<lparr>qa_src = Some SayOptionNumber, qa_paused = False, qa_sounding = True,
                             qa_onended = Some InvalidNoticeEnded, qa_onerror = Some InvalidNoticeEnded,
                             qa_play_catch = Some InvalidNoticeEnded\<rparr>,
      startListeningRef := Some (cap shuffled Speaking None 3 False),
      recognizers := first_recognizers shuffled @
         [\<lparr>qr_state = RStarted, qr_closure = cap shuffled Idle None 3 False\<rparr>,
          idle_recognizer (cap shuffled Listening None 3 False),
          idle_recognizer (cap shuffled Speaking None 3 False)]\<rparr>"
  using session_first [OF assms(1)] assms(2-)
  by (simp add: heard_def listening_eq [OF assms(1)] asked_eq [OF assms(1)] mounted_eq [OF assms(1)]
      quiz_defs cap_def first_recognizers_def idle_recognizer_def at_index_def)

lemma listens_again:
  assumes "shuffled \<noteq> []"
    and "lc (stripPunctuation (trim spoken)) \<noteq> str ''option''"
    and "stripPunctuation (trim spoken) \<noteq> tamilOption"
    and "answerIndex (lc (stripPunctuation (trim spoken))) (stripPunctuation (trim spoken)) = None"
  shows "step lc (TimerFired 2) (step lc AudioEnded (heard lc shuffled spoken)) = (heard lc shuffled spoken)
     \<lparr>status := Listening, transcript := [], resultProcessedRef := False,
      recognitionRef_quiz := Some 7, timeoutRef := Some 2, nextTimer_quiz := 3,
      audioRef_quiz := Some \<lparr>qa_src = Some SayOptionNumber, qa_paused = True, qa_sounding = False,
                             qa_onended = None, qa_onerror = None,
                             qa_play_catch = Some InvalidNoticeEnded\<rparr>,
      startListeningRef := Some (cap shuffled Listening None 3 False),
      recognizers := first_recognizers shuffled @
         [\<lparr>qr_state = RStarted, qr_closure = cap shuffled Idle None 3 False\<rparr>,
          idle_recognizer (cap shuffled Listening None 3 False),
          idle_recognizer (cap shuffled Speaking None 3 False),
          \<lparr>qr_state = RStarted, qr_closure = cap shuffled Idle None 3 False\<rparr>,
          idle_recognizer (cap shuffled Listening None 3 False)]\<rparr>"
  using session_first [OF assms(1)]
  by (simp add: heard_invalid_eq [where lc = lc, OF assms] listening_eq [OF assms(1)] asked_eq [OF assms(1)]
      mounted_eq [OF assms(1)]
      quiz_defs cap_def first_recognizers_def idle_recognizer_def at_index_def)

lemma finished_twice_eq:
  assumes "correctAnswer q = int k" "k < length (options q)"
    and "lc (stripPunctuation (trim spoken)) \<noteq> str ''option''"
    and "stripPunctuation (trim spoken) \<noteq> tamilOption"
    and "answerIndex (lc (stripPunctuation (trim spoken))) (stripPunctuation (trim spoken)) = Some k"
  shows "gameState (finished_twice lc q k spoken) = Finished
       \<and> score (finished_twice lc q k spoken) = 2
       \<and> sessionQuestions (finished_twice lc q k spoken) = [q]
       \<and> currentQuestionIndex (finished_twice lc q k spoken) = 0
       \<and> audioRef_quiz (finished_twice lc q k spoken) = None
       \<and> timers_quiz (finished_twice lc q k spoken) = []
       \<and> status (finished_twice lc q k spoken) = Idle"
proof -
  have ne: "[q] \<noteq> []" by simp
  have a: "correctAnswer (hd [q]) = int k" "k < length (options (hd [q]))"
    using assms by simp_all
  show ?thesis
    using assms
    by (simp add: finished_twice_def answered_twice_eq [where lc = lc, OF ne a assms(3-5)]
        clicked_eq [where lc = lc, OF ne a]
        listening_eq [OF ne] asked_eq [OF ne] mounted_eq [OF ne]
        quiz_defs cap_def first_recognizers_def idle_recognizer_def at_index_def feedback_line_def)
qed

lemma sample_shuffled_first:
  "sample_shuffled \<noteq> []"
  "correctAnswer (hd sample_shuffled) = int 2"
  "2 < length (options (hd sample_shuffled))"
  "length (take 5 sample_shuffled) = 5"
  by (simp_all add: sample_shuffled_def sample_question_def)

lemma run_unfold:
  "run lc [] s = s"
  "run lc (ev # evs) s = run lc evs (step lc ev s)"
  by (simp_all add: run_def)

subsection \<open>Renders settle\<close>

text \<open>No effect writes the state that the dependencies of the question and scorecard
  effects read, so the second round of effects sets no state and there is no third.\<close>

lemma stopAllActivity_kept: "kept_state (stopAllActivity s) = kept_state s"
  by (simp add: kept_state_def stopAllActivity_def Let_def clearTimeout_quiz_def abort_recognizer_def
      split: option.splits)

lemma kept_state_update [simp]: "kept_state (s\<lparr>status := x\<rparr>) = kept_state s"
  "kept_state (s\<lparr>audioRef_quiz := a\<rparr>) = kept_state s"
  "kept_state (s\<lparr>startListeningRef := c\<rparr>) = kept_state s"
  "kept_state (s\<lparr>scorecardTimeout := t\<rparr>) = kept_state s"
  "kept_state (s\<lparr>selectedAnswer := sel, isCorrect := ic, transcript := tr, attemptsLeft := al, isScored := sc\<rparr>) = kept_state s"
  by (simp_all add: kept_state_def)

lemma playQuestionAudio_kept: "kept_state (playQuestionAudio q s) = kept_state s"
  by (simp add: playQuestionAudio_def Let_def stopAllActivity_kept split: option.splits)

lemma question_effect_kept: "kept_state (question_effect snap s) = kept_state s"
  by (simp add: question_effect_def playQuestionAudio_kept split: option.splits)

lemma attach_audio_kept: "kept_state (attach_audio s) = kept_state s"
  by (simp add: attach_audio_def split: option.splits)

lemma scorecard_cleanup_kept: "kept_state (scorecard_cleanup s) = kept_state s"
  by (simp add: scorecard_cleanup_def clearTimeout_quiz_def kept_state_def split: option.splits)

lemma scorecard_effect_kept: "kept_state (scorecard_effect snap s) = kept_state s"
proof -
  have "kept_state (snd (setTimeout_quiz PlayScorecard u)) = kept_state u" for u
    by (simp add: setTimeout_quiz_def kept_state_def)
  then show ?thesis
    by (simp add: scorecard_effect_def Let_def stopAllActivity_kept split: option.splits prod.splits)
      (metis kept_state_update(1,2) snd_conv stopAllActivity_kept)
qed

lemma recognition_effect_kept: "kept_state (recognition_effect snap s) = kept_state s"
  by (simp add: recognition_effect_def kept_state_def)

lemma render_effects_kept: "kept_state (render_effects prev s) = kept_state s"
  by (simp add: render_effects_def Let_def question_effect_kept attach_audio_kept
      scorecard_cleanup_kept scorecard_effect_kept recognition_effect_kept)

lemma render_effects_same_deps:
  assumes "question_deps prev = question_deps s" "scorecard_deps prev = scorecard_deps s"
  shows "capture_of (render_effects prev s) = capture_of s"
  using assms
  by (simp add: render_effects_def Let_def attach_audio_def recognition_effect_def capture_of_def
      split: option.splits)

lemma deps_kept: "kept_state a = kept_state b \<Longrightarrow> question_deps a = question_deps b \<and> scorecard_deps a = scorecard_deps b"
  by (simp add: kept_state_def question_deps_def scorecard_deps_def)

lemma commit_settled:
  assumes "isMountedRef s"
  shows "capture_of (commit prev s) = capture_of (render_effects prev s)
   \<and> question_deps (commit prev s) = question_deps (render_effects prev s)
   \<and> scorecard_deps (commit prev s) = scorecard_deps (render_effects prev s)"
proof -
  have c: "commit prev s = render_effects s (render_effects prev s)"
    using assms by (simp add: commit_def)
  have k: "kept_state (render_effects prev s) = kept_state s"
    by (rule render_effects_kept)
  have k2: "kept_state (commit prev s) = kept_state (render_effects prev s)"
    unfolding c by (rule render_effects_kept)
  from deps_kept [OF k [symmetric]] have "capture_of (commit prev s) = capture_of (render_effects prev s)"
    unfolding c by (intro render_effects_same_deps) simp_all
  with deps_kept [OF k2] show ?thesis by simp
qed

subsection \<open>The handlers of a recognizer\<close>

text \<open>What \<open>onend\<close> and \<open>onerror\<close> do, given the render they closed over.\<close>

lemma onend_outcomes:
  "isMountedRef s \<and> c_status c = Listening \<and> resultProcessedRef s
     \<Longrightarrow> onend c s = s\<lparr>status := Idle\<rparr>"
  "isMountedRef s \<and> c_status c = Listening \<and> \<not> resultProcessedRef s
     \<Longrightarrow> onend c s = handleRecognitionFailure c s"
  "c_status c \<noteq> Listening \<Longrightarrow> onend c s = s"
  "onerror_quiz c s = s"
  by (simp_all add: onend_def onerror_quiz_def)

subsection \<open>After an invalid answer\<close>

text \<open>A handler that changes \<open>status\<close> and none of the dependencies of the question and
  scorecard effects is followed by one run of the recognition effect, which creates a
  recognizer and makes it the current one.\<close>

lemma commit_changed:
  assumes "isMountedRef h" "kept_state s = kept_state h" "view_has_audio h"
    and "audioRef_quiz h = Some a" "speechRecognitionAvailable h"
    and "capture_of s \<noteq> capture_of h"
  shows "commit s h =
           h\<lparr>startListeningRef := Some (capture_of h),
             recognizers := recognizers h @ [\<lparr>qr_state = RIdle, qr_closure = capture_of h\<rparr>],
             recognitionRef_quiz := Some (length (recognizers h))\<rparr>"
proof -
  have deps: "question_deps s = question_deps h" "scorecard_deps s = scorecard_deps h"
    using assms(2) by (simp_all add: kept_state_def question_deps_def scorecard_deps_def)
  have at: "attach_audio h = h"
    using assms(3,4) by (simp add: attach_audio_def)
  define h1 where "h1 = h\<lparr>startListeningRef := Some (capture_of h),
             recognizers := recognizers h @ [\<lparr>qr_state = RIdle, qr_closure = capture_of h\<rparr>],
             recognitionRef_quiz := Some (length (recognizers h))\<rparr>"
  have r1: "render_effects s h = h1"
    using assms(5,6) deps
    by (simp add: render_effects_def Let_def at recognition_effect_def h1_def)
  have c1: "capture_of h1 = capture_of h"
    by (simp add: h1_def capture_of_def)
  have deps1: "question_deps h = question_deps h1" "scorecard_deps h = scorecard_deps h1"
    by (simp_all add: h1_def question_deps_def scorecard_deps_def)
  have at1: "attach_audio h1 = h1"
    using assms(3,4) by (simp add: attach_audio_def h1_def view_has_audio_def)
  have r2: "render_effects h h1 = h1"
    using deps1 c1
    by (simp add: render_effects_def Let_def at1) (simp add: h1_def)
  show ?thesis
    using assms(1) unfolding commit_def r1 Let_def r2 h1_def [symmetric] by simp
qed

lemma stopAllActivity_store:
  "length (recognizers (stopAllActivity s)) = length (recognizers s)
   \<and> set (timers_quiz (stopAllActivity s)) \<subseteq> set (timers_quiz s)
   \<and> nextTimer_quiz (stopAllActivity s) = nextTimer_quiz s
   \<and> speechRecognitionAvailable (stopAllActivity s) = speechRecognitionAvailable s
   \<and> kept_state (stopAllActivity s) = kept_state s
   \<and> attemptsLeft (stopAllActivity s) = attemptsLeft s
   \<and> selectedAnswer (stopAllActivity s) = selectedAnswer s
   \<and> isScored (stopAllActivity s) = isScored s
   \<and> isMountedRef (stopAllActivity s) = isMountedRef s
   \<and> (audioRef_quiz (stopAllActivity s) = None) = (audioRef_quiz s = None)"
  by (auto simp add: stopAllActivity_def Let_def clearTimeout_quiz_def abort_recognizer_def
      kept_state_def split: option.splits)

lemma playInvalidAnswerFeedback_store:
  assumes "audioRef_quiz s = Some a"
  shows "length (recognizers (playInvalidAnswerFeedback s)) = length (recognizers s)
   \<and> set (timers_quiz (playInvalidAnswerFeedback s)) \<subseteq> set (timers_quiz s)
   \<and> nextTimer_quiz (playInvalidAnswerFeedback s) = nextTimer_quiz s
   \<and> speechRecognitionAvailable (playInvalidAnswerFeedback s) = speechRecognitionAvailable s
   \<and> kept_state (playInvalidAnswerFeedback s) = kept_state s
   \<and> attemptsLeft (playInvalidAnswerFeedback s) = attemptsLeft s
   \<and> selectedAnswer (playInvalidAnswerFeedback s) = selectedAnswer s
   \<and> isScored (playInvalidAnswerFeedback s) = isScored s
   \<and> isMountedRef (playInvalidAnswerFeedback s) = isMountedRef s
   \<and> status (playInvalidAnswerFeedback s) = Speaking
   \<and> (\<exists>a'. audioRef_quiz (playInvalidAnswerFeedback s) = Some (speak SayOptionNumber InvalidNoticeEnded a'))"
proof -
  obtain a0 where a0: "audioRef_quiz (stopAllActivity s) = Some a0"
    using stopAllActivity_store [of s] assms by auto
  have "playInvalidAnswerFeedback s =
      (stopAllActivity s)\<lparr>status := Speaking,
         audioRef_quiz := Some (speak SayOptionNumber InvalidNoticeEnded a0)\<rparr>"
    using assms a0 by (simp add: playInvalidAnswerFeedback_def Let_def)
  then show ?thesis
    using stopAllActivity_store [of s] by (auto simp add: kept_state_def)
qed


lemma map_of_fresh:
  assumes "\<forall>p\<in>set xs. fst p \<noteq> t"
  shows "map_of (xs @ [(t, v)]) t = Some v"
  using assms by (induction xs) auto

text \<open>
  The invalid-answer prompt, its end and the timer it sets.  Given a state \<open>h1\<close> in which
  the prompt has just been started, after a state \<open>s\<close> that was not speaking: React
  renders, the prompt ends, and the timer calls the \<open>startListening\<close> of the render in
  which the status is idle, which starts the recognizer created in that render.
\<close>

lemma invalid_notice_restart:
  fixes lc :: "ustring \<Rightarrow> ustring" and h1 s :: quiz
  defines "u1 \<equiv> commit s h1"
  defines "u2 \<equiv> step lc AudioEnded u1"
  defines "u3 \<equiv> step lc (TimerFired (nextTimer_quiz u1)) u2"
  assumes mounted: "isMountedRef h1"
    and kept: "kept_state s = kept_state h1"
    and playing: "gameState h1 = Playing"
    and asked: "at_index (sessionQuestions h1) (currentQuestionIndex h1) = Some q"
    and unanswered: "selectedAnswer h1 = None"
    and changed: "status s \<noteq> Speaking" "status h1 = Speaking"
    and audio: "audioRef_quiz h1 = Some (speak SayOptionNumber InvalidNoticeEnded a1)"
    and available: "speechRecognitionAvailable h1"
    and timers: "\<forall>p\<in>set (timers_quiz h1). fst p < nextTimer_quiz h1"
  shows "status u1 = Speaking \<and> attemptsLeft u1 = attemptsLeft h1
       \<and> status u2 = Idle \<and> attemptsLeft u2 = attemptsLeft h1
       \<and> map_of (timers_quiz u2) (nextTimer_quiz u1) = Some StartListeningLater
       \<and> status u3 = Listening \<and> attemptsLeft u3 = attemptsLeft h1 \<and> selectedAnswer u3 = None
       \<and> \<not> resultProcessedRef u3
       \<and> recognitionRef_quiz u2 = Some (Suc (length (recognizers h1)))
       \<and> at_index (recognizers u3) (Suc (length (recognizers h1)))
            = Some \<lparr>qr_state = RStarted,
                    qr_closure = (capture_of h1)\<lparr>c_status := Idle\<rparr>\<rparr>"
proof -
  have view: "view_has_audio h1"
    using playing asked by (auto simp add: view_has_audio_def at_index_def split: if_splits)
  have ne1: "capture_of s \<noteq> capture_of h1"
    using changed by (auto simp add: capture_of_def)
  define r1 where "r1 = \<lparr>qr_state = RIdle, qr_closure = capture_of h1\<rparr>"
  have u1: "u1 = h1\<lparr>startListeningRef := Some (capture_of h1),
                    recognizers := recognizers h1 @ [r1],
                    recognitionRef_quiz := Some (length (recognizers h1))\<rparr>"
    unfolding u1_def r1_def
    by (rule commit_changed [OF mounted kept view audio available ne1])
  define h2 where "h2 = u1\<lparr>audioRef_quiz := Some ((speak SayOptionNumber InvalidNoticeEnded a1)
                              \<lparr>qa_paused := True, qa_sounding := False, qa_onended := None,
                               qa_onerror := None\<rparr>),
                          status := Idle,
                          timers_quiz := timers_quiz h1 @ [(nextTimer_quiz h1, StartListeningLater)],
                          nextTimer_quiz := Suc (nextTimer_quiz h1),
                          timeoutRef := Some (nextTimer_quiz h1)\<rparr>"
  have e2: "handle_event lc AudioEnded u1 = h2"
    using mounted audio
    by (simp add: handle_event_def u1 h2_def speak_def run_quiz_audio_handler_def
        detach_audio_handlers_def set_timeoutRef_def setTimeout_quiz_def Let_def)
  have m2: "isMountedRef h2" "speechRecognitionAvailable h2" "kept_state u1 = kept_state h2"
    "view_has_audio h2"
    "audioRef_quiz h2 = Some ((speak SayOptionNumber InvalidNoticeEnded a1)
                              \<lparr>qa_paused := True, qa_sounding := False, qa_onended := None,
                               qa_onerror := None\<rparr>)"
    using mounted available view
    by (simp_all add: h2_def u1 kept_state_def view_has_audio_def)
  have ne2: "capture_of u1 \<noteq> capture_of h2"
    using changed by (simp add: capture_of_def h2_def u1)
  define c2 where "c2 = (capture_of h1)\<lparr>c_status := Idle\<rparr>"
  have c2: "capture_of h2 = c2"
    by (simp add: c2_def capture_of_def h2_def u1)
  define r2 where "r2 = \<lparr>qr_state = RIdle, qr_closure = c2\<rparr>"
  have u2: "u2 = h2\<lparr>startListeningRef := Some c2,
                    recognizers := recognizers h1 @ [r1, r2],
                    recognitionRef_quiz := Some (Suc (length (recognizers h1)))\<rparr>"
    unfolding u2_def step_def e2
    using commit_changed [OF m2(1) m2(3) m2(4) m2(5) m2(2) ne2]
    by (simp add: c2 r2_def) (simp add: h2_def u1)
  have t: "nextTimer_quiz u1 = nextTimer_quiz h1"
    by (simp add: u1)
  have fresh: "\<forall>p\<in>set (timers_quiz h1). fst p \<noteq> nextTimer_quiz h1"
    using timers by auto
  have lookup: "map_of (timers_quiz u2) (nextTimer_quiz h1) = Some StartListeningLater"
    using map_of_fresh [OF fresh] by (simp add: u2 h2_def)
  define h3 where "h3 = u2\<lparr>timers_quiz := filter (\<lambda>p. fst p \<noteq> nextTimer_quiz h1) (timers_quiz u2),
                          resultProcessedRef := False, transcript := [], status := Listening,
                          recognizers := recognizers h1 @ [r1, r2\<lparr>qr_state := RStarted\<rparr>]\<rparr>"
  have sel2: "c_status c2 = Idle" "c_selectedAnswer c2 = None"
    using unanswered by (simp_all add: c2_def capture_of_def)
  have idx: "at_index (recognizers h1 @ [r1, r2]) (Suc (length (recognizers h1))) = Some r2"
    by (simp add: at_index_def nth_append)
  have upd: "(recognizers h1 @ [r1, r2])[Suc (length (recognizers h1)) := r2\<lparr>qr_state := RStarted\<rparr>]
               = recognizers h1 @ [r1, r2\<lparr>qr_state := RStarted\<rparr>]"
    by (simp add: list_update_append)
  have e3: "handle_event lc (TimerFired (nextTimer_quiz h1)) u2 = h3"
    using mounted sel2 lookup idx
    by (simp add: handle_event_def run_quiz_timer_def clearTimeout_quiz_def startListening_quiz_def
        Let_def u2 h2_def u1 h3_def r2_def list_update_append)
  have m3: "isMountedRef h3" "speechRecognitionAvailable h3" "kept_state u2 = kept_state h3"
    "view_has_audio h3"
    "audioRef_quiz h3 = Some ((speak SayOptionNumber InvalidNoticeEnded a1)
                              \<lparr>qa_paused := True, qa_sounding := False, qa_onended := None,
                               qa_onerror := None\<rparr>)"
    using mounted available view
    by (simp_all add: h3_def u2 h2_def u1 kept_state_def view_has_audio_def)
  have ne3: "capture_of u2 \<noteq> capture_of h3"
    by (simp add: capture_of_def h3_def u2 h2_def u1)
  have u3: "u3 = h3\<lparr>startListeningRef := Some (capture_of h3),
                    recognizers := recognizers h3 @ [\<lparr>qr_state = RIdle, qr_closure = capture_of h3\<rparr>],
                    recognitionRef_quiz := Some (length (recognizers h3))\<rparr>"
    unfolding u3_def step_def t e3
    by (rule commit_changed [OF m3(1) m3(3) m3(4) m3(5) m3(2) ne3])
  have started: "at_index (recognizers u3) (Suc (length (recognizers h1)))
            = Some \<lparr>qr_state = RStarted, qr_closure = c2\<rparr>"
    by (simp add: u3 h3_def at_index_def nth_append r2_def)
  have a: "status u1 = Speaking \<and> attemptsLeft u1 = attemptsLeft h1"
    using changed by (simp add: u1)
  have b: "status u2 = Idle \<and> attemptsLeft u2 = attemptsLeft h1
       \<and> map_of (timers_quiz u2) (nextTimer_quiz u1) = Some StartListeningLater
       \<and> recognitionRef_quiz u2 = Some (Suc (length (recognizers h1)))"
    using lookup by (simp add: t) (simp add: u2 h2_def u1)
  have c: "status u3 = Listening \<and> attemptsLeft u3 = attemptsLeft h1 \<and> selectedAnswer u3 = None
       \<and> \<not> resultProcessedRef u3"
    using unanswered by (simp add: u3 h3_def u2 h2_def u1)
  from a b c started show ?thesis
    unfolding c2_def by blast
qed

subsection \<open>Spoken answers\<close>

text \<open>
  C10 (as stated, refuted): the claim says that only a transcript equal to exactly
  \<open>option\<close> (or the Tamil word) counts as a recognition failure, and that a transcript
  matching none of the option words triggers the invalid-answer prompt without consuming
  an attempt.  The transcript \<open>Option\<close>, with a capital letter, is neither of the two
  words and contains none of the option words; the handler compares its lowercase form,
  treats it as a recognition failure, and an attempt is consumed.
\<close>

theorem C10_capital_option_counterexample:
  "stripPunctuation (trim (str ''Option'')) \<noteq> str ''option''
   \<and> stripPunctuation (trim (str ''Option'')) \<noteq> tamilOption
   \<and> answerIndex (stripPunctuation (trim (str ''Option''))) (stripPunctuation (trim (str ''Option''))) = None
   \<and> attemptsLeft (listening asciiLower sample_shuffled) = 3
   \<and> heard asciiLower sample_shuffled (str ''Option'')
        = step asciiLower (RecResult 3 (str ''Option'')) (listening asciiLower sample_shuffled)
   \<and> attemptsLeft (heard asciiLower sample_shuffled (str ''Option'')) = 2
   \<and> map_option qa_src (audioRef_quiz (heard asciiLower sample_shuffled (str ''Option''))) = Some (Some NotHeard)"
proof -
  note ne = sample_shuffled_first(1)
  have low: "asciiLower (stripPunctuation (trim (str ''Option''))) = str ''option''"
    by (simp add: eval_strings)
  have a: "stripPunctuation (trim (str ''Option'')) \<noteq> str ''option''
     \<and> stripPunctuation (trim (str ''Option'')) \<noteq> tamilOption
     \<and> answerIndex (stripPunctuation (trim (str ''Option''))) (stripPunctuation (trim (str ''Option''))) = None"
    by (simp add: eval_strings answerIndex_def tamilOption_def tamilOne_def tamilTwo_def tamilThree_def
        tamilFour_def)
  have b: "attemptsLeft (listening asciiLower sample_shuffled) = 3"
    by (simp add: listening_eq [OF ne] asked_eq [OF ne] mounted_eq [OF ne])
  have c: "attemptsLeft (heard asciiLower sample_shuffled (str ''Option'')) = 2
     \<and> map_option qa_src (audioRef_quiz (heard asciiLower sample_shuffled (str ''Option''))) = Some (Some NotHeard)"
    by (simp add: heard_option_eq [where lc = asciiLower, OF ne low])
  have d: "heard asciiLower sample_shuffled (str ''Option'')
        = step asciiLower (RecResult 3 (str ''Option'')) (listening asciiLower sample_shuffled)"
    by (rule heard_def)
  from a b c d show ?thesis by blast
qed

text \<open>
  C10 (amended): in a listening session, that is in a mounted quiz that shows a question,
  with no answer selected, whose status is listening and in which the recognizer that
  delivers the result was created in the render just before listening started (so that
  its handlers closed over the values the state still has), the result handler parses
  the transcript with fixed precedence.  After trimming and stripping full stops, commas
  and question marks, a transcript whose lowercase form is \<open>option\<close>, or that is the Tamil
  word for option, counts as a recognition failure and consumes an attempt.  Otherwise it
  selects option 1 if its lowercase form contains \<open>one\<close> or it contains the Tamil
  numeral or the digit 1, else option 2 for two, else option 3 for three, else option 4
  for four.  A transcript matching none of these triggers the invalid-answer prompt,
  which leaves \<open>attemptsLeft\<close> as it is; when the prompt has ended and its timer fires,
  listening restarts: the status is listening again, the attempts are the same, and the
  recognizer created after the prompt is started, its handlers closed over the same
  values as before.
\<close>

theorem C10_spoken_answer:
  fixes toLowerCase :: "ustring \<Rightarrow> ustring" and spoken :: ustring and s :: quiz and ra :: nat
  defines "cleanTranscript \<equiv> stripPunctuation (trim spoken)"
  defines "lowerCleanTranscript \<equiv> toLowerCase (stripPunctuation (trim spoken))"
  defines "hasOne \<equiv> jsIncludes (toLowerCase (stripPunctuation (trim spoken))) (str ''one'')
                     \<or> jsIncludes (stripPunctuation (trim spoken)) tamilOne
                     \<or> jsIncludes (stripPunctuation (trim spoken)) (str ''1'')"
  defines "hasTwo \<equiv> jsIncludes (toLowerCase (stripPunctuation (trim spoken))) (str ''two'')
                     \<or> jsIncludes (stripPunctuation (trim spoken)) tamilTwo
                     \<or> jsIncludes (stripPunctuation (trim spoken)) (str ''2'')"
  defines "hasThree \<equiv> jsIncludes (toLowerCase (stripPunctuation (trim spoken))) (str ''three'')
                     \<or> jsIncludes (stripPunctuation (trim spoken)) tamilThree
                     \<or> jsIncludes (stripPunctuation (trim spoken)) (str ''3'')"
  defines "hasFour \<equiv> jsIncludes (toLowerCase (stripPunctuation (trim spoken))) (str ''four'')
                     \<or> jsIncludes (stripPunctuation (trim spoken)) tamilFour
                     \<or> jsIncludes (stripPunctuation (trim spoken)) (str ''4'')"
  defines "c \<equiv> (capture_of s)\<lparr>c_status := Idle\<rparr>"
  defines "s1 \<equiv> s\<lparr>resultProcessedRef := True, transcript := youSaid @ spoken\<rparr>"
  defines "handled \<equiv> handle_event toLowerCase (RecResult ra spoken) s"
  defines "u1 \<equiv> step toLowerCase (RecResult ra spoken) s"
  defines "u2 \<equiv> step toLowerCase AudioEnded (step toLowerCase (RecResult ra spoken) s)"
  defines "u3 \<equiv> step toLowerCase (TimerFired (nextTimer_quiz (step toLowerCase (RecResult ra spoken) s)))
                   (step toLowerCase AudioEnded (step toLowerCase (RecResult ra spoken) s))"
  assumes mounted: "isMountedRef s"
    and playing: "gameState s = Playing"
    and asked: "at_index (sessionQuestions s) (currentQuestionIndex s) = Some q"
    and unanswered: "selectedAnswer s = None"
    and listening: "status s = Listening"
    and audio: "audioRef_quiz s = Some a"
    and started: "at_index (recognizers s) ra = Some \<lparr>qr_state = RStarted, qr_closure = c\<rparr>"
    and available: "speechRecognitionAvailable s"
    and timers: "\<forall>p\<in>set (timers_quiz s). fst p < nextTimer_quiz s"
  shows "(lowerCleanTranscript = str ''option'' \<or> cleanTranscript = tamilOption \<longrightarrow>
            handled = handleRecognitionFailure c s1
          \<and> attemptsLeft handled = attemptsLeft s - 1)
       \<and> (lowerCleanTranscript \<noteq> str ''option'' \<and> cleanTranscript \<noteq> tamilOption \<longrightarrow>
            (hasOne \<longrightarrow> handled = handleSelectAnswer c 0 s1 \<and> selectedAnswer handled = Some 0)
          \<and> (\<not> hasOne \<and> hasTwo \<longrightarrow> handled = handleSelectAnswer c 1 s1 \<and> selectedAnswer handled = Some 1)
          \<and> (\<not> hasOne \<and> \<not> hasTwo \<and> hasThree \<longrightarrow>
                handled = handleSelectAnswer c 2 s1 \<and> selectedAnswer handled = Some 2)
          \<and> (\<not> hasOne \<and> \<not> hasTwo \<and> \<not> hasThree \<and> hasFour \<longrightarrow>
                handled = handleSelectAnswer c 3 s1 \<and> selectedAnswer handled = Some 3)
          \<and> (\<not> hasOne \<and> \<not> hasTwo \<and> \<not> hasThree \<and> \<not> hasFour \<longrightarrow>
                handled = playInvalidAnswerFeedback s1
              \<and> status u1 = Speaking
              \<and> attemptsLeft u1 = attemptsLeft s
              \<and> selectedAnswer u1 = None
              \<and> map_option qa_src (audioRef_quiz u1) = Some (Some SayOptionNumber)
              \<and> map_option qa_sounding (audioRef_quiz u1) = Some True
              \<and> status u2 = Idle
              \<and> attemptsLeft u2 = attemptsLeft s
              \<and> status u3 = Listening
              \<and> attemptsLeft u3 = attemptsLeft s
              \<and> selectedAnswer u3 = None
              \<and> \<not> resultProcessedRef u3
              \<and> (\<exists>b. recognitionRef_quiz u2 = Some b
                     \<and> at_index (recognizers u3) b = Some \<lparr>qr_state = RStarted, qr_closure = c\<rparr>)))"
proof -
  have cl: "c_selectedAnswer c = None" "c_attemptsLeft c = attemptsLeft s"
    "at_index (c_sessionQuestions c) (c_currentQuestionIndex c) = Some q"
    using unanswered asked by (simp_all add: c_def capture_of_def)
  have ev: "handled = onresult toLowerCase c spoken s"
    using started by (simp add: handled_def handle_event_def)
  have idx: "answerIndex lowerCleanTranscript cleanTranscript =
      (if hasOne then Some 0 else if hasTwo then Some 1 else if hasThree then Some 2
       else if hasFour then Some 3 else None)"
    by (simp add: answerIndex_def Let_def hasOne_def hasTwo_def hasThree_def hasFour_def
        lowerCleanTranscript_def cleanTranscript_def)
  have res: "handled =
      (if lowerCleanTranscript = str ''option'' \<or> cleanTranscript = tamilOption
       then handleRecognitionFailure c s1
       else case answerIndex lowerCleanTranscript cleanTranscript of
              Some i \<Rightarrow> handleSelectAnswer c i s1
            | None \<Rightarrow> playInvalidAnswerFeedback s1)"
    unfolding ev s1_def lowerCleanTranscript_def cleanTranscript_def
    using mounted cl(1,3)
    by (simp add: onresult_def Let_def)
  have m1: "isMountedRef s1" "audioRef_quiz s1 = Some a" "attemptsLeft s1 = attemptsLeft s"
    "selectedAnswer s1 = None" "kept_state s1 = kept_state s" "gameState s1 = Playing"
    "at_index (sessionQuestions s1) (currentQuestionIndex s1) = Some q"
    "speechRecognitionAvailable s1" "\<forall>p\<in>set (timers_quiz s1). fst p < nextTimer_quiz s1"
    "isScored s1 = isScored s" "sessionVersion s1 = sessionVersion s"
    using mounted audio unanswered playing asked available timers
    by (simp_all add: s1_def kept_state_def)
  have A: "lowerCleanTranscript = str ''option'' \<or> cleanTranscript = tamilOption \<Longrightarrow>
            handled = handleRecognitionFailure c s1 \<and> attemptsLeft handled = attemptsLeft s - 1"
    using handleRecognitionFailure_attempts [OF m1(1) cl(1)] cl(2) by (simp add: res)
  have B: "handled = handleSelectAnswer c i s1 \<and> selectedAnswer handled = Some i"
    if "lowerCleanTranscript \<noteq> str ''option''" "cleanTranscript \<noteq> tamilOption"
       "answerIndex lowerCleanTranscript cleanTranscript = Some i" for i
    using that handleSelectAnswer_selects [OF cl(1), of i s1] by (simp add: res)
  have B0: "handled = handleSelectAnswer c 0 s1 \<and> selectedAnswer handled = Some 0"
    if "lowerCleanTranscript \<noteq> str ''option'' \<and> cleanTranscript \<noteq> tamilOption" "hasOne"
  proof -
    from that have "answerIndex lowerCleanTranscript cleanTranscript = Some 0" by (simp add: idx)
    with that B [of 0] show ?thesis by blast
  qed
  have B1: "handled = handleSelectAnswer c 1 s1 \<and> selectedAnswer handled = Some 1"
    if "lowerCleanTranscript \<noteq> str ''option'' \<and> cleanTranscript \<noteq> tamilOption" "\<not> hasOne \<and> hasTwo"
  proof -
    from that have "answerIndex lowerCleanTranscript cleanTranscript = Some 1" by (simp add: idx)
    with that B [of 1] show ?thesis by blast
  qed
  have B2: "handled = handleSelectAnswer c 2 s1 \<and> selectedAnswer handled = Some 2"
    if "lowerCleanTranscript \<noteq> str ''option'' \<and> cleanTranscript \<noteq> tamilOption"
       "\<not> hasOne \<and> \<not> hasTwo \<and> hasThree"
  proof -
    from that have "answerIndex lowerCleanTranscript cleanTranscript = Some 2" by (simp add: idx)
    with that B [of 2] show ?thesis by blast
  qed
  have B3: "handled = handleSelectAnswer c 3 s1 \<and> selectedAnswer handled = Some 3"
    if "lowerCleanTranscript \<noteq> str ''option'' \<and> cleanTranscript \<noteq> tamilOption"
       "\<not> hasOne \<and> \<not> hasTwo \<and> \<not> hasThree \<and> hasFour"
  proof -
    from that have "answerIndex lowerCleanTranscript cleanTranscript = Some 3" by (simp add: idx)
    with that B [of 3] show ?thesis by blast
  qed
  have C: "handled = playInvalidAnswerFeedback s1
              \<and> status u1 = Speaking
              \<and> attemptsLeft u1 = attemptsLeft s
              \<and> selectedAnswer u1 = None
              \<and> map_option qa_src (audioRef_quiz u1) = Some (Some SayOptionNumber)
              \<and> map_option qa_sounding (audioRef_quiz u1) = Some True
              \<and> status u2 = Idle
              \<and> attemptsLeft u2 = attemptsLeft s
              \<and> status u3 = Listening
              \<and> attemptsLeft u3 = attemptsLeft s
              \<and> selectedAnswer u3 = None
              \<and> \<not> resultProcessedRef u3
              \<and> (\<exists>b. recognitionRef_quiz u2 = Some b
                     \<and> at_index (recognizers u3) b = Some \<lparr>qr_state = RStarted, qr_closure = c\<rparr>)"
    if "lowerCleanTranscript \<noteq> str ''option'' \<and> cleanTranscript \<noteq> tamilOption"
       "\<not> hasOne \<and> \<not> hasTwo \<and> \<not> hasThree \<and> \<not> hasFour"
  proof -
    from that have "answerIndex lowerCleanTranscript cleanTranscript = None" by (simp add: idx)
    with that have r: "handled = playInvalidAnswerFeedback s1"
      by (simp add: res)
    define h1 where "h1 = playInvalidAnswerFeedback s1"
    note p = playInvalidAnswerFeedback_store [OF m1(2), folded h1_def]
    from p obtain a1 where a1: "audioRef_quiz h1 = Some (speak SayOptionNumber InvalidNoticeEnded a1)"
      by blast
    have k: "kept_state s = kept_state h1"
      using p m1(5) by simp
    have h: "isMountedRef h1" "gameState h1 = Playing"
      "at_index (sessionQuestions h1) (currentQuestionIndex h1) = Some q"
      "selectedAnswer h1 = None" "status s \<noteq> Speaking" "status h1 = Speaking"
      "speechRecognitionAvailable h1" "\<forall>p\<in>set (timers_quiz h1). fst p < nextTimer_quiz h1"
      "attemptsLeft h1 = attemptsLeft s"
      using p m1 k playing asked listening by (auto simp add: kept_state_def)
    have cap: "(capture_of h1)\<lparr>c_status := Idle\<rparr> = c"
      using p m1 k unanswered by (simp add: c_def capture_of_def kept_state_def)
    have step1: "step toLowerCase (RecResult ra spoken) s = commit s h1"
      using r by (simp add: step_def handled_def h1_def)
    note restart = invalid_notice_restart [where lc = toLowerCase and s = s,
        OF h(1) k h(2) h(3) h(4) h(5) h(6) a1 h(7) h(8), folded step1 u1_def, folded u2_def u3_def,
        unfolded cap h(9)]
    have v: "view_has_audio h1"
      using h(2,3) by (auto simp add: view_has_audio_def at_index_def split: if_splits)
    have "capture_of s \<noteq> capture_of h1"
      using h(5,6) by (auto simp add: capture_of_def)
    from commit_changed [OF h(1) k v a1 h(7) this]
    have first: "selectedAnswer u1 = None
              \<and> map_option qa_src (audioRef_quiz u1) = Some (Some SayOptionNumber)
              \<and> map_option qa_sounding (audioRef_quiz u1) = Some True"
      unfolding u1_def step1 using h(4) a1 by (simp add: speak_def)
    from r restart first show ?thesis
      unfolding u1_def by blast
  qed
  from A B0 B1 B2 B3 C show ?thesis
    by blast
qed

theorem C10_spoken_answer_witness:
  "isMountedRef (listening asciiLower sample_shuffled)
   \<and> status (listening asciiLower sample_shuffled) = Listening
   \<and> selectedAnswer (listening asciiLower sample_shuffled) = None
   \<and> attemptsLeft (listening asciiLower sample_shuffled) = 3
   \<and> map_option qr_state (at_index (recognizers (listening asciiLower sample_shuffled)) 3) = Some RStarted
   \<and> asciiLower (stripPunctuation (trim (str '' OPTION. ''))) = str ''option''
   \<and> attemptsLeft (handle_event asciiLower (RecResult 3 (str '' OPTION. ''))
                      (listening asciiLower sample_shuffled)) = 2
   \<and> selectedAnswer (handle_event asciiLower (RecResult 3 (str ''Option Two.''))
                      (listening asciiLower sample_shuffled)) = Some 1
   \<and> status (step asciiLower (RecResult 3 (str ''Hello?'')) (listening asciiLower sample_shuffled))
        = Speaking
   \<and> attemptsLeft (step asciiLower (RecResult 3 (str ''Hello?'')) (listening asciiLower sample_shuffled))
        = 3
   \<and> status (run asciiLower [RecResult 3 (str ''Hello?''), AudioEnded, TimerFired 2]
                (listening asciiLower sample_shuffled)) = Listening
   \<and> attemptsLeft (run asciiLower [RecResult 3 (str ''Hello?''), AudioEnded, TimerFired 2]
                (listening asciiLower sample_shuffled)) = 3"
proof -
  note ne = sample_shuffled_first(1)
  define L where "L = listening asciiLower sample_shuffled"
  have cp: "(capture_of L)\<lparr>c_status := Idle\<rparr> = cap sample_shuffled Idle None 3 False"
    by (simp add: L_def listening_eq [OF ne] asked_eq [OF ne] mounted_eq [OF ne] capture_of_def cap_def)
  have st: "isMountedRef L" "gameState L = Playing"
    "at_index (sessionQuestions L) (currentQuestionIndex L) = Some (hd sample_shuffled)"
    "selectedAnswer L = None" "status L = Listening"
    "audioRef_quiz L
       = Some \<lparr>qa_src = Some (QuestionText (question (hd sample_shuffled))), qa_paused = True,
               qa_sounding = False, qa_onended = None,
               qa_onerror = None, qa_play_catch = Some QuestionEnded\<rparr>"
    "at_index (recognizers L) 3 = Some \<lparr>qr_state = RStarted, qr_closure = (capture_of L)\<lparr>c_status := Idle\<rparr>\<rparr>"
    "speechRecognitionAvailable L" "\<forall>p\<in>set (timers_quiz L). fst p < nextTimer_quiz L"
    "attemptsLeft L = 3"
    unfolding cp using session_first [OF ne]
    by (simp_all add: L_def listening_eq [OF ne] asked_eq [OF ne] mounted_eq [OF ne] at_index_def
        first_recognizers_def)
  have nt: "nextTimer_quiz (step asciiLower (RecResult 3 (str ''Hello?'')) L) = 2"
  proof -
    have "step asciiLower (RecResult 3 (str ''Hello?'')) L = heard asciiLower sample_shuffled (str ''Hello?'')"
      by (simp add: heard_def L_def)
    also have "nextTimer_quiz \<dots> = 2"
      by (simp add: heard_invalid_eq [where lc = asciiLower, OF ne] listening_eq [OF ne] asked_eq [OF ne]
          mounted_eq [OF ne] eval_strings answerIndex_def tamilOption_def tamilOne_def tamilTwo_def
          tamilThree_def tamilFour_def)
    finally show ?thesis .
  qed
  have hello: "asciiLower (stripPunctuation (trim (str ''Hello?''))) \<noteq> str ''option''
               \<and> stripPunctuation (trim (str ''Hello?'')) \<noteq> tamilOption"
     "\<not> (jsIncludes (asciiLower (stripPunctuation (trim (str ''Hello?'')))) (str ''one'')
                     \<or> jsIncludes (stripPunctuation (trim (str ''Hello?''))) tamilOne
                     \<or> jsIncludes (stripPunctuation (trim (str ''Hello?''))) (str ''1''))
      \<and> \<not> (jsIncludes (asciiLower (stripPunctuation (trim (str ''Hello?'')))) (str ''two'')
                     \<or> jsIncludes (stripPunctuation (trim (str ''Hello?''))) tamilTwo
                     \<or> jsIncludes (stripPunctuation (trim (str ''Hello?''))) (str ''2''))
      \<and> \<not> (jsIncludes (asciiLower (stripPunctuation (trim (str ''Hello?'')))) (str ''three'')
                     \<or> jsIncludes (stripPunctuation (trim (str ''Hello?''))) tamilThree
                     \<or> jsIncludes (stripPunctuation (trim (str ''Hello?''))) (str ''3''))
      \<and> \<not> (jsIncludes (asciiLower (stripPunctuation (trim (str ''Hello?'')))) (str ''four'')
                     \<or> jsIncludes (stripPunctuation (trim (str ''Hello?''))) tamilFour
                     \<or> jsIncludes (stripPunctuation (trim (str ''Hello?''))) (str ''4''))"
    by (simp_all add: eval_strings tamilOption_def tamilOne_def tamilTwo_def tamilThree_def tamilFour_def)
  have two: "asciiLower (stripPunctuation (trim (str ''Option Two.''))) \<noteq> str ''option''
             \<and> stripPunctuation (trim (str ''Option Two.'')) \<noteq> tamilOption"
    "\<not> (jsIncludes (asciiLower (stripPunctuation (trim (str ''Option Two.'')))) (str ''one'')
                     \<or> jsIncludes (stripPunctuation (trim (str ''Option Two.''))) tamilOne
                     \<or> jsIncludes (stripPunctuation (trim (str ''Option Two.''))) (str ''1''))
     \<and> (jsIncludes (asciiLower (stripPunctuation (trim (str ''Option Two.'')))) (str ''two'')
                     \<or> jsIncludes (stripPunctuation (trim (str ''Option Two.''))) tamilTwo
                     \<or> jsIncludes (stripPunctuation (trim (str ''Option Two.''))) (str ''2''))"
    by (simp_all add: eval_strings tamilOption_def tamilOne_def)
  have opt: "asciiLower (stripPunctuation (trim (str '' OPTION. ''))) = str ''option''"
    by (simp add: eval_strings)
  note at_hello = C10_spoken_answer [where toLowerCase = asciiLower and spoken = "str ''Hello?''"
      and s = L and ra = 3, OF st(1-9), THEN conjunct2, rule_format, OF hello(1),
      THEN conjunct2, THEN conjunct2, THEN conjunct2, THEN conjunct2, rule_format, OF hello(2)]
  note at_two = C10_spoken_answer [where toLowerCase = asciiLower and spoken = "str ''Option Two.''"
      and s = L and ra = 3, OF st(1-9), THEN conjunct2, rule_format, OF two(1),
      THEN conjunct2, THEN conjunct1, rule_format, OF two(2), THEN conjunct2]
  note at_option = C10_spoken_answer [where toLowerCase = asciiLower and spoken = "str '' OPTION. ''"
      and s = L and ra = 3, OF st(1-9), THEN conjunct1, rule_format, OF disjI1, OF opt,
      THEN conjunct2, unfolded st(10)]
  have r1: "attemptsLeft (handle_event asciiLower (RecResult 3 (str '' OPTION. '')) L) = 2"
    using at_option by simp
  have r2: "status (step asciiLower (RecResult 3 (str ''Hello?'')) L) = Speaking
      \<and> attemptsLeft (step asciiLower (RecResult 3 (str ''Hello?'')) L) = 3"
    using at_hello [THEN conjunct2, THEN conjunct1]
      at_hello [THEN conjunct2, THEN conjunct2, THEN conjunct1, unfolded st(10)]
    by (rule conjI)
  have r3: "status (run asciiLower [RecResult 3 (str ''Hello?''), AudioEnded, TimerFired 2] L) = Listening
      \<and> attemptsLeft (run asciiLower [RecResult 3 (str ''Hello?''), AudioEnded, TimerFired 2] L) = 3"
    using at_hello [THEN conjunct2, THEN conjunct2, THEN conjunct2, THEN conjunct2, THEN conjunct2,
        THEN conjunct2, THEN conjunct2, THEN conjunct2, THEN conjunct1, unfolded nt]
      at_hello [THEN conjunct2, THEN conjunct2, THEN conjunct2, THEN conjunct2, THEN conjunct2,
        THEN conjunct2, THEN conjunct2, THEN conjunct2, THEN conjunct2, THEN conjunct1,
        unfolded nt st(10)]
    by (simp add: run_unfold)
  have r0: "map_option qr_state (at_index (recognizers L) 3) = Some RStarted"
    by (simp add: st(7))
  from st(1,5,4,10) r0 opt r1 at_two r2 r3 show ?thesis
    unfolding L_def by blast
qed

subsection \<open>Listening and speaking\<close>

text \<open>What the design provides: \<open>startListening\<close> does nothing unless the status it closed
  over is idle and no answer is selected, and every playback routine first aborts the
  recognizer that \<open>recognitionRef\<close> holds at that moment.\<close>

lemma startListening_quiz_guard:
  "c_status c \<noteq> Idle \<or> c_selectedAnswer c \<noteq> None \<Longrightarrow> startListening_quiz c s = s"
  by (auto simp add: startListening_quiz_def split: option.splits)

lemma stopAllActivity_aborts_current:
  "recognitionRef_quiz s = Some a \<Longrightarrow>
   map_option qr_state (at_index (recognizers (stopAllActivity s)) a) \<noteq> Some RStarted"
  by (auto simp add: stopAllActivity_def Let_def clearTimeout_quiz_def abort_recognizer_def at_index_def
      split: option.splits)

text \<open>
  C1 (the code breaks it): the claim says that in every reachable state the recognizer is
  not active while feedback or question audio is playing.  For every bank of questions:
  the component is mounted, the first question is read out, the timer starts the
  recognizer, and the user presses the correct option while the recognizer listens.  The
  effect of lines 361 to 435 has by then replaced \<open>recognitionRef\<close> by a new recognizer
  (it runs again whenever \<open>status\<close> changes), so \<open>stopAllActivity\<close> aborts the new, idle
  one; the recognizer that was started, at address 3, is still listening while the
  feedback is spoken.
\<close>

theorem C1_recognizer_listens_during_feedback:
  fixes toLowerCase :: "ustring \<Rightarrow> ustring" and shuffled :: "quiz_question list" and k :: nat
  defines "s \<equiv> run toLowerCase [AudioEnded, TimerFired 1, ClickAnswer k] (mount True shuffled)"
  assumes "shuffled \<noteq> []" "correctAnswer (hd shuffled) = int k" "k < length (options (hd shuffled))"
  shows "status s = Speaking
       \<and> map_option qa_sounding (audioRef_quiz s) = Some True
       \<and> map_option qa_src (audioRef_quiz s) = Some (Some (feedback_line shuffled))
       \<and> map_option qr_state (at_index (recognizers s) 3) = Some RStarted
       \<and> map_option (c_status \<circ> qr_closure) (at_index (recognizers s) 3) = Some Idle
       \<and> recognitionRef_quiz s = Some 5"
proof -
  have "s = clicked toLowerCase shuffled k"
    by (simp add: s_def run_unfold clicked_def listening_def asked_def mounted_def)
  then show ?thesis
    by (simp add: clicked_eq [where lc = toLowerCase, OF assms(2-4)] listening_eq [OF assms(2)]
        asked_eq [OF assms(2)] mounted_eq [OF assms(2)] at_index_def first_recognizers_def cap_def)
qed

theorem C1_recognizer_listens_during_feedback_witness:
  "status (run asciiLower [AudioEnded, TimerFired 1, ClickAnswer 2] (mount True sample_shuffled)) = Speaking
   \<and> map_option qa_sounding
        (audioRef_quiz (run asciiLower [AudioEnded, TimerFired 1, ClickAnswer 2] (mount True sample_shuffled)))
       = Some True
   \<and> map_option qa_src
        (audioRef_quiz (run asciiLower [AudioEnded, TimerFired 1, ClickAnswer 2] (mount True sample_shuffled)))
       = Some (Some CorrectNext)
   \<and> map_option qr_state
        (at_index (recognizers (run asciiLower [AudioEnded, TimerFired 1, ClickAnswer 2]
                      (mount True sample_shuffled))) 3)
       = Some RStarted"
proof -
  note b = sample_shuffled_first(1-3)
  have "feedback_line sample_shuffled = CorrectNext"
    unfolding feedback_line_def sample_shuffled_first(4) by simp
  with C1_recognizer_listens_during_feedback [of sample_shuffled 2 asciiLower, OF b]
  show ?thesis by simp
qed

text \<open>
  C6 (the code breaks it): the claim says that when a listening session ends without a
  processed result, \<open>onend\<close> invokes \<open>handleRecognitionFailure\<close>.  For every bank of
  questions: the recognizer is started and then reports an error and ends without a
  result.  The handlers of the started recognizer closed over the render in which
  \<open>status\<close> was idle, so \<open>onend\<close> finds \<open>status === 'listening'\<close> false and does nothing:
  no attempt is consumed, nothing is spoken, no timer is pending, and the status stays
  at listening.  \<open>handleRecognitionFailure\<close> of the current render would have consumed an
  attempt.
\<close>

theorem C6_silent_session_is_not_handled:
  fixes toLowerCase :: "ustring \<Rightarrow> ustring" and shuffled :: "quiz_question list"
  defines "s \<equiv> run toLowerCase [AudioEnded, TimerFired 1, RecError 3, RecEnd 3] (mount True shuffled)"
  assumes "shuffled \<noteq> []"
  shows "status s = Listening
       \<and> attemptsLeft s = 3
       \<and> \<not> resultProcessedRef s
       \<and> list_all (\<lambda>r. qr_state r = RIdle) (recognizers s)
       \<and> timers_quiz s = []
       \<and> map_option qa_sounding (audioRef_quiz s) = Some False
       \<and> selectedAnswer s = None
       \<and> attemptsLeft (handleRecognitionFailure (capture_of s) s) = 2"
proof -
  have eq: "s = silence toLowerCase shuffled"
    by (simp add: s_def run_unfold silence_def listening_def asked_def mounted_def)
  have a: "status s = Listening \<and> attemptsLeft s = 3 \<and> \<not> resultProcessedRef s
       \<and> list_all (\<lambda>r. qr_state r = RIdle) (recognizers s)
       \<and> timers_quiz s = []
       \<and> map_option qa_sounding (audioRef_quiz s) = Some False
       \<and> selectedAnswer s = None \<and> isMountedRef s"
    unfolding eq
    by (simp add: silence_eq [OF assms(2)] listening_eq [OF assms(2)]
        asked_eq [OF assms(2)] mounted_eq [OF assms(2)] first_recognizers_def idle_recognizer_def)
  then have "attemptsLeft (handleRecognitionFailure (capture_of s) s) = c_attemptsLeft (capture_of s) - 1"
    by (intro handleRecognitionFailure_attempts) (simp_all add: capture_of_def)
  with a show ?thesis by (simp add: capture_of_def)
qed

theorem C6_silent_session_is_not_handled_witness:
  "status (run asciiLower [AudioEnded, TimerFired 1, RecError 3, RecEnd 3] (mount True sample_shuffled))
     = Listening
   \<and> attemptsLeft (run asciiLower [AudioEnded, TimerFired 1, RecError 3, RecEnd 3] (mount True sample_shuffled))
     = 3
   \<and> timers_quiz (run asciiLower [AudioEnded, TimerFired 1, RecError 3, RecEnd 3] (mount True sample_shuffled))
     = []"
proof -
  from C6_silent_session_is_not_handled [of sample_shuffled asciiLower, OF sample_shuffled_first(1)]
  show ?thesis by simp
qed

subsection \<open>The score\<close>

text \<open>What holds of a session: it has at most five questions, as many as the bank allows,
  all of them from the shuffled bank; each question starts with three attempts, no
  selected answer and not scored; and a handler whose render saw the question scored
  does not raise the score.\<close>

lemma startNewQuiz_session:
  "sessionQuestions (startNewQuiz shuffled s) = take 5 shuffled
   \<and> length (sessionQuestions (startNewQuiz shuffled s)) = min 5 (length shuffled)
   \<and> set (sessionQuestions (startNewQuiz shuffled s)) \<subseteq> set shuffled
   \<and> score (startNewQuiz shuffled s) = 0
   \<and> currentQuestionIndex (startNewQuiz shuffled s) = 0"
  by (auto simp add: startNewQuiz_def min_def dest: in_set_takeD)

lemma question_effect_resets:
  assumes "gameState snap = Playing" "at_index (sessionQuestions snap) (currentQuestionIndex snap) = Some q"
  shows "attemptsLeft (question_effect snap s) = 3
       \<and> selectedAnswer (question_effect snap s) = None
       \<and> isScored (question_effect snap s) = False"
proof -
  have "sessionQuestions snap \<noteq> []"
    using assms(2) by (auto simp add: at_index_def split: if_splits)
  then show ?thesis
    using assms stopAllActivity_keeps
      [of "s\<lparr>selectedAnswer := None, isCorrect := None, transcript := [], attemptsLeft := 3, isScored := False\<rparr>"]
    by (simp add: question_effect_def playQuestionAudio_def Let_def split: option.splits)
qed

lemma handleSelectAnswer_score:
  "score (handleSelectAnswer c i s) \<le> score s + 1
   \<and> score s \<le> score (handleSelectAnswer c i s)
   \<and> (c_isScored c \<longrightarrow> score (handleSelectAnswer c i s) = score s)"
  using stopAllActivity_keeps [of s]
  by (simp add: handleSelectAnswer_def Let_def playFeedbackAudio_keeps split: option.splits)

text \<open>
  C9 (the code breaks it): the claim says that a question raises the score at most once,
  so that the score never exceeds the number of questions of the session.  For every
  bank: the recognizer listens, the user presses the correct option (the score becomes
  1) and the recognizer, which is still listening (see C1), then delivers the same
  answer.  Its handlers closed over the render before the press, in which no answer was
  selected and the question was not scored, so the score is raised again: it is 2 while
  the first question is still the current one.  With a bank of one question the session
  ends with score 2 out of 1, and the scorecard shows 200 percent.
\<close>

theorem C9_question_scored_twice:
  fixes toLowerCase :: "ustring \<Rightarrow> ustring" and shuffled :: "quiz_question list" and k :: nat
    and spoken :: ustring and q :: quiz_question
  defines "s \<equiv> run toLowerCase [AudioEnded, TimerFired 1, ClickAnswer k, RecResult 3 spoken]
                   (mount True shuffled)"
  defines "f \<equiv> run toLowerCase [AudioEnded, TimerFired 1, ClickAnswer k, RecResult 3 spoken,
                                 AudioEnded, TimerFired 2] (mount True [q])"
  assumes "shuffled \<noteq> []" "correctAnswer (hd shuffled) = int k" "k < length (options (hd shuffled))"
    and "correctAnswer q = int k" "k < length (options q)"
    and "toLowerCase (stripPunctuation (trim spoken)) \<noteq> str ''option''"
    and "stripPunctuation (trim spoken) \<noteq> tamilOption"
    and "answerIndex (toLowerCase (stripPunctuation (trim spoken))) (stripPunctuation (trim spoken)) = Some k"
  shows "score s = 2 \<and> currentQuestionIndex s = 0 \<and> gameState s = Playing
       \<and> sessionQuestions s = take 5 shuffled
       \<and> gameState f = Finished \<and> score f = 2 \<and> length (sessionQuestions f) = 1
       \<and> scorePercent (score f) (length (sessionQuestions f)) = 200"
proof -
  have s: "s = answered_twice toLowerCase shuffled k spoken"
    by (simp add: s_def run_unfold answered_twice_def clicked_def listening_def asked_def mounted_def)
  have f: "f = finished_twice toLowerCase q k spoken"
    by (simp add: f_def run_unfold finished_twice_def answered_twice_def clicked_def listening_def
        asked_def mounted_def)
  have a: "score s = 2 \<and> currentQuestionIndex s = 0 \<and> gameState s = Playing
       \<and> sessionQuestions s = take 5 shuffled"
    unfolding s
    by (simp add: answered_twice_eq [where lc = toLowerCase, OF assms(3-5) assms(8-10)]
        clicked_eq [where lc = toLowerCase, OF assms(3-5)] listening_eq [OF assms(3)]
        asked_eq [OF assms(3)] mounted_eq [OF assms(3)])
  note b = finished_twice_eq [where lc = toLowerCase, OF assms(6-10)]
  have "scorePercent 2 1 = 200"
    by (simp add: scorePercent_eq)
  with a b show ?thesis
    unfolding f by simp
qed

theorem C9_question_scored_twice_witness:
  "score (run asciiLower [AudioEnded, TimerFired 1, ClickAnswer 2, RecResult 3 (str ''Option three'')]
            (mount True sample_shuffled)) = 2
   \<and> currentQuestionIndex
        (run asciiLower [AudioEnded, TimerFired 1, ClickAnswer 2, RecResult 3 (str ''Option three'')]
            (mount True sample_shuffled)) = 0
   \<and> score (run asciiLower [AudioEnded, TimerFired 1, ClickAnswer 2, RecResult 3 (str ''Option three''),
                             AudioEnded, TimerFired 2] (mount True [sample_question 1 2])) = 2
   \<and> length (sessionQuestions
        (run asciiLower [AudioEnded, TimerFired 1, ClickAnswer 2, RecResult 3 (str ''Option three''),
                         AudioEnded, TimerFired 2] (mount True [sample_question 1 2]))) = 1"
proof -
  have sp: "asciiLower (stripPunctuation (trim (str ''Option three''))) \<noteq> str ''option''"
    "stripPunctuation (trim (str ''Option three'')) \<noteq> tamilOption"
    "answerIndex (asciiLower (stripPunctuation (trim (str ''Option three''))))
       (stripPunctuation (trim (str ''Option three''))) = Some 2"
    by (simp_all add: eval_strings answerIndex_def tamilOption_def tamilOne_def tamilTwo_def tamilThree_def
        tamilFour_def)
  have q: "correctAnswer (sample_question 1 2) = int 2" "2 < length (options (sample_question 1 2))"
    by (simp_all add: sample_question_def)
  note b = sample_shuffled_first(1-3)
  from C9_question_scored_twice [of sample_shuffled 2 "sample_question 1 2" asciiLower "str ''Option three''",
      OF b q sp]
  show ?thesis by simp
qed

end
